theory Spec2Isabelle
  imports Main "HOL-Library.Sublist"
begin

section \<open>JavaScript values and the built-ins the tracker relies on\<close>

text \<open>
  The tracker tool (\<^verbatim>\<open>src/tools/tracker.ts\<close>) turns a MetaTFT tracker payload into a
  JSON report. Payload objects are modelled as records that follow the TypeScript
  interfaces of the source; since the payload is external JSON, every property may be
  absent (\<open>None\<close> is JavaScript's \<open>undefined\<close>), while a property that is present has
  the type its interface declares. An element of the stage array and an entry of a
  \<^verbatim>\<open>Record\<close> may be \<^verbatim>\<open>null\<close> instead of an object, and the code dereferences them
  unguarded. Where the code tests a value by truthiness or optional chaining (an
  object-valued property, a shop of the list \<^verbatim>\<open>shops\<close>), \<^verbatim>\<open>null\<close> takes the branches of
  the absent value and is not modelled apart. Numbers are the integers (\<open>Num\<close>) and
  \<open>NaN\<close>: the payload's counts and damage values are integers, on which IEEE doubles
  are exact below \<open>2 ^ 53\<close>. Strings are lists of 8-bit characters; case conversion
  and white space are modelled on ASCII.
\<close>

datatype number = NaN | Num int

datatype jsval =
    JUndef
  | JNull
  | JBool bool
  | JNum number
  | JStr string
  | JArr "jsval list"
  | JObj "(string \<times> jsval) list"

datatype error = Error string | TypeError string | SyntaxError string

fun message :: "error \<Rightarrow> string" where
  "message (Error m) = m"
| "message (TypeError m) = m"
| "message (SyntaxError m) = m"

text \<open>Truthiness of a number: \<open>NaN\<close> and \<open>0\<close> are falsy.\<close>

fun truthy :: "number \<Rightarrow> bool" where
  "truthy NaN = False"
| "truthy (Num i) = (i \<noteq> 0)"

text \<open>\<open>n || d\<close> on numbers.\<close>

definition or_else :: "number \<Rightarrow> int \<Rightarrow> number" where
  "or_else n d = (if truthy n then n else Num d)"

text \<open>\<open>a - b\<close>, \<open>n > 0\<close> and \<open>Math.max(a, b)\<close> on numbers; \<open>undefined\<close> converts to \<open>NaN\<close>.\<close>

fun to_number :: "int option \<Rightarrow> number" where
  "to_number None = NaN"
| "to_number (Some i) = Num i"

fun minus_num :: "number \<Rightarrow> number \<Rightarrow> number" where
  "minus_num (Num a) (Num b) = Num (a - b)"
| "minus_num _ _ = NaN"

fun positive :: "number \<Rightarrow> bool" where
  "positive NaN = False"
| "positive (Num i) = (0 < i)"

fun Math_max :: "number \<Rightarrow> number \<Rightarrow> number" where
  "Math_max (Num a) (Num b) = Num (max a b)"
| "Math_max _ _ = NaN"

text \<open>
  \<open>Math.round(t / c)\<close> for integers \<open>t\<close> and \<open>c > 0\<close>: the quotient rounded to the
  nearest integer, halves upwards.
\<close>

definition Math_round_div :: "int \<Rightarrow> int \<Rightarrow> int" where
  "Math_round_div t c = (2 * t + c) div (2 * c)"

text \<open>How an optional string or number appears as a property value of the output.\<close>

fun str_val :: "string option \<Rightarrow> jsval" where
  "str_val None = JUndef"
| "str_val (Some s) = JStr s"

fun num_val :: "int option \<Rightarrow> jsval" where
  "num_val None = JUndef"
| "num_val (Some i) = JNum (Num i)"

text \<open>\<open>String(x)\<close> of an optional string, as a template literal computes it.\<close>

fun to_text :: "string option \<Rightarrow> string" where
  "to_text None = ''undefined''"
| "to_text (Some s) = s"

subsection \<open>Characters and strings\<close>

definition is_digit :: "char \<Rightarrow> bool" where
  "is_digit c \<longleftrightarrow> c \<in> set ''0123456789''"

definition is_upper :: "char \<Rightarrow> bool" where
  "is_upper c \<longleftrightarrow> c \<in> set ''ABCDEFGHIJKLMNOPQRSTUVWXYZ''"

definition is_space :: "char \<Rightarrow> bool" where
  "is_space c \<longleftrightarrow> c \<in> set [CHR '' '', CHR 0x09, CHR 0x0A, CHR 0x0B, CHR 0x0C, CHR 0x0D]"

definition is_line_terminator :: "char \<Rightarrow> bool" where
  "is_line_terminator c \<longleftrightarrow> c = CHR 0x0A \<or> c = CHR 0x0D"

definition lower_char :: "char \<Rightarrow> char" where
  "lower_char c =
     (case map_of (zip ''ABCDEFGHIJKLMNOPQRSTUVWXYZ'' ''abcdefghijklmnopqrstuvwxyz'') c of
        Some d \<Rightarrow> d
      | None \<Rightarrow> c)"

definition toLowerCase :: "string \<Rightarrow> string" where
  "toLowerCase s = map lower_char s"

text \<open>\<open>s.includes(t)\<close>: \<open>t\<close> occurs in \<open>s\<close> as a contiguous substring.\<close>

fun str_includes :: "string \<Rightarrow> string \<Rightarrow> bool" where
  "str_includes [] t = (t = [])"
| "str_includes (c # cs) t = (prefix t (c # cs) \<or> str_includes cs t)"

definition trim :: "string \<Rightarrow> string" where
  "trim s = rev (dropWhile is_space (rev (dropWhile is_space s)))"

text \<open>The value of a digit in radix 10 or 16.\<close>

definition digit_value :: "int \<Rightarrow> char \<Rightarrow> int option" where
  "digit_value radix c =
     (case map_of (zip ''0123456789abcdef'' [0, 1, 2, 3, 4, 5, 6, 7, 8, 9, 10, 11, 12, 13, 14, 15] @
                   zip ''ABCDEF'' [10, 11, 12, 13, 14, 15]) c of
        Some v \<Rightarrow> if v < radix then Some v else None
      | None \<Rightarrow> None)"

definition digits_value :: "int \<Rightarrow> string \<Rightarrow> int" where
  "digits_value radix ds = foldl (\<lambda>a c. a * radix + the (digit_value radix c)) 0 ds"

text \<open>
  \<open>parseInt(s)\<close> without a radix: leading white space is skipped, a sign is read, a
  \<open>0x\<close> prefix selects radix 16, and the longest run of digits is converted; without
  a digit the result is \<open>NaN\<close>. An absent argument is the text \<open>undefined\<close>, which has
  no digit.
\<close>

definition parseInt_text :: "string \<Rightarrow> number" where
  "parseInt_text s =
     (let t = dropWhile is_space s;
          neg = (case t of c # _ \<Rightarrow> c = CHR ''-'' | [] \<Rightarrow> False);
          t1 = (case t of c # r \<Rightarrow> if c = CHR ''-'' \<or> c = CHR ''+'' then r else t | [] \<Rightarrow> t);
          hex = (prefix ''0x'' t1 \<or> prefix ''0X'' t1);
          radix = (if hex then 16 else 10);
          t2 = (if hex then drop 2 t1 else t1);
          ds = takeWhile (\<lambda>c. digit_value radix c \<noteq> None) t2
      in if ds = [] then NaN
         else Num ((if neg then - 1 else 1) * digits_value radix ds))"

definition parseInt :: "string option \<Rightarrow> number" where
  "parseInt x = parseInt_text (to_text x)"

text \<open>
  \<open>Array.prototype.sort(cmp)\<close>: a stable sort; \<open>cmp a b > 0\<close> puts \<open>a\<close> after \<open>b\<close>, and a
  comparator result of \<open>NaN\<close> counts as \<open>0\<close>. The model is insertion sort, which yields
  the one stable result whenever the comparator is a consistent ordering.
\<close>

fun js_insert :: "('a \<Rightarrow> 'a \<Rightarrow> number) \<Rightarrow> 'a \<Rightarrow> 'a list \<Rightarrow> 'a list" where
  "js_insert cmp x [] = [x]"
| "js_insert cmp x (y # ys) =
     (if positive (cmp x y) then y # js_insert cmp x ys else x # y # ys)"

definition js_sort :: "('a \<Rightarrow> 'a \<Rightarrow> number) \<Rightarrow> 'a list \<Rightarrow> 'a list" where
  "js_sort cmp xs = foldr (js_insert cmp) xs []"

text \<open>
  \<open>xs.map(f)\<close> with a callback that may throw: the first exception aborts the map.
\<close>

fun map_throwing :: "('a \<Rightarrow> error + 'b) \<Rightarrow> 'a list \<Rightarrow> error + 'b list" where
  "map_throwing f [] = Inr []"
| "map_throwing f (x # xs) =
     (case f x of
        Inl e \<Rightarrow> Inl e
      | Inr y \<Rightarrow> (case map_throwing f xs of Inl e \<Rightarrow> Inl e | Inr ys \<Rightarrow> Inr (y # ys)))"

text \<open>\<open>xs[i]\<close> for a numeric index: \<open>undefined\<close> outside the array.\<close>

definition index :: "'a list \<Rightarrow> int \<Rightarrow> 'a option" where
  "index xs i = (if 0 \<le> i \<and> i < int (length xs) then Some (xs ! nat i) else None)"

text \<open>Reading a property of an output object.\<close>

fun get_prop :: "jsval \<Rightarrow> string \<Rightarrow> jsval option" where
  "get_prop (JObj kvs) k = map_of kvs k"
| "get_prop _ k = None"

section \<open>The tracker payload\<close>

text \<open>
  The interfaces of \<^verbatim>\<open>tracker.ts\<close>. A \<^verbatim>\<open>Record<string, T>\<close> is the list of its
  entries in the object's own property order, which is what \<^verbatim>\<open>Object.values\<close>,
  \<^verbatim>\<open>Object.keys\<close> and \<^verbatim>\<open>Object.entries\<close> enumerate; the value of an entry is an
  object (\<open>Some\<close>) or \<^verbatim>\<open>null\<close> (\<open>None\<close>).
\<close>

record BoardPiece =
  piece_name :: "string option"
  piece_level :: "string option"
  item_1 :: "string option"
  item_2 :: "string option"
  item_3 :: "string option"

record UnitDamage =
  unit_name :: "string option"
  damage :: "int option"
  unit_level :: "int option"

record RoundType =
  rt_stage :: "string option"
  rt_name :: "string option"
  rt_type :: "string option"

record Opponent =
  opp_name :: "string option"
  opp_tag_line :: "string option"

record RoundOutcome =
  outcome :: "string option"

record Xp =
  xp_level :: "int option"

record Me =
  health :: "string option"
  gold :: "string option"
  xp :: "Xp option"

record PlayerStatus =
  ps_health :: "int option"
  ps_xp :: "int option"
  ps_tag_line :: "string option"

record ShopPiece =
  shop_name :: "string option"

record Shop =
  shop_pieces :: "(string \<times> ShopPiece option) list option"

record Metrics =
  board_strength :: "int option"
  board_cost :: "int option"
  bench_cost :: "int option"

record Board =
  board_pieces :: "(string \<times> BoardPiece option) list option"

record Bench =
  bench_pieces :: "(string \<times> BoardPiece option) list option"

record Roster =
  player_status :: "(string \<times> PlayerStatus option) list option"

record MatchInfo =
  round_type :: "RoundType option"
  round_outcome :: "(string \<times> RoundOutcome option) list option"
  opponent :: "Opponent option"

record LocalPlayerDamage =
  units :: "(string \<times> UnitDamage option) list option"

record TrackerStage =
  board :: "Board option"
  bench :: "Bench option"
  me :: "Me option"
  roster :: "Roster option"
  match_info :: "MatchInfo option"
  local_player_damage :: "LocalPlayerDamage option"
  gold_earned :: "int option"
  rerolls :: "int option"
  metrics :: "Metrics option"
  shops :: "Shop list option"

text \<open>
  \<^verbatim>\<open>stage_data\<close> is declared a string holding JSON, and the handler also accepts an
  array that is already decoded. An element of the array is a stage object or
  \<^verbatim>\<open>null\<close>.
\<close>

datatype stage_data = StageText string | StageArray "TrackerStage option list"

record TrackerData =
  server :: "string option"
  summoner_name :: "string option"
  stage_data :: "stage_data option"
  portal :: "string option"
  summoner_tier :: "string option"
  tft_set_core_name :: "string option"

text \<open>
  The profile of the player lists the matches that have tracker data; its entries are
  taken as the interface declares them. A profile, a payload or a listed match that is
  \<^verbatim>\<open>null\<close> makes a property read throw inside the \<^verbatim>\<open>try\<close> statement of the handler,
  where it has the effect of a fetch that throws this exception.
\<close>

record AppMatch =
  uuid :: string
  match_id_ow :: string
  created_timestamp :: int

record ProfileResponse =
  app_matches :: "AppMatch list option"

text \<open>
  The value of the variable \<^verbatim>\<open>stages\<close>: an array of stage objects and \<^verbatim>\<open>null\<close>s,
  \<^verbatim>\<open>null\<close>, \<^verbatim>\<open>undefined\<close>, or some other value (a number, a string, an object, a
  boolean), which has no \<^verbatim>\<open>map\<close> method. \<^verbatim>\<open>JSON.parse\<close> yields any of these but
  \<^verbatim>\<open>undefined\<close>. Arrays with elements that are neither objects nor \<^verbatim>\<open>null\<close> are
  outside the model.
\<close>

datatype decoded = DArray "TrackerStage option list" | DNull | DUndefined | DOther

section \<open>The surroundings of the core\<close>

text \<open>
  The module state and the collaborators a request reads: the Data Dragon caches of
  \<^verbatim>\<open>datadragon.ts\<close>, the player's game name (\<^verbatim>\<open>getArgs().gameName\<close>, a string: the
  server demands the option when it starts), the outcome of the two awaited fetches (a
  value, or the exception thrown), the platform's \<^verbatim>\<open>JSON.parse\<close> on the stage text, and
  the locale's rendering of a date.
\<close>

record world =
  championsCache :: "string \<rightharpoonup> string"
  itemsCache :: "string \<rightharpoonup> string"
  gameName :: string
  fetchMetaTFTProfile :: "error + ProfileResponse"
  fetchTrackerData :: "string \<Rightarrow> error + TrackerData"
  JSON_parse :: "string \<Rightarrow> error + decoded"
  toLocaleString :: "int \<Rightarrow> string"

subsection \<open>Name resolution (\<^verbatim>\<open>datadragon.ts\<close>)\<close>

text \<open>
  \<^verbatim>\<open>s.match(re)\<close> for a pattern without anchors: the leftmost position where the
  pattern matches decides; \<open>m\<close> matches the pattern at the start of a string and yields
  the text of group 1.
\<close>

fun regex_search :: "(string \<Rightarrow> string option) \<Rightarrow> string \<Rightarrow> string option" where
  "regex_search m [] = m []"
| "regex_search m (c # cs) =
     (case m (c # cs) of Some g \<Rightarrow> Some g | None \<Rightarrow> regex_search m cs)"

text \<open>\<^verbatim>\<open>(.+)\<close>: the longest run of characters up to a line terminator, at least one.\<close>

definition dot_plus :: "string \<Rightarrow> string option" where
  "dot_plus s =
     (let g = takeWhile (\<lambda>c. \<not> is_line_terminator c) s in if g = [] then None else Some g)"

text \<open>\<^verbatim>\<open>/TFT\d+_(.+)/\<close> at the start of a string.\<close>

definition match_TFT_unit :: "string \<Rightarrow> string option" where
  "match_TFT_unit s =
     (if prefix ''TFT'' s then
        (let r = drop 3 s; ds = takeWhile is_digit r in
         case dropWhile is_digit r of
           c # g \<Rightarrow> if ds \<noteq> [] \<and> c = CHR ''_'' then dot_plus g else None
         | [] \<Rightarrow> None)
      else None)"

text \<open>\<^verbatim>\<open>/TFT_Item_(.+)/\<close> at the start of a string.\<close>

definition match_TFT_Item :: "string \<Rightarrow> string option" where
  "match_TFT_Item s = (if prefix ''TFT_Item_'' s then dot_plus (drop 9 s) else None)"

text \<open>
  \<^verbatim>\<open>getChampionName(apiName)\<close>. The first thing it does is \<^verbatim>\<open>apiName.toLowerCase()\<close>, a
  \<^verbatim>\<open>TypeError\<close> when the name is absent.
\<close>

definition getChampionName :: "world \<Rightarrow> string option \<Rightarrow> error + string" where
  "getChampionName w apiName =
     (case apiName of
        None \<Rightarrow> Inl (TypeError ''Cannot read properties of undefined (reading 'toLowerCase')'')
      | Some a \<Rightarrow>
          Inr (case championsCache w (toLowerCase a) of
                 Some n \<Rightarrow> n
               | None \<Rightarrow> (case regex_search match_TFT_unit a of Some g \<Rightarrow> g | None \<Rightarrow> a)))"

text \<open>
  \<^verbatim>\<open>getItemName(apiName)\<close>; the fallback puts a blank before every capital of the
  matched text and trims the result.
\<close>

definition getItemName :: "world \<Rightarrow> string \<Rightarrow> string" where
  "getItemName w apiName =
     (case itemsCache w (toLowerCase apiName) of
        Some n \<Rightarrow> n
      | None \<Rightarrow>
          (case regex_search match_TFT_Item apiName of
             Some g \<Rightarrow> trim (concat (map (\<lambda>c. if is_upper c then [CHR '' '', c] else [c]) g))
           | None \<Rightarrow> apiName))"

section \<open>Stage normalisation\<close>

text \<open>\<^verbatim>\<open>extractItems(piece)\<close>: the item slots that hold a non-empty string, in slot order.\<close>

definition slot :: "string option \<Rightarrow> string list" where
  "slot x = (case x of Some s \<Rightarrow> if s \<noteq> [] then [s] else [] | None \<Rightarrow> [])"

definition extractItems :: "BoardPiece \<Rightarrow> string list" where
  "extractItems piece = slot (item_1 piece) @ slot (item_2 piece) @ slot (item_3 piece)"

text \<open>
  The object built for a board unit, in \<^verbatim>\<open>formatStageData\<close> and again for the final
  board: \<^verbatim>\<open>{champion, stars: parseInt(u.level) || 1, items}\<close>.
\<close>

definition board_unit :: "world \<Rightarrow> BoardPiece \<Rightarrow> error + jsval" where
  "board_unit w u =
     (case getChampionName w (piece_name u) of
        Inl e \<Rightarrow> Inl e
      | Inr c \<Rightarrow>
          Inr (JObj [(''champion'', JStr c),
                     (''stars'', JNum (or_else (parseInt (piece_level u)) 1)),
                     (''items'', JArr (map (\<lambda>i. JStr (getItemName w i)) (extractItems u)))]))"

text \<open>A bench unit: \<^verbatim>\<open>{champion, stars: parseInt(u.level) || 1}\<close>.\<close>

definition bench_unit :: "world \<Rightarrow> BoardPiece \<Rightarrow> error + jsval" where
  "bench_unit w u =
     (case getChampionName w (piece_name u) of
        Inl e \<Rightarrow> Inl e
      | Inr c \<Rightarrow>
          Inr (JObj [(''champion'', JStr c),
                     (''stars'', JNum (or_else (parseInt (piece_level u)) 1))]))"

text \<open>
  The callbacks applied to the entries of \<^verbatim>\<open>board_pieces\<close> and \<^verbatim>\<open>bench_pieces\<close>: the
  first thing they read is \<^verbatim>\<open>u.name\<close>, a \<^verbatim>\<open>TypeError\<close> when the entry is \<^verbatim>\<open>null\<close>.
\<close>

definition board_piece :: "world \<Rightarrow> BoardPiece option \<Rightarrow> error + jsval" where
  "board_piece w e =
     (case e of
        None \<Rightarrow> Inl (TypeError ''Cannot read properties of null (reading 'name')'')
      | Some u \<Rightarrow> board_unit w u)"

definition bench_piece :: "world \<Rightarrow> BoardPiece option \<Rightarrow> error + jsval" where
  "bench_piece w e =
     (case e of
        None \<Rightarrow> Inl (TypeError ''Cannot read properties of null (reading 'name')'')
      | Some u \<Rightarrow> bench_unit w u)"

text \<open>
  The parts of \<^verbatim>\<open>formatStageData\<close>, one per block of the source; each yields the
  properties its block adds to \<^verbatim>\<open>formatted\<close>, none when its guard fails.
\<close>

definition stage_round :: "TrackerStage \<Rightarrow> (string \<times> jsval) list" where
  "stage_round st =
     (case match_info st of
        None \<Rightarrow> []
      | Some mi \<Rightarrow>
          (case round_type mi of
             None \<Rightarrow> []
           | Some rt \<Rightarrow> [(''stage'', str_val (rt_stage rt)),
                         (''roundType'', str_val (rt_type rt)),
                         (''roundName'', str_val (rt_name rt))]))"

definition stage_opponent :: "TrackerStage \<Rightarrow> (string \<times> jsval) list" where
  "stage_opponent st =
     (case match_info st of
        None \<Rightarrow> []
      | Some mi \<Rightarrow>
          (case opponent mi of
             None \<Rightarrow> []
           | Some opp \<Rightarrow>
               [(''opponent'', JStr (to_text (opp_name opp) @ ''#'' @ to_text (opp_tag_line opp)))]))"

definition xp_level_or_0 :: "Me \<Rightarrow> number" where
  "xp_level_or_0 m = or_else (case xp m of None \<Rightarrow> NaN | Some x \<Rightarrow> to_number (xp_level x)) 0"

definition stage_player :: "TrackerStage \<Rightarrow> (string \<times> jsval) list" where
  "stage_player st =
     (case me st of
        None \<Rightarrow> []
      | Some m \<Rightarrow>
          [(''player'', JObj [(''health'', JNum (or_else (parseInt (health m)) 0)),
                              (''gold'', JNum (or_else (parseInt (gold m)) 0)),
                              (''level'', JNum (xp_level_or_0 m))])])"

definition stage_economy :: "TrackerStage \<Rightarrow> (string \<times> jsval) list" where
  "stage_economy st =
     (case gold_earned st of None \<Rightarrow> [] | Some g \<Rightarrow> [(''goldEarned'', JNum (Num g))]) @
     (case rerolls st of None \<Rightarrow> [] | Some r \<Rightarrow> [(''rerolls'', JNum (Num r))])"

definition stage_board :: "world \<Rightarrow> TrackerStage \<Rightarrow> error + (string \<times> jsval) list" where
  "stage_board w st =
     (case board st of
        None \<Rightarrow> Inr []
      | Some b \<Rightarrow>
          (case board_pieces b of
             None \<Rightarrow> Inr []
           | Some entries \<Rightarrow>
               if entries = [] then Inr []
               else (case map_throwing (board_piece w) (map snd entries) of
                       Inl e \<Rightarrow> Inl e
                     | Inr us \<Rightarrow> Inr [(''board'', JArr us)])))"

definition stage_bench :: "world \<Rightarrow> TrackerStage \<Rightarrow> error + (string \<times> jsval) list" where
  "stage_bench w st =
     (case bench st of
        None \<Rightarrow> Inr []
      | Some b \<Rightarrow>
          (case bench_pieces b of
             None \<Rightarrow> Inr []
           | Some entries \<Rightarrow>
               if entries = [] then Inr []
               else (case map_throwing (bench_piece w) (map snd entries) of
                       Inl e \<Rightarrow> Inl e
                     | Inr us \<Rightarrow> Inr [(''bench'', JArr us)])))"

text \<open>\<^verbatim>\<open>u.damage && u.damage > 0\<close>.\<close>

definition has_damage :: "UnitDamage \<Rightarrow> bool" where
  "has_damage u = (case damage u of None \<Rightarrow> False | Some d \<Rightarrow> d \<noteq> 0 \<and> 0 < d)"

definition damage_or_0 :: "UnitDamage \<Rightarrow> number" where
  "damage_or_0 u = or_else (to_number (damage u)) 0"

definition damage_unit :: "world \<Rightarrow> UnitDamage \<Rightarrow> error + jsval" where
  "damage_unit w u =
     (case getChampionName w (unit_name u) of
        Inl e \<Rightarrow> Inl e
      | Inr c \<Rightarrow>
          Inr (JObj [(''champion'', JStr c),
                     (''damage'', num_val (damage u)),
                     (''stars'', num_val (unit_level u))]))"

text \<open>
  The callback of \<^verbatim>\<open>filter\<close> reads \<^verbatim>\<open>u.damage\<close> of every entry in turn, a
  \<^verbatim>\<open>TypeError\<close> at the first entry that is \<^verbatim>\<open>null\<close>.
\<close>

definition read_damage :: "UnitDamage option \<Rightarrow> error + UnitDamage" where
  "read_damage e =
     (case e of
        None \<Rightarrow> Inl (TypeError ''Cannot read properties of null (reading 'damage')'')
      | Some u \<Rightarrow> Inr u)"

definition stage_unitDamage :: "world \<Rightarrow> TrackerStage \<Rightarrow> error + (string \<times> jsval) list" where
  "stage_unitDamage w st =
     (case local_player_damage st of
        None \<Rightarrow> Inr []
      | Some lpd \<Rightarrow>
          (case units lpd of
             None \<Rightarrow> Inr []
           | Some entries \<Rightarrow>
               (case map_throwing read_damage (map snd entries) of
                  Inl e \<Rightarrow> Inl e
                | Inr objs \<Rightarrow>
                    (let us = js_sort (\<lambda>a b. minus_num (damage_or_0 b) (damage_or_0 a))
                                (filter has_damage objs)
                     in if us = [] then Inr []
                        else (case map_throwing (damage_unit w) us of
                                Inl e \<Rightarrow> Inl e
                              | Inr vs \<Rightarrow> Inr [(''unitDamage'', JArr vs)])))))"

text \<open>
  \<^verbatim>\<open>allPlayers\<close>: the roster entries as \<^verbatim>\<open>{name, health, level}\<close>, sorted by health,
  highest first. An absent or empty tag line leaves the bare name. The callback of
  \<^verbatim>\<open>map\<close> reads \<^verbatim>\<open>data.tag_line\<close> first, a \<^verbatim>\<open>TypeError\<close> when the entry is \<^verbatim>\<open>null\<close>.
\<close>

definition player_entry ::
  "string \<times> PlayerStatus option \<Rightarrow> error + string \<times> int option \<times> int option"
where
  "player_entry e =
     (case e of
        (name, None) \<Rightarrow> Inl (TypeError ''Cannot read properties of null (reading 'tag_line')'')
      | (name, Some d) \<Rightarrow>
          Inr ((case ps_tag_line d of
                  Some t \<Rightarrow> if t \<noteq> [] then name @ ''#'' @ t else name
                | None \<Rightarrow> name),
               ps_health d, ps_xp d))"

definition player_val :: "string \<times> int option \<times> int option \<Rightarrow> jsval" where
  "player_val p =
     (case p of (n, h, l) \<Rightarrow>
        JObj [(''name'', JStr n), (''health'', num_val h), (''level'', num_val l)])"

definition stage_allPlayers :: "TrackerStage \<Rightarrow> error + (string \<times> jsval) list" where
  "stage_allPlayers st =
     (case roster st of
        None \<Rightarrow> Inr []
      | Some r \<Rightarrow>
          (case player_status r of
             None \<Rightarrow> Inr []
           | Some entries \<Rightarrow>
               (case map_throwing player_entry entries of
                  Inl e \<Rightarrow> Inl e
                | Inr ps \<Rightarrow>
                    Inr [(''allPlayers'',
                          JArr (map player_val
                            (js_sort
                               (\<lambda>a b. minus_num (to_number (fst (snd b))) (to_number (fst (snd a))))
                               ps)))])))"

text \<open>
  \<^verbatim>\<open>shop\<close>: the champions of the last shop of the stage, when it has pieces. The
  callback reads \<^verbatim>\<open>s.name\<close>, a \<^verbatim>\<open>TypeError\<close> when the entry is \<^verbatim>\<open>null\<close>.
\<close>

definition shop_piece :: "world \<Rightarrow> ShopPiece option \<Rightarrow> error + string" where
  "shop_piece w e =
     (case e of
        None \<Rightarrow> Inl (TypeError ''Cannot read properties of null (reading 'name')'')
      | Some s \<Rightarrow> getChampionName w (shop_name s))"

definition stage_shop :: "world \<Rightarrow> TrackerStage \<Rightarrow> error + (string \<times> jsval) list" where
  "stage_shop w st =
     (case shops st of
        None \<Rightarrow> Inr []
      | Some ss \<Rightarrow>
          if ss = [] then Inr []
          else (case shop_pieces (last ss) of
                  None \<Rightarrow> Inr []
                | Some entries \<Rightarrow>
                    (case map_throwing (shop_piece w) (map snd entries) of
                       Inl e \<Rightarrow> Inl e
                     | Inr ns \<Rightarrow> Inr [(''shop'', JArr (map JStr ns))])))"

definition stage_metrics :: "TrackerStage \<Rightarrow> (string \<times> jsval) list" where
  "stage_metrics st =
     (case metrics st of
        None \<Rightarrow> []
      | Some m \<Rightarrow>
          [(''metrics'', JObj [(''boardStrength'', num_val (board_strength m)),
                               (''boardCost'', num_val (board_cost m)),
                               (''benchCost'', num_val (bench_cost m))])])"

text \<open>
  \<^verbatim>\<open>formatStageData(stages, stageIndex)\<close>: \<^verbatim>\<open>null\<close> when the index holds no stage,
  otherwise the object \<^verbatim>\<open>formatted\<close>. The blocks run in the order of the source, so the
  first one that throws decides the exception.
\<close>

definition formatStageData :: "world \<Rightarrow> TrackerStage list \<Rightarrow> int \<Rightarrow> error + jsval" where
  "formatStageData w stages stageIndex =
     (case index stages stageIndex of
        None \<Rightarrow> Inr JNull
      | Some st \<Rightarrow>
          (case stage_board w st of Inl e \<Rightarrow> Inl e | Inr boardP \<Rightarrow>
          (case stage_bench w st of Inl e \<Rightarrow> Inl e | Inr benchP \<Rightarrow>
          (case stage_unitDamage w st of Inl e \<Rightarrow> Inl e | Inr damageP \<Rightarrow>
          (case stage_allPlayers st of Inl e \<Rightarrow> Inl e | Inr playersP \<Rightarrow>
          (case stage_shop w st of Inl e \<Rightarrow> Inl e | Inr shopP \<Rightarrow>
             Inr (JObj ([(''stageNumber'', JNum (Num (stageIndex + 1)))] @
                        stage_round st @ stage_opponent st @ stage_player st @
                        stage_economy st @ boardP @ benchP @ damageP @
                        playersP @ shopP @ stage_metrics st))))))))"

section \<open>The compact round summaries\<close>

text \<open>
  The blocks of the callback of \<^verbatim>\<open>formatAllStages\<close>. The outcome is that of the first
  entry of \<^verbatim>\<open>round_outcome\<close> whose key, in lower case, contains the player's game
  name in lower case; \<^verbatim>\<open>myOutcome[1].outcome\<close> is a \<^verbatim>\<open>TypeError\<close> when that entry is
  \<^verbatim>\<open>null\<close>. The callback reads \<^verbatim>\<open>stage.match_info\<close> first, a \<^verbatim>\<open>TypeError\<close> when the
  stage is \<^verbatim>\<open>null\<close>.
\<close>

definition summary_stage :: "TrackerStage \<Rightarrow> (string \<times> jsval) list" where
  "summary_stage st =
     (case match_info st of
        None \<Rightarrow> []
      | Some mi \<Rightarrow>
          (case round_type mi of
             None \<Rightarrow> []
           | Some rt \<Rightarrow> [(''stage'', str_val (rt_stage rt)), (''type'', str_val (rt_type rt))]))"

definition summary_me :: "TrackerStage \<Rightarrow> (string \<times> jsval) list" where
  "summary_me st =
     (case me st of
        None \<Rightarrow> []
      | Some m \<Rightarrow> [(''hp'', JNum (or_else (parseInt (health m)) 0)),
                    (''gold'', JNum (or_else (parseInt (gold m)) 0)),
                    (''level'', JNum (xp_level_or_0 m))])"

definition summary_boardSize :: "TrackerStage \<Rightarrow> (string \<times> jsval) list" where
  "summary_boardSize st =
     (case board st of
        None \<Rightarrow> []
      | Some b \<Rightarrow>
          (case board_pieces b of
             None \<Rightarrow> []
           | Some entries \<Rightarrow> [(''boardSize'', JNum (Num (int (length (map fst entries)))))]))"

definition summary_economy :: "TrackerStage \<Rightarrow> (string \<times> jsval) list" where
  "summary_economy st =
     (case gold_earned st of None \<Rightarrow> [] | Some g \<Rightarrow> [(''income'', JNum (Num g))]) @
     (case rerolls st of
        None \<Rightarrow> []
      | Some r \<Rightarrow> if 0 < r then [(''rerolls'', JNum (Num r))] else [])"

definition summary_outcome :: "world \<Rightarrow> TrackerStage \<Rightarrow> error + (string \<times> jsval) list" where
  "summary_outcome w st =
     (case match_info st of
        None \<Rightarrow> Inr []
      | Some mi \<Rightarrow>
          (case round_outcome mi of
             None \<Rightarrow> Inr []
           | Some entries \<Rightarrow>
               (case find (\<lambda>e. str_includes (toLowerCase (fst e)) (toLowerCase (gameName w)))
                       entries of
                  None \<Rightarrow> Inr []
                | Some (name, None) \<Rightarrow>
                    Inl (TypeError ''Cannot read properties of null (reading 'outcome')'')
                | Some (name, Some myOutcome) \<Rightarrow>
                    Inr [(''outcome'', str_val (outcome myOutcome))])))"

definition round_summary :: "world \<Rightarrow> nat \<times> TrackerStage option \<Rightarrow> error + jsval" where
  "round_summary w p =
     (case p of
        (idx, None) \<Rightarrow>
          Inl (TypeError ''Cannot read properties of null (reading 'match_info')'')
      | (idx, Some st) \<Rightarrow>
          (case summary_outcome w st of
             Inl e \<Rightarrow> Inl e
           | Inr outcomeP \<Rightarrow>
               Inr (JObj ([(''round'', JNum (Num (int idx + 1)))] @ summary_stage st @
                          summary_me st @ summary_boardSize st @ summary_economy st @
                          outcomeP))))"

definition formatAllStages :: "world \<Rightarrow> TrackerStage option list \<Rightarrow> error + jsval list" where
  "formatAllStages w stages = map_throwing (round_summary w) (enumerate 0 stages)"

section \<open>Key stages\<close>

definition keyRounds :: "string list" where
  "keyRounds = [''2-1'', ''3-2'', ''4-2'', ''5-1'', ''6-1'']"

text \<open>\<^verbatim>\<open>stages[i].match_info?.round_type?.stage\<close>.\<close>

definition stageInfo :: "TrackerStage \<Rightarrow> string option" where
  "stageInfo st =
     (case match_info st of
        None \<Rightarrow> None
      | Some mi \<Rightarrow> (case round_type mi of None \<Rightarrow> None | Some rt \<Rightarrow> rt_stage rt))"

text \<open>
  The loop of \<^verbatim>\<open>findKeyProgressionStages\<close> from index \<open>i\<close> on, over the stages that
  remain, with the two variables it updates.
\<close>

fun key_loop :: "int \<Rightarrow> TrackerStage list \<Rightarrow> int list \<Rightarrow> string set \<Rightarrow> int list" where
  "key_loop i [] keyIndices found = keyIndices"
| "key_loop i (st # rest) keyIndices found =
     (case stageInfo st of
        None \<Rightarrow> key_loop (i + 1) rest keyIndices found
      | Some l \<Rightarrow>
          if l \<noteq> [] \<and> l \<in> set keyRounds \<and> l \<notin> found
          then key_loop (i + 1) rest (keyIndices @ [i]) (insert l found)
          else key_loop (i + 1) rest keyIndices found)"

definition findKeyProgressionStages :: "TrackerStage list \<Rightarrow> int list" where
  "findKeyProgressionStages stages =
     (let keyIndices = key_loop 0 stages [] {} in
      if keyIndices = [] \<or> last keyIndices \<noteq> int (length stages) - 1
      then keyIndices @ [int (length stages) - 1]
      else keyIndices)"

section \<open>Carry statistics\<close>

record DamageStats =
  total :: int
  count :: int
  maxStars :: number

record CarryStat =
  champion :: string
  totalDamage :: int
  avgDamage :: int
  roundsPlayed :: int
  carry_maxStars :: number

text \<open>
  \<^verbatim>\<open>damageByUnit\<close> is an ordinary object keyed by champion name. Its own properties
  are enumerated with the array indices first, in ascending order, and the other keys
  after them in the order they were created. An array index is the canonical decimal
  text of an integer up to \<open>2 ^ 32 - 2\<close>.
\<close>

definition is_array_index :: "string \<Rightarrow> bool" where
  "is_array_index k \<longleftrightarrow>
     k \<noteq> [] \<and> list_all is_digit k \<and> (k = ''0'' \<or> hd k \<noteq> CHR ''0'') \<and>
     digits_value 10 k \<le> 4294967294"

definition sorts_before :: "string \<Rightarrow> string \<Rightarrow> bool" where
  "sorts_before k' k \<longleftrightarrow> is_array_index k' \<and> digits_value 10 k' < digits_value 10 k"

definition own_insert :: "string \<Rightarrow> 'v \<Rightarrow> (string \<times> 'v) list \<Rightarrow> (string \<times> 'v) list" where
  "own_insert k v kvs =
     (if is_array_index k
      then takeWhile (\<lambda>e. sorts_before (fst e) k) kvs @ [(k, v)] @
           dropWhile (\<lambda>e. sorts_before (fst e) k) kvs
      else kvs @ [(k, v)])"

text \<open>
  The names that every object inherits from \<^verbatim>\<open>Object.prototype\<close>. For such a name
  \<^verbatim>\<open>damageByUnit[name]\<close> is the inherited function or object, which is truthy: no
  entry is created and the three updates land on the inherited value.
\<close>

definition object_prototype_keys :: "string list" where
  "object_prototype_keys =
     [''constructor'', ''__proto__'', ''hasOwnProperty'', ''isPrototypeOf'',
      ''propertyIsEnumerable'', ''toLocaleString'', ''toString'', ''valueOf'',
      ''__defineGetter__'', ''__defineSetter__'', ''__lookupGetter__'', ''__lookupSetter__'']"

definition bump :: "int \<Rightarrow> number \<Rightarrow> DamageStats \<Rightarrow> DamageStats" where
  "bump d lvl s =
     \<lparr>total = total s + d, count = count s + 1, maxStars = Math_max (maxStars s) lvl\<rparr>"

text \<open>The body of the inner loop of \<^verbatim>\<open>calculateCarryStats\<close> for one unit.\<close>

definition add_unit ::
  "world \<Rightarrow> UnitDamage \<Rightarrow> (string \<times> DamageStats) list \<Rightarrow> error + (string \<times> DamageStats) list"
where
  "add_unit w unit damageByUnit =
     (case damage unit of
        None \<Rightarrow> Inr damageByUnit
      | Some d \<Rightarrow>
          if d \<noteq> 0 \<and> 0 < d then
            (case getChampionName w (unit_name unit) of
               Inl e \<Rightarrow> Inl e
             | Inr name \<Rightarrow>
                 if name \<in> set object_prototype_keys then Inr damageByUnit
                 else
                   (let created =
                          (if map_of damageByUnit name = None
                           then own_insert name \<lparr>total = 0, count = 0, maxStars = Num 0\<rparr>
                                  damageByUnit
                           else damageByUnit)
                    in Inr (map (\<lambda>e. if fst e = name
                                      then (fst e, bump d (to_number (unit_level unit)) (snd e))
                                      else e) created)))
          else Inr damageByUnit)"

text \<open>A loop whose body may throw.\<close>

fun for_each :: "('a \<Rightarrow> 's \<Rightarrow> error + 's) \<Rightarrow> 'a list \<Rightarrow> 's \<Rightarrow> error + 's" where
  "for_each f [] s = Inr s"
| "for_each f (x # xs) s = (case f x s of Inl e \<Rightarrow> Inl e | Inr s' \<Rightarrow> for_each f xs s')"

text \<open>
  The inner loop runs over the entries of \<^verbatim>\<open>units\<close>; its body reads \<^verbatim>\<open>unit.damage\<close>
  first, a \<^verbatim>\<open>TypeError\<close> when the entry is \<^verbatim>\<open>null\<close>.
\<close>

definition add_entry ::
  "world \<Rightarrow> UnitDamage option \<Rightarrow> (string \<times> DamageStats) list \<Rightarrow>
   error + (string \<times> DamageStats) list"
where
  "add_entry w e damageByUnit =
     (case e of
        None \<Rightarrow> Inl (TypeError ''Cannot read properties of null (reading 'damage')'')
      | Some unit \<Rightarrow> add_unit w unit damageByUnit)"

definition add_stage ::
  "world \<Rightarrow> TrackerStage \<Rightarrow> (string \<times> DamageStats) list \<Rightarrow> error + (string \<times> DamageStats) list"
where
  "add_stage w st damageByUnit =
     (case local_player_damage st of
        None \<Rightarrow> Inr damageByUnit
      | Some lpd \<Rightarrow>
          (case units lpd of
             None \<Rightarrow> Inr damageByUnit
           | Some entries \<Rightarrow> for_each (add_entry w) (map snd entries) damageByUnit))"

definition carry_entry :: "string \<times> DamageStats \<Rightarrow> CarryStat" where
  "carry_entry e =
     \<lparr>champion = fst e, totalDamage = total (snd e),
      avgDamage = Math_round_div (total (snd e)) (count (snd e)),
      roundsPlayed = count (snd e), carry_maxStars = maxStars (snd e)\<rparr>"

definition calculateCarryStats :: "world \<Rightarrow> TrackerStage list \<Rightarrow> error + CarryStat list" where
  "calculateCarryStats w stages =
     (case for_each (add_stage w) stages [] of
        Inl e \<Rightarrow> Inl e
      | Inr damageByUnit \<Rightarrow>
          Inr (js_sort (\<lambda>a b. Num (totalDamage b - totalDamage a))
                 (map carry_entry damageByUnit)))"

definition carry_val :: "CarryStat \<Rightarrow> jsval" where
  "carry_val c =
     JObj [(''champion'', JStr (champion c)), (''totalDamage'', JNum (Num (totalDamage c))),
           (''avgDamage'', JNum (Num (avgDamage c))),
           (''roundsPlayed'', JNum (Num (roundsPlayed c))),
           (''maxStars'', JNum (carry_maxStars c))]"

section \<open>The handler\<close>

text \<open>
  The arguments object of the tool as the dispatcher passes it on, unchecked:
  \<^verbatim>\<open>matchId\<close> is required by the declared type and \<^verbatim>\<open>mode\<close> is optional, yet
  either property may be absent, and so may the object itself.
\<close>

record params =
  matchId :: "string option"
  mode :: "string option"

text \<open>
  The value the handler returns. Each element of \<open>content\<close> stands for one entry
  \<^verbatim>\<open>{type: "text", text: JSON.stringify(v, null, 2)}\<close> and is the value \<open>v\<close> that is
  serialised.
\<close>

record tool_result =
  content :: "jsval list"
  isError :: bool

text \<open>\<^verbatim>\<open>matchId.replace(/^[A-Z]+\d*_/, "")\<close>: the region prefix is cut off.\<close>

definition matchNumber :: "string \<Rightarrow> string" where
  "matchNumber mid =
     (case dropWhile is_digit (dropWhile is_upper mid) of
        c # r \<Rightarrow> if takeWhile is_upper mid \<noteq> [] \<and> c = CHR ''_'' then r else mid
      | [] \<Rightarrow> mid)"

text \<open>
  The text \<^verbatim>\<open>JSON.parse\<close> receives for \<^verbatim>\<open>trackerData.stage_data\<close>: a string as it is;
  an array as its elements' texts joined by commas, an object giving
  \<^verbatim>\<open>[object Object]\<close> and \<^verbatim>\<open>null\<close> the empty text.
\<close>

fun join_comma :: "string list \<Rightarrow> string" where
  "join_comma [] = []"
| "join_comma [x] = x"
| "join_comma (x # y # r) = x @ '','' @ join_comma (y # r)"

fun stage_data_text :: "stage_data option \<Rightarrow> string" where
  "stage_data_text None = ''undefined''"
| "stage_data_text (Some (StageText s)) = s"
| "stage_data_text (Some (StageArray xs)) =
     join_comma (map (\<lambda>x. case x of None \<Rightarrow> [] | Some _ \<Rightarrow> ''[object Object]'') xs)"

text \<open>
  \<^verbatim>\<open>try { stages = JSON.parse(stage_data) } catch { stages = stage_data }\<close>: when the
  decoder throws, \<^verbatim>\<open>stages\<close> is the raw value, an array, a string or \<^verbatim>\<open>undefined\<close>.
\<close>

definition parse_stages :: "world \<Rightarrow> stage_data option \<Rightarrow> decoded" where
  "parse_stages w sd =
     (case JSON_parse w (stage_data_text sd) of
        Inr v \<Rightarrow> v
      | Inl _ \<Rightarrow>
          (case sd of
             Some (StageArray xs) \<Rightarrow> DArray xs
           | Some (StageText s) \<Rightarrow> DOther
           | None \<Rightarrow> DUndefined))"

text \<open>
  The stage objects of an array. \<^verbatim>\<open>formatAllStages\<close> runs first and throws on an
  element that is \<^verbatim>\<open>null\<close>, so the code after it meets stage objects only.
\<close>

fun objects :: "'a option list \<Rightarrow> 'a list" where
  "objects [] = []"
| "objects (None # xs) = objects xs"
| "objects (Some x # xs) = x # objects xs"

text \<open>\<^verbatim>\<open>stage?.me?.health\<close>, \<^verbatim>\<open>stage?.me?.gold\<close> and \<^verbatim>\<open>x || d\<close> on strings.\<close>

definition health_of :: "TrackerStage option \<Rightarrow> string option" where
  "health_of s =
     (case s of
        None \<Rightarrow> None
      | Some st \<Rightarrow> (case me st of None \<Rightarrow> None | Some m \<Rightarrow> health m))"

definition gold_of :: "TrackerStage option \<Rightarrow> string option" where
  "gold_of s =
     (case s of
        None \<Rightarrow> None
      | Some st \<Rightarrow> (case me st of None \<Rightarrow> None | Some m \<Rightarrow> gold m))"

definition str_or :: "string option \<Rightarrow> string \<Rightarrow> string" where
  "str_or x d = (case x of Some s \<Rightarrow> if s \<noteq> [] then s else d | None \<Rightarrow> d)"

text \<open>The final board: the units of the last stage, \<^verbatim>\<open>[]\<close> without board pieces.\<close>

definition finalBoard :: "world \<Rightarrow> TrackerStage option \<Rightarrow> error + jsval list" where
  "finalBoard w lastStage =
     (case lastStage of
        None \<Rightarrow> Inr []
      | Some st \<Rightarrow>
          (case board st of
             None \<Rightarrow> Inr []
           | Some b \<Rightarrow>
               (case board_pieces b of
                  None \<Rightarrow> Inr []
                | Some entries \<Rightarrow> map_throwing (board_piece w) (map snd entries))))"

text \<open>The economy totals: the stages' truthy \<^verbatim>\<open>rerolls\<close> and \<^verbatim>\<open>gold_earned\<close> summed.\<close>

definition truthy_or_0 :: "int option \<Rightarrow> int" where
  "truthy_or_0 x = (case x of Some v \<Rightarrow> if v \<noteq> 0 then v else 0 | None \<Rightarrow> 0)"

definition totalRerolls :: "TrackerStage list \<Rightarrow> int" where
  "totalRerolls stages = foldl (\<lambda>acc st. acc + truthy_or_0 (rerolls st)) 0 stages"

definition totalIncome :: "TrackerStage list \<Rightarrow> int" where
  "totalIncome stages = foldl (\<lambda>acc st. acc + truthy_or_0 (gold_earned st)) 0 stages"

text \<open>
  The stage progression: every stage in mode \<^verbatim>\<open>complete\<close>, the key stages in any
  other mode.
\<close>

definition stageProgression :: "world \<Rightarrow> string \<Rightarrow> TrackerStage list \<Rightarrow> error + jsval list" where
  "stageProgression w md stages =
     (if md = ''complete''
      then map_throwing (\<lambda>idx. formatStageData w stages (int idx)) [0 ..< length stages]
      else map_throwing (formatStageData w stages) (findKeyProgressionStages stages))"

text \<open>
  The object \<^verbatim>\<open>result\<close> of the handler, built from the values computed before it:
  the final board, the carry statistics and the stage progression. The compact
  \<^verbatim>\<open>roundProgression\<close> is added in mode \<^verbatim>\<open>summary\<close> only.
\<close>

definition summary_object :: "TrackerStage list \<Rightarrow> jsval" where
  "summary_object stages =
     (let firstStage = index stages 0;
          lastStage = index stages (int (length stages) - 1)
      in JObj [(''startingHealth'', JNum (parseInt_text (str_or (health_of firstStage) ''100''))),
               (''finalHealth'', JNum (parseInt_text (str_or (health_of lastStage) ''0''))),
               (''finalGold'', JNum (parseInt_text (str_or (gold_of lastStage) ''0''))),
               (''totalRerolls'', JNum (Num (totalRerolls stages))),
               (''totalIncome'', JNum (Num (totalIncome stages)))])"

definition result_object ::
  "string \<Rightarrow> string \<Rightarrow> AppMatch \<Rightarrow> TrackerData \<Rightarrow> TrackerStage list \<Rightarrow> jsval list \<Rightarrow>
   jsval list \<Rightarrow> CarryStat list \<Rightarrow> jsval list \<Rightarrow> jsval"
where
  "result_object mid md appMatch trackerData stages hpProgression fb carryStats sp =
     JObj ([(''matchId'', JStr mid),
            (''trackerUuid'', JStr (uuid appMatch)),
            (''server'', str_val (server trackerData)),
            (''summonerName'', str_val (summoner_name trackerData)),
            (''mode'', JStr md),
            (''portal'', str_val (portal trackerData)),
            (''rank'', str_val (summoner_tier trackerData)),
            (''set'', str_val (tft_set_core_name trackerData)),
            (''totalRounds'', JNum (Num (int (length stages)))),
            (''summary'', summary_object stages),
            (''topCarries'', JArr (map carry_val (take 5 carryStats))),
            (''finalBoard'', JArr fb),
            (''stageProgression'', JArr sp)] @
           (if md = ''summary'' then [(''roundProgression'', JArr hpProgression)] else []))"

text \<open>
  The handler from the decoding of \<^verbatim>\<open>stage_data\<close> to the result it returns on
  success. \<^verbatim>\<open>formatAllStages\<close> comes first: a decoded value that is no array makes
  \<^verbatim>\<open>stages.map\<close> throw there, and so do a \<^verbatim>\<open>null\<close> element and a \<^verbatim>\<open>null\<close> outcome of
  the player.
\<close>

definition assemble ::
  "world \<Rightarrow> string \<Rightarrow> string \<Rightarrow> AppMatch \<Rightarrow> TrackerData \<Rightarrow> error + tool_result"
where
  "assemble w mid md appMatch trackerData =
     (case parse_stages w (stage_data trackerData) of
        DOther \<Rightarrow> Inl (TypeError ''stages.map is not a function'')
      | DNull \<Rightarrow> Inl (TypeError ''Cannot read properties of null (reading 'map')'')
      | DUndefined \<Rightarrow> Inl (TypeError ''Cannot read properties of undefined (reading 'map')'')
      | DArray entries \<Rightarrow>
          (case formatAllStages w entries of Inl e \<Rightarrow> Inl e | Inr hpProgression \<Rightarrow>
          (let stages = objects entries;
               lastStage = index stages (int (length stages) - 1)
           in
           case finalBoard w lastStage of Inl e \<Rightarrow> Inl e | Inr fb \<Rightarrow>
           (case calculateCarryStats w stages of Inl e \<Rightarrow> Inl e | Inr carryStats \<Rightarrow>
           (case stageProgression w md stages of Inl e \<Rightarrow> Inl e | Inr sp \<Rightarrow>
              Inr \<lparr>content =
                     [result_object mid md appMatch trackerData stages hpProgression fb
                        carryStats sp],
                   isError = False\<rparr>)))))"

text \<open>The two answers for a match without tracker data.\<close>

definition no_tracker_data :: tool_result where
  "no_tracker_data =
     \<lparr>content =
        [JObj [(''error'', JStr ''No tracker data available. The MetaTFT tracker was not active during any recent games.''),
               (''tip'', JStr ''Tracker data is only available for games played with the MetaTFT overlay/tracker running.'')]],
      isError = True\<rparr>"

definition no_tracker_for_match :: "world \<Rightarrow> string \<Rightarrow> AppMatch list \<Rightarrow> tool_result" where
  "no_tracker_for_match w mid ms =
     \<lparr>content =
        [JObj [(''error'', JStr (''No tracker data for match '' @ mid)),
               (''reason'', JStr ''The MetaTFT tracker was not active during this game.''),
               (''availableMatches'',
                JArr (take 10
                  (map (\<lambda>m. JObj [(''matchId'', JStr (match_id_ow m)),
                                   (''date'', JStr (toLocaleString w (created_timestamp m)))])
                     ms)))]],
      isError = True\<rparr>"

text \<open>
  The body of the \<^verbatim>\<open>try\<close> block: what it returns, or the exception it throws. Its
  first statement is \<^verbatim>\<open>matchId.replace(...)\<close>, a \<^verbatim>\<open>TypeError\<close> when \<^verbatim>\<open>matchId\<close> is
  absent.
\<close>

definition try_block :: "world \<Rightarrow> string option \<Rightarrow> string \<Rightarrow> error + tool_result" where
  "try_block w matchId_opt md =
     (case matchId_opt of
        None \<Rightarrow> Inl (TypeError ''Cannot read properties of undefined (reading 'replace')'')
      | Some mid \<Rightarrow>
     (case fetchMetaTFTProfile w of
        Inl e \<Rightarrow> Inl e
      | Inr profile \<Rightarrow>
          (case app_matches profile of
             None \<Rightarrow> Inr no_tracker_data
           | Some ms \<Rightarrow>
               if ms = [] then Inr no_tracker_data
               else
                 (case find (\<lambda>m. match_id_ow m = matchNumber mid) ms of
                    None \<Rightarrow> Inr (no_tracker_for_match w mid ms)
                  | Some appMatch \<Rightarrow>
                      (case fetchTrackerData w (uuid appMatch) of
                         Inl e \<Rightarrow> Inl e
                       | Inr trackerData \<Rightarrow> assemble w mid md appMatch trackerData)))))"

text \<open>
  The \<^verbatim>\<open>try\<close> statement: the \<^verbatim>\<open>catch\<close> clause turns every exception of the block into
  an error result.
\<close>

definition try_catch :: "world \<Rightarrow> string option \<Rightarrow> string \<Rightarrow> tool_result" where
  "try_catch w matchId_opt md =
     (case try_block w matchId_opt md of
        Inr r \<Rightarrow> r
      | Inl err \<Rightarrow> \<lparr>content = [JObj [(''error'', JStr (message err))]], isError = True\<rparr>)"

text \<open>
  \<^verbatim>\<open>handleTftMatchTracker(params)\<close>: what the call returns (\<open>Inr\<close>), or the exception
  it throws (\<open>Inl\<close>), the function being \<^verbatim>\<open>async\<close> as the rejection of its promise. The
  parameter is destructured before the \<^verbatim>\<open>try\<close> statement is entered, which throws a
  \<^verbatim>\<open>TypeError\<close> when no arguments object is passed; the mode defaults to \<^verbatim>\<open>summary\<close>
  when the property is absent.
\<close>

definition handleTftMatchTracker :: "world \<Rightarrow> params option \<Rightarrow> error + tool_result" where
  "handleTftMatchTracker w params =
     (case params of
        None \<Rightarrow>
          Inl (TypeError
                 ''Cannot destructure property 'matchId' of 'params' as it is undefined.'')
      | Some ps \<Rightarrow>
          Inr (try_catch w (matchId ps)
                 (case mode ps of None \<Rightarrow> ''summary'' | Some m \<Rightarrow> m)))"

section \<open>Reference definitions and example inputs\<close>

text \<open>
  The key-stage selection as the specification words it: an index is selected when its
  label is one of the canonical labels and does not occur at an earlier index; the
  final index is appended unless it is already the last selected one.
\<close>

definition is_first_key :: "string option list \<Rightarrow> nat \<Rightarrow> bool" where
  "is_first_key ls i \<longleftrightarrow> ls ! i \<in> Some ` set keyRounds \<and> ls ! i \<notin> set (take i ls)"

definition first_occurrences :: "string option list \<Rightarrow> nat list" where
  "first_occurrences ls = filter (is_first_key ls) [0 ..< length ls]"

definition key_stage_selection :: "string option list \<Rightarrow> int list" where
  "key_stage_selection ls =
     (let sel = map int (first_occurrences ls); final = int (length ls) - 1
      in if sel \<noteq> [] \<and> last sel = final then sel else sel @ [final])"

text \<open>
  The loop invariant of \<open>key_loop\<close>: the indices it still selects are those whose label
  is canonical, not found so far and not seen earlier in the remaining stages.
\<close>

definition fresh_key :: "string set \<Rightarrow> string option list \<Rightarrow> nat \<Rightarrow> bool" where
  "fresh_key found ls k \<longleftrightarrow>
     (\<exists>l. ls ! k = Some l \<and> l \<in> set keyRounds \<and> l \<notin> found \<and> Some l \<notin> set (take k ls))"

text \<open>Example inputs: a stage object without any property, and one that has a label.\<close>

definition no_stage :: TrackerStage where
  "no_stage =
     \<lparr>board = None, bench = None, me = None, roster = None, match_info = None,
      local_player_damage = None, gold_earned = None, rerolls = None, metrics = None,
      shops = None\<rparr>"

definition labelled :: "string \<Rightarrow> TrackerStage" where
  "labelled l =
     no_stage\<lparr>match_info :=
       Some \<lparr>round_type = Some \<lparr>rt_stage = Some l, rt_name = None, rt_type = None\<rparr>,
             round_outcome = None, opponent = None\<rparr>\<rparr>"

text \<open>
  The match and the payload that the two fetches of the handler deliver for a match id,
  when both succeed and the profile lists the match.
\<close>

definition tracker_of :: "world \<Rightarrow> string \<Rightarrow> (AppMatch \<times> TrackerData) option" where
  "tracker_of w mid =
     (case fetchMetaTFTProfile w of
        Inl _ \<Rightarrow> None
      | Inr profile \<Rightarrow>
          (case app_matches profile of
             None \<Rightarrow> None
           | Some ms \<Rightarrow>
               (case find (\<lambda>m. match_id_ow m = matchNumber mid) ms of
                  None \<Rightarrow> None
                | Some appMatch \<Rightarrow>
                    (case fetchTrackerData w (uuid appMatch) of
                       Inl _ \<Rightarrow> None
                     | Inr trackerData \<Rightarrow> Some (appMatch, trackerData)))))"

text \<open>
  An example world: empty caches, one tracked match \<open>42\<close> stored under \<open>u1\<close>, and a
  \<^verbatim>\<open>JSON.parse\<close> that knows two texts.
\<close>

definition example_parse :: "string \<Rightarrow> error + decoded" where
  "example_parse t =
     (if t = ''[]'' then Inr (DArray [])
      else if t = ''[{}]'' then Inr (DArray [Some no_stage])
      else Inl (SyntaxError ''Unexpected token''))"

definition example_data :: "stage_data option \<Rightarrow> TrackerData" where
  "example_data sd =
     \<lparr>server = Some ''EUW1'', summoner_name = Some ''Thao'', stage_data = sd, portal = None,
      summoner_tier = None, tft_set_core_name = None\<rparr>"

definition example_world :: "stage_data option \<Rightarrow> world" where
  "example_world sd =
     \<lparr>championsCache = Map.empty, itemsCache = Map.empty, gameName = ''Thao'',
      fetchMetaTFTProfile =
        Inr \<lparr>app_matches = Some [\<lparr>uuid = ''u1'', match_id_ow = ''42'', created_timestamp = 0\<rparr>]\<rparr>,
      fetchTrackerData =
        (\<lambda>u. if u = ''u1'' then Inr (example_data sd) else Inl (Error ''S3 fetch error: 404'')),
      JSON_parse = example_parse,
      toLocaleString = (\<lambda>_. ''1/1/1970, 12:00:00 AM'')\<rparr>"

text \<open>
  Two results that hold one object each, with the same value under every key except
  \<^verbatim>\<open>mode\<close> and \<^verbatim>\<open>roundProgression\<close>; the first echoes the mode \<open>md\<close> and, unless that
  is \<^verbatim>\<open>summary\<close>, has no \<^verbatim>\<open>roundProgression\<close>.
\<close>

definition same_but_mode :: "string \<Rightarrow> tool_result \<Rightarrow> tool_result \<Rightarrow> bool" where
  "same_but_mode md r r' \<longleftrightarrow>
     (\<exists>obj obj'. content r = [obj] \<and> content r' = [obj'] \<and>
        (\<forall>k. k \<noteq> ''mode'' \<and> k \<noteq> ''roundProgression'' \<longrightarrow> get_prop obj k = get_prop obj' k) \<and>
        get_prop obj ''mode'' = Some (JStr md) \<and>
        (md \<noteq> ''summary'' \<longrightarrow> get_prop obj ''roundProgression'' = None))"

text \<open>
  The entries of the records of a stage that the normalisation visits: its board and
  bench pieces, its damage units, the pieces of its last shop, its roster and its round
  outcomes. An entry is an object or \<^verbatim>\<open>null\<close>.
\<close>

definition board_entries :: "TrackerStage \<Rightarrow> BoardPiece option list" where
  "board_entries st =
     (case board st of
        None \<Rightarrow> []
      | Some b \<Rightarrow> (case board_pieces b of None \<Rightarrow> [] | Some es \<Rightarrow> map snd es))"

definition bench_entries :: "TrackerStage \<Rightarrow> BoardPiece option list" where
  "bench_entries st =
     (case bench st of
        None \<Rightarrow> []
      | Some b \<Rightarrow> (case bench_pieces b of None \<Rightarrow> [] | Some es \<Rightarrow> map snd es))"

definition unit_entries :: "TrackerStage \<Rightarrow> UnitDamage option list" where
  "unit_entries st =
     (case local_player_damage st of
        None \<Rightarrow> []
      | Some lpd \<Rightarrow> (case units lpd of None \<Rightarrow> [] | Some es \<Rightarrow> map snd es))"

definition last_shop_entries :: "TrackerStage \<Rightarrow> ShopPiece option list" where
  "last_shop_entries st =
     (case shops st of
        None \<Rightarrow> []
      | Some ss \<Rightarrow>
          if ss = [] then []
          else (case shop_pieces (last ss) of None \<Rightarrow> [] | Some es \<Rightarrow> map snd es))"

definition roster_entries :: "TrackerStage \<Rightarrow> PlayerStatus option list" where
  "roster_entries st =
     (case roster st of
        None \<Rightarrow> []
      | Some r \<Rightarrow> (case player_status r of None \<Rightarrow> [] | Some es \<Rightarrow> map snd es))"

definition outcome_entries :: "TrackerStage \<Rightarrow> RoundOutcome option list" where
  "outcome_entries st =
     (case match_info st of
        None \<Rightarrow> []
      | Some mi \<Rightarrow> (case round_outcome mi of None \<Rightarrow> [] | Some es \<Rightarrow> map snd es))"

text \<open>A stage none of whose entries is \<^verbatim>\<open>null\<close>.\<close>

definition entries_are_objects :: "TrackerStage \<Rightarrow> bool" where
  "entries_are_objects st \<longleftrightarrow>
     None \<notin> set (board_entries st) \<and> None \<notin> set (bench_entries st) \<and>
     None \<notin> set (unit_entries st) \<and> None \<notin> set (last_shop_entries st) \<and>
     None \<notin> set (roster_entries st) \<and> None \<notin> set (outcome_entries st)"

text \<open>
  The objects whose names the normalisation resolves carry their names: the board and
  bench pieces, the units with positive damage, and the pieces of the last shop.
\<close>

definition stage_units :: "TrackerStage \<Rightarrow> UnitDamage list" where
  "stage_units st = objects (unit_entries st)"

definition names_present :: "TrackerStage \<Rightarrow> bool" where
  "names_present st \<longleftrightarrow>
     list_all (\<lambda>u. piece_name u \<noteq> None) (objects (board_entries st)) \<and>
     list_all (\<lambda>u. piece_name u \<noteq> None) (objects (bench_entries st)) \<and>
     list_all (\<lambda>u. unit_name u \<noteq> None) (filter has_damage (stage_units st)) \<and>
     list_all (\<lambda>s. shop_name s \<noteq> None) (objects (last_shop_entries st))"

text \<open>
  Example stages: one without board, bench and player block whose only damage record
  lacks its name, and one whose only board piece lacks its name.
\<close>

definition nameless_damage_stage :: TrackerStage where
  "nameless_damage_stage =
     no_stage\<lparr>local_player_damage :=
       Some \<lparr>units =
         Some [(''0'', Some \<lparr>unit_name = None, damage = Some 10, unit_level = Some 1\<rparr>)]\<rparr>\<rparr>"

definition nameless_piece_stage :: TrackerStage where
  "nameless_piece_stage =
     no_stage\<lparr>board :=
       Some \<lparr>board_pieces =
         Some [(''cell_1'', Some \<lparr>piece_name = None, piece_level = Some ''2'', item_1 = None,
                                  item_2 = None, item_3 = None\<rparr>)]\<rparr>\<rparr>"

text \<open>
  Example stages with every name in place and an entry that is \<^verbatim>\<open>null\<close>: in the
  roster, as the round outcome of the player, and among the damage units.
\<close>

definition null_roster_stage :: TrackerStage where
  "null_roster_stage = no_stage\<lparr>roster := Some \<lparr>player_status = Some [(''Thao'', None)]\<rparr>\<rparr>"

definition null_outcome_stage :: TrackerStage where
  "null_outcome_stage =
     no_stage\<lparr>match_info :=
       Some \<lparr>round_type = None, round_outcome = Some [(''Thao#EUW'', None)],
             opponent = None\<rparr>\<rparr>"

definition null_unit_stage :: TrackerStage where
  "null_unit_stage = no_stage\<lparr>local_player_damage := Some \<lparr>units = Some [(''0'', None)]\<rparr>\<rparr>"

text \<open>
  An example stage without board, bench and player block whose other records are
  filled: a named unit with damage, a named shop piece, a roster entry and the round
  outcome of the player. And the same stage with a player block, a named board piece
  and a named bench piece added.
\<close>

definition partial_stage :: TrackerStage where
  "partial_stage =
     no_stage
       \<lparr>roster :=
          Some \<lparr>player_status =
            Some [(''Thao'', Some \<lparr>ps_health = Some 80, ps_xp = Some 5,
                                   ps_tag_line = Some ''EUW''\<rparr>)]\<rparr>,
        match_info :=
          Some \<lparr>round_type =
                  Some \<lparr>rt_stage = Some ''2-1'', rt_name = None, rt_type = Some ''PVP''\<rparr>,
                round_outcome = Some [(''Thao#EUW'', Some \<lparr>outcome = Some ''victory''\<rparr>)],
                opponent = None\<rparr>,
        local_player_damage :=
          Some \<lparr>units =
            Some [(''0'', Some \<lparr>unit_name = Some ''TFT16_Jinx'', damage = Some 120,
                                unit_level = Some 2\<rparr>)]\<rparr>,
        shops := Some [\<lparr>shop_pieces = Some [(''slot_1'', Some \<lparr>shop_name = Some ''TFT16_Vi''\<rparr>)]\<rparr>]\<rparr>"

definition full_stage :: TrackerStage where
  "full_stage =
     partial_stage
       \<lparr>board :=
          Some \<lparr>board_pieces =
            Some [(''cell_1'', Some \<lparr>piece_name = Some ''TFT16_Jinx'', piece_level = Some ''2'',
                                     item_1 = Some ''TFT_Item_Bloodthirster'', item_2 = None,
                                     item_3 = None\<rparr>)]\<rparr>,
        bench :=
          Some \<lparr>bench_pieces =
            Some [(''slot_1'', Some \<lparr>piece_name = Some ''TFT16_Vi'', piece_level = None,
                                     item_1 = None, item_2 = None, item_3 = None\<rparr>)]\<rparr>,
        me := Some \<lparr>health = Some ''80'', gold = Some ''12'', xp = None\<rparr>\<rparr>"

text \<open>
  Example inputs for the numeric strings: a player block without health and gold, one
  whose health is no number, and a board piece without a level.
\<close>

definition blank_player :: Me where
  "blank_player = \<lparr>health = None, gold = None, xp = None\<rparr>"

definition blank_player_stage :: TrackerStage where
  "blank_player_stage = no_stage\<lparr>me := Some blank_player\<rparr>"

definition abc_health_stage :: TrackerStage where
  "abc_health_stage = no_stage\<lparr>me := Some \<lparr>health = Some ''abc'', gold = None, xp = None\<rparr>\<rparr>"

definition unlevelled_piece :: BoardPiece where
  "unlevelled_piece =
     \<lparr>piece_name = Some ''TFT16_Jinx'', piece_level = None, item_1 = None, item_2 = None,
      item_3 = None\<rparr>"

text \<open>
  Two worlds with the same resolver state: the same Data Dragon caches and the same
  game name of the player.
\<close>

definition same_resolver :: "world \<Rightarrow> world \<Rightarrow> bool" where
  "same_resolver w1 w2 \<longleftrightarrow>
     championsCache w1 = championsCache w2 \<and> itemsCache w1 = itemsCache w2 \<and>
     gameName w1 = gameName w2"

text \<open>
  The example world at another time and place: the profile reports another timestamp
  for the match and the locale renders dates differently.
\<close>

definition example_world_elsewhere :: "stage_data option \<Rightarrow> world" where
  "example_world_elsewhere sd =
     (example_world sd)
       \<lparr>fetchMetaTFTProfile :=
          Inr \<lparr>app_matches =
                 Some [\<lparr>uuid = ''u0'', match_id_ow = ''41'', created_timestamp = 5\<rparr>,
                       \<lparr>uuid = ''u1'', match_id_ow = ''42'', created_timestamp = 86400000\<rparr>]\<rparr>,
        toLocaleString := (\<lambda>_. ''02.01.1970, 01:00:00'')\<rparr>"

text \<open>
  A result that is one structured object: a single payload, which has an \<^verbatim>\<open>error\<close>
  property exactly when the result is flagged as an error.
\<close>

definition well_shaped :: "tool_result \<Rightarrow> bool" where
  "well_shaped r \<longleftrightarrow>
     (\<exists>v. content r = [v] \<and> (isError r \<longleftrightarrow> get_prop v ''error'' \<noteq> None))"

text \<open>
  Reference definitions for the carry ranking. The damage records that count are the
  unit objects with positive damage, in stage order and property order; a record belongs to the
  champion name its unit name resolves to. Per name the ranking reports the sum of the
  damage, the number of records and the highest star level.
\<close>

definition damage_records :: "TrackerStage list \<Rightarrow> UnitDamage list" where
  "damage_records stages = filter has_damage (concat (map stage_units stages))"

definition resolved :: "world \<Rightarrow> UnitDamage \<Rightarrow> string" where
  "resolved w u = (case getChampionName w (unit_name u) of Inr n \<Rightarrow> n | Inl _ \<Rightarrow> [])"

definition records_of :: "world \<Rightarrow> string \<Rightarrow> UnitDamage list \<Rightarrow> UnitDamage list" where
  "records_of w n us = filter (\<lambda>u. resolved w u = n) us"

definition damage_of :: "UnitDamage \<Rightarrow> int" where
  "damage_of u = (case damage u of None \<Rightarrow> 0 | Some d \<Rightarrow> d)"

definition total_of :: "world \<Rightarrow> string \<Rightarrow> UnitDamage list \<Rightarrow> int" where
  "total_of w n us = sum_list (map damage_of (records_of w n us))"

definition count_of :: "world \<Rightarrow> string \<Rightarrow> UnitDamage list \<Rightarrow> int" where
  "count_of w n us = int (length (records_of w n us))"

definition stars_of :: "world \<Rightarrow> string \<Rightarrow> UnitDamage list \<Rightarrow> number" where
  "stars_of w n us =
     fold (\<lambda>u m. Math_max m (to_number (unit_level u))) (records_of w n us) (Num 0)"

text \<open>The names of a list in the order in which they are first seen.\<close>

fun first_seen :: "string list \<Rightarrow> string list" where
  "first_seen [] = []"
| "first_seen (x # xs) = x # filter (\<lambda>y. y \<noteq> x) (first_seen xs)"

text \<open>
  An ordinary name: no array index, and no name that objects inherit from
  \<^verbatim>\<open>Object.prototype\<close>.
\<close>

definition plain_name :: "string \<Rightarrow> bool" where
  "plain_name n \<longleftrightarrow> \<not> is_array_index n \<and> n \<notin> set object_prototype_keys"

text \<open>
  The accumulation step of \<open>add_unit\<close> for a record with positive damage and an
  ordinary name: a new name is appended, and the entry of the name is bumped.
\<close>

definition tally :: "world \<Rightarrow> UnitDamage \<Rightarrow> (string \<times> DamageStats) list \<Rightarrow> (string \<times> DamageStats) list"
where
  "tally w u d =
     map (\<lambda>e. if fst e = resolved w u
               then (fst e, bump (damage_of u) (to_number (unit_level u)) (snd e))
               else e)
       (if map_of d (resolved w u) = None
        then d @ [(resolved w u, \<lparr>total = 0, count = 0, maxStars = Num 0\<rparr>)]
        else d)"

definition stat_fold :: "UnitDamage list \<Rightarrow> DamageStats \<Rightarrow> DamageStats" where
  "stat_fold recs s = fold (\<lambda>u. bump (damage_of u) (to_number (unit_level u))) recs s"

text \<open>Example damage records, one stage each.\<close>

definition hit :: "string \<Rightarrow> int \<Rightarrow> TrackerStage" where
  "hit n d =
     no_stage\<lparr>local_player_damage :=
       Some \<lparr>units =
         Some [(''0'', Some \<lparr>unit_name = Some n, damage = Some d, unit_level = Some 2\<rparr>)]\<rparr>\<rparr>"


section \<open>Basic facts about the model\<close>

lemma map_throwing_ok:
  "list_all (\<lambda>x. \<exists>y. f x = Inr y) xs \<Longrightarrow> \<exists>ys. map_throwing f xs = Inr ys"
  by (induction xs) auto

lemma map_throwing_Inr:
  "map_throwing f xs = Inr ys \<Longrightarrow>
   length ys = length xs \<and> (\<forall>i < length xs. f (xs ! i) = Inr (ys ! i))"
proof (induction xs arbitrary: ys)
  case Nil
  then show ?case by simp
next
  case (Cons x xs)
  then obtain y zs where s: "f x = Inr y" "map_throwing f xs = Inr zs" "ys = y # zs"
    by (auto split: sum.splits)
  from Cons.IH [OF s(2)] s(1,3) show ?case
    by (auto simp: nth_Cons split: nat.splits)
qed

lemma list_all_weaken: "list_all P xs \<Longrightarrow> (\<And>x. P x \<Longrightarrow> Q x) \<Longrightarrow> list_all Q xs"
  by (induction xs) auto

lemma index_Some: "index xs i = Some x \<Longrightarrow> 0 \<le> i \<and> nat i < length xs \<and> x = xs ! nat i"
  by (auto simp: index_def split: if_splits)

lemma index_in_set: "index xs i = Some x \<Longrightarrow> x \<in> set xs"
  by (auto simp: index_def split: if_splits)

lemma absent_key: "fst ` set xs \<subseteq> K \<Longrightarrow> k \<notin> K \<Longrightarrow> map_of xs k = None"
  by (auto simp: map_of_eq_None_iff)

lemma objects_map_Some: "objects (map Some xs) = xs"
  by (induction xs) simp_all

lemma map_Some_objects: "None \<notin> set es \<Longrightarrow> map Some (objects es) = es"
  by (induction es rule: objects.induct) simp_all

lemma objects_all:
  "None \<notin> set es \<Longrightarrow> list_all P (objects es) \<Longrightarrow> list_all (\<lambda>e. \<exists>u. e = Some u \<and> P u) es"
  by (induction es rule: objects.induct) simp_all

lemma getChampionName_ok: "n \<noteq> None \<Longrightarrow> \<exists>c. getChampionName w n = Inr c"
  by (cases n) (simp_all add: getChampionName_def)

section \<open>The compact round summaries\<close>

lemma summary_outcome_keys: "summary_outcome w st = Inr p \<Longrightarrow> fst ` set p \<subseteq> {''outcome''}"
  by (auto simp: summary_outcome_def split: option.splits sum.splits prod.splits)

lemma summary_outcome_ok:
  assumes "None \<notin> set (outcome_entries st)"
  shows "\<exists>p. summary_outcome w st = Inr p"
proof (cases "match_info st")
  case None
  then show ?thesis by (simp add: summary_outcome_def)
next
  case mi: (Some mi)
  show ?thesis
  proof (cases "round_outcome mi")
    case None
    with mi show ?thesis by (simp add: summary_outcome_def)
  next
    case (Some entries)
    with mi assms have n: "None \<notin> snd ` set entries"
      by (simp add: outcome_entries_def)
    show ?thesis
    proof (cases "find (\<lambda>e. str_includes (toLowerCase (fst e)) (toLowerCase (gameName w))) entries")
      case None
      with mi Some show ?thesis by (simp add: summary_outcome_def)
    next
      case found: (Some e)
      then have "e \<in> set entries"
        by (auto simp: find_Some_iff)
      with n obtain name v where "e = (name, Some v)"
        by (cases e; cases "snd e") force+
      with mi Some found show ?thesis by (simp add: summary_outcome_def)
    qed
  qed
qed

lemma round_summary_Inr:
  assumes "round_summary w (i, e) = Inr v"
  shows "\<exists>st p. e = Some st \<and> summary_outcome w st = Inr p \<and>
           v = JObj ([(''round'', JNum (Num (int i + 1)))] @ summary_stage st @ summary_me st @
                     summary_boardSize st @ summary_economy st @ p)"
  using assms by (auto simp: round_summary_def split: option.splits sum.splits)

lemma round_summary_ok:
  "None \<notin> set (outcome_entries st) \<Longrightarrow> \<exists>v. round_summary w (i, Some st) = Inr v"
  using summary_outcome_ok [of st w] by (auto simp: round_summary_def)

lemma formatAllStages_Inr:
  assumes "formatAllStages w entries = Inr rs"
  shows "length rs = length entries"
    and "i < length entries \<Longrightarrow> round_summary w (i, entries ! i) = Inr (rs ! i)"
  using map_throwing_Inr [OF assms [unfolded formatAllStages_def]]
  by (simp_all add: nth_enumerate_eq)

text \<open>
  Where \<open>formatAllStages\<close> returns, every element of the array is a stage object, so
  that \<open>objects\<close> drops nothing from it.
\<close>

lemma formatAllStages_objects:
  assumes "formatAllStages w entries = Inr rs"
  shows "None \<notin> set entries"
proof
  assume "None \<in> set entries"
  then obtain i where i: "i < length entries" "entries ! i = None"
    by (auto simp: in_set_conv_nth)
  from formatAllStages_Inr(2) [OF assms i(1)] i(2) show False
    by (simp add: round_summary_def)
qed

lemma formatAllStages_stage_objects:
  "formatAllStages w entries = Inr rs \<Longrightarrow> map Some (objects entries) = entries"
  by (rule map_Some_objects) (rule formatAllStages_objects)

lemma formatAllStages_ok:
  assumes "list_all (\<lambda>st. None \<notin> set (outcome_entries st)) stages"
  shows "\<exists>rs. formatAllStages w (map Some stages) = Inr rs"
  unfolding formatAllStages_def
proof (rule map_throwing_ok)
  show "list_all (\<lambda>x. \<exists>y. round_summary w x = Inr y) (enumerate 0 (map Some stages))"
    unfolding list_all_iff
  proof
    fix x assume m: "x \<in> set (enumerate 0 (map Some stages))"
    define i where "i = fst x"
    have x: "x = (i, Some (stages ! i))" and s: "stages ! i \<in> set stages"
      using m by (auto simp: in_set_enumerate_eq i_def prod_eq_iff)
    from s assms have "None \<notin> set (outcome_entries (stages ! i))"
      by (simp add: list_all_iff)
    then have "\<exists>y. round_summary w (i, Some (stages ! i)) = Inr y"
      by (rule round_summary_ok)
    with x show "\<exists>y. round_summary w x = Inr y"
      by simp
  qed
qed

section \<open>Loops over the damage units\<close>

lemma for_each_ok:
  "list_all (\<lambda>x. \<forall>s. \<exists>s'. f x s = Inr s') xs \<Longrightarrow> \<exists>s'. for_each f xs s = Inr s'"
proof (induction xs arbitrary: s)
  case Nil
  then show ?case by simp
next
  case (Cons x xs)
  then obtain s1 where "f x s = Inr s1" by auto
  with Cons show ?case by simp
qed

lemma for_each_objects:
  "None \<notin> set es \<Longrightarrow> for_each (add_entry w) es d = for_each (add_unit w) (objects es) d"
proof (induction es arbitrary: d)
  case Nil
  then show ?case by simp
next
  case (Cons e es)
  then obtain u where "e = Some u" by (cases e) auto
  with Cons show ?case
    by (simp add: add_entry_def split: sum.splits)
qed

lemma add_stage_units:
  "None \<notin> set (unit_entries st) \<Longrightarrow>
   add_stage w st d = for_each (add_unit w) (stage_units st) d"
  by (auto simp: add_stage_def stage_units_def unit_entries_def for_each_objects
      split: option.splits)

lemma add_unit_ok:
  "(has_damage u \<longrightarrow> unit_name u \<noteq> None) \<Longrightarrow> \<exists>d'. add_unit w u d = Inr d'"
  using getChampionName_ok [of "unit_name u" w]
  by (auto simp: add_unit_def has_damage_def Let_def split: option.splits)


section \<open>Key-stage selection\<close>

lemma empty_not_key: "[] \<notin> set keyRounds"
  by (simp add: keyRounds_def)

lemma fresh_key_Suc:
  "fresh_key found (x # ls) (Suc k) \<longleftrightarrow>
     fresh_key (if fresh_key found (x # ls) 0 then insert (the x) found else found) ls k"
  unfolding fresh_key_def by (cases x) auto

lemma filter_upt_Suc:
  "filter P [0 ..< Suc n] =
     (if P 0 then [0] else []) @ map Suc (filter (\<lambda>k. P (Suc k)) [0 ..< n])"
proof -
  have "[0 ..< Suc n] = 0 # map Suc [0 ..< n]"
    by (simp add: upt_conv_Cons map_Suc_upt del: upt_Suc)
  then show ?thesis
    by (simp add: filter_map comp_def del: upt_Suc)
qed

lemma key_loop_filter:
  "key_loop i sts acc found =
     acc @ map (\<lambda>k. i + int k) (filter (fresh_key found (map stageInfo sts)) [0 ..< length sts])"
proof (induction sts arbitrary: i acc found)
  case Nil
  then show ?case by simp
next
  case (Cons st rest)
  show ?case
  proof (cases "fresh_key found (map stageInfo (st # rest)) 0")
    case True
    then obtain l where l: "stageInfo st = Some l" "l \<in> set keyRounds" "l \<notin> found"
      by (auto simp: fresh_key_def)
    with empty_not_key have "l \<noteq> []" by auto
    with l True show ?thesis
      using Cons.IH [of "i + 1" "acc @ [i]" "insert l found"]
      by (simp add: filter_upt_Suc fresh_key_Suc comp_def del: upt_Suc)
  next
    case False
    then have "key_loop i (st # rest) acc found = key_loop (i + 1) rest acc found"
      by (auto simp: fresh_key_def split: option.splits)
    with False show ?thesis
      using Cons.IH [of "i + 1" acc found]
      by (simp add: filter_upt_Suc fresh_key_Suc comp_def del: upt_Suc)
  qed
qed

lemma fresh_key_empty: "k < length ls \<Longrightarrow> fresh_key {} ls k = is_first_key ls k"
  unfolding fresh_key_def is_first_key_def by auto

lemma key_loop_first_occurrences:
  "key_loop 0 stages [] {} = map int (first_occurrences (map stageInfo stages))"
proof -
  have "filter (fresh_key {} (map stageInfo stages)) [0 ..< length stages] =
        filter (is_first_key (map stageInfo stages)) [0 ..< length stages]"
    by (rule filter_cong) (simp_all add: fresh_key_empty)
  then show ?thesis
    by (simp add: key_loop_filter first_occurrences_def)
qed

lemma findKey_refines:
  "findKeyProgressionStages stages = key_stage_selection (map stageInfo stages)"
  unfolding findKeyProgressionStages_def key_stage_selection_def
  by (auto simp: key_loop_first_occurrences Let_def)

lemma first_occurrences_sorted: "sorted_wrt (<) (first_occurrences ls)"
  unfolding first_occurrences_def by (simp add: sorted_wrt_filter)

lemma first_occurrences_bound: "i \<in> set (first_occurrences ls) \<Longrightarrow> i < length ls"
  unfolding first_occurrences_def by simp

lemma sorted_wrt_less_last:
  "sorted_wrt (<) xs \<Longrightarrow> x \<in> set xs \<Longrightarrow> (x::int) \<le> last xs"
  by (induction xs) (auto simp: less_imp_le)

lemma selection_sorted: "sorted_wrt (<) (key_stage_selection ls)"
proof -
  let ?sel = "map int (first_occurrences ls)"
  have s: "sorted_wrt (<) ?sel"
    using first_occurrences_sorted [of ls] by (simp add: sorted_wrt_map)
  have b: "\<forall>x \<in> set ?sel. x \<le> int (length ls) - 1"
    using first_occurrences_bound [of _ ls] by fastforce
  show ?thesis
  proof (cases "?sel \<noteq> [] \<and> last ?sel = int (length ls) - 1")
    case True
    with s show ?thesis by (simp add: key_stage_selection_def)
  next
    case False
    have "\<forall>x \<in> set ?sel. x < int (length ls) - 1"
    proof
      fix x assume x: "x \<in> set ?sel"
      then have ne: "?sel \<noteq> []" by auto
      with False have l: "last ?sel \<noteq> int (length ls) - 1" by simp
      have "x \<le> last ?sel"
        using s x by (rule sorted_wrt_less_last)
      moreover have "last ?sel \<le> int (length ls) - 1" using b ne last_in_set by blast
      ultimately show "x < int (length ls) - 1" using l by linarith
    qed
    with s False show ?thesis
      by (simp add: key_stage_selection_def sorted_wrt_append Let_def)
  qed
qed

lemma strictly_sorted_distinct: "sorted_wrt (<) xs \<Longrightarrow> distinct (xs :: int list)"
  by (induction xs) auto

lemma example_labels_selection:
  "findKeyProgressionStages
     (map labelled [''1-1'', ''2-1'', ''2-1'', ''3-2'', ''4-2'', ''5-1'', ''6-1'', ''6-2'']) =
   [1, 3, 4, 5, 6, 7]"
  by code_simp

text \<open>
  Claim C3. \<open>findKeyProgressionStages\<close> returns the indices of the first occurrence of
  each of the labels 2-1, 3-2, 4-2, 5-1 and 6-1 in scan order, followed by the final
  stage index unless that index is already the last one selected; the result is strictly
  ascending and free of duplicates. For the labels 1-1, 2-1, 2-1, 3-2, 4-2, 5-1, 6-1, 6-2
  it is the indices 1, 3, 4, 5, 6 and the final index 7.
\<close>

theorem findKeyProgressionStages_selection:
  "findKeyProgressionStages stages = key_stage_selection (map stageInfo stages) \<and>
   sorted_wrt (<) (findKeyProgressionStages stages) \<and>
   distinct (findKeyProgressionStages stages) \<and>
   findKeyProgressionStages
     (map labelled [''1-1'', ''2-1'', ''2-1'', ''3-2'', ''4-2'', ''5-1'', ''6-1'', ''6-2'']) =
   [1, 3, 4, 5, 6, 7]"
  using findKey_refines [of stages] selection_sorted [of "map stageInfo stages"]
    strictly_sorted_distinct [of "findKeyProgressionStages stages"] example_labels_selection
  by simp


section \<open>The handler on an empty stage array\<close>

lemma try_block_tracker_of:
  "tracker_of w mid = Some (a, td) \<Longrightarrow> try_block w (Some mid) md = assemble w mid md a td"
  unfolding tracker_of_def try_block_def
  by (auto split: sum.splits option.splits if_splits)

lemma handle_tracker_of:
  "tracker_of w mid = Some (a, td) \<Longrightarrow>
   handleTftMatchTracker w (Some \<lparr>matchId = Some mid, mode = md\<rparr>) =
     Inr (case assemble w mid (case md of None \<Rightarrow> ''summary'' | Some m \<Rightarrow> m) a td of
            Inr r \<Rightarrow> r
          | Inl err \<Rightarrow> \<lparr>content = [JObj [(''error'', JStr (message err))]], isError = True\<rparr>)"
  unfolding handleTftMatchTracker_def try_catch_def by (simp add: try_block_tracker_of)

lemma example_tracker_of:
  "tracker_of (example_world sd) ''EUW1_42'' =
     Some (\<lparr>uuid = ''u1'', match_id_ow = ''42'', created_timestamp = 0\<rparr>, example_data sd)"
  by (simp add: tracker_of_def example_world_def matchNumber_def is_upper_def is_digit_def)

lemma findKey_empty: "findKeyProgressionStages [] = [- 1]"
  by (simp add: findKeyProgressionStages_def)

lemma formatStageData_out_of_range:
  "index stages i = None \<Longrightarrow> formatStageData w stages i = Inr JNull"
  by (simp add: formatStageData_def)

lemma index_empty: "index [] i = None"
  by (simp add: index_def)

lemma stageProgression_empty:
  "stageProgression w md [] = Inr (if md = ''complete'' then [] else [JNull])"
  by (simp add: stageProgression_def findKey_empty formatStageData_def index_def)

lemma calculateCarryStats_empty: "calculateCarryStats w [] = Inr []"
  by (simp add: calculateCarryStats_def js_sort_def)

lemma parseInt_100: "parseInt_text ''100'' = Num 100"
  by code_simp

lemma parseInt_0: "parseInt_text ''0'' = Num 0"
  by code_simp

lemma assemble_empty:
  assumes "parse_stages w (stage_data td) = DArray []"
  shows "\<exists>obj. assemble w mid md a td = Inr \<lparr>content = [obj], isError = False\<rparr> \<and>
     get_prop obj ''stageProgression'' = Some (JArr (if md = ''complete'' then [] else [JNull])) \<and>
     get_prop obj ''totalRounds'' = Some (JNum (Num 0)) \<and>
     get_prop obj ''finalBoard'' = Some (JArr []) \<and>
     (\<exists>s. get_prop obj ''summary'' = Some s \<and>
          get_prop s ''startingHealth'' = Some (JNum (Num 100)) \<and>
          get_prop s ''finalHealth'' = Some (JNum (Num 0)))"
  using assms
  by (simp add: assemble_def result_object_def summary_object_def stageProgression_empty
      calculateCarryStats_empty finalBoard_def index_empty health_of_def str_or_def parseInt_100
      parseInt_0 formatAllStages_def)

text \<open>
  Claim C10. When the decoded stage array is empty the handler, called with the match
  id, still returns a success:
  \<open>findKeyProgressionStages\<close> yields the single index \<open>-1\<close>, \<open>formatStageData\<close> yields
  \<^verbatim>\<open>null\<close> for an index outside the array, so the stage progression of every mode but
  \<^verbatim>\<open>complete\<close> is \<^verbatim>\<open>[null]\<close>; \<^verbatim>\<open>totalRounds\<close> is 0, the final board is empty, and the
  starting and final health are 100 and 0.
\<close>

theorem empty_stage_array:
  assumes "tracker_of w mid = Some (a, td)"
    and "parse_stages w (stage_data td) = DArray []"
  shows "(\<exists>r. handleTftMatchTracker w (Some \<lparr>matchId = Some mid, mode = md\<rparr>) = Inr r \<and>
        \<not> isError r \<and>
        (\<exists>obj s. content r = [obj] \<and>
           (md \<noteq> Some ''complete'' \<longrightarrow>
              get_prop obj ''stageProgression'' = Some (JArr [JNull])) \<and>
           get_prop obj ''totalRounds'' = Some (JNum (Num 0)) \<and>
           get_prop obj ''finalBoard'' = Some (JArr []) \<and>
           get_prop obj ''summary'' = Some s \<and>
           get_prop s ''startingHealth'' = Some (JNum (Num 100)) \<and>
           get_prop s ''finalHealth'' = Some (JNum (Num 0)))) \<and>
     findKeyProgressionStages [] = [- 1] \<and>
     (\<forall>stages i. index stages i = None \<longrightarrow> formatStageData w stages i = Inr JNull)"
proof -
  let ?md = "case md of None \<Rightarrow> ''summary'' | Some m \<Rightarrow> m"
  from assemble_empty [OF assms(2), of mid ?md a]
  obtain obj s where o: "assemble w mid ?md a td = Inr \<lparr>content = [obj], isError = False\<rparr>"
    "get_prop obj ''stageProgression'' = Some (JArr (if ?md = ''complete'' then [] else [JNull]))"
    "get_prop obj ''totalRounds'' = Some (JNum (Num 0))"
    "get_prop obj ''finalBoard'' = Some (JArr [])"
    "get_prop obj ''summary'' = Some s"
    "get_prop s ''startingHealth'' = Some (JNum (Num 100))"
    "get_prop s ''finalHealth'' = Some (JNum (Num 0))"
    by blast
  have h: "handleTftMatchTracker w (Some \<lparr>matchId = Some mid, mode = md\<rparr>) =
             Inr \<lparr>content = [obj], isError = False\<rparr>"
    using o(1) by (simp add: handle_tracker_of [OF assms(1)])
  have m: "md \<noteq> Some ''complete'' \<Longrightarrow> ?md \<noteq> ''complete''"
    by (cases md) auto
  show ?thesis
    using h o m by (auto simp: findKey_empty formatStageData_out_of_range)
qed

theorem empty_stage_array_witness:
  "tracker_of (example_world (Some (StageText ''[]''))) ''EUW1_42'' \<noteq> None \<and>
   parse_stages (example_world (Some (StageText ''[]'')))
     (stage_data (example_data (Some (StageText ''[]'')))) = DArray [] \<and>
   (\<exists>r. handleTftMatchTracker (example_world (Some (StageText ''[]'')))
          (Some \<lparr>matchId = Some ''EUW1_42'', mode = None\<rparr>) = Inr r \<and> \<not> isError r)"
proof -
  have p: "parse_stages (example_world (Some (StageText ''[]'')))
             (stage_data (example_data (Some (StageText ''[]'')))) = DArray []"
    by (simp add: example_data_def parse_stages_def example_world_def example_parse_def)
  have "\<exists>r. handleTftMatchTracker (example_world (Some (StageText ''[]'')))
          (Some \<lparr>matchId = Some ''EUW1_42'', mode = None\<rparr>) = Inr r \<and> \<not> isError r"
    using empty_stage_array [OF example_tracker_of p, of None]
    by (elim conjE exE) (rule exI, rule conjI, assumption+)
  then show ?thesis
    using example_tracker_of p by simp
qed


section \<open>The mode parameter\<close>

lemma stageProgression_not_complete:
  "md \<noteq> ''complete'' \<Longrightarrow> stageProgression w md stages = stageProgression w ''summary'' stages"
  by (simp add: stageProgression_def)

lemma result_object_mode:
  "k \<noteq> ''mode'' \<Longrightarrow> k \<noteq> ''roundProgression'' \<Longrightarrow>
   get_prop (result_object mid md a td stages hp fb cs sp) k =
   get_prop (result_object mid md' a td stages hp fb cs sp) k"
  by (simp add: result_object_def)

lemma result_object_mode_echo:
  "get_prop (result_object mid md a td stages hp fb cs sp) ''mode'' = Some (JStr md)"
  by (simp add: result_object_def)

lemma result_object_roundProgression:
  "get_prop (result_object mid md a td stages hp fb cs sp) ''roundProgression'' =
     (if md = ''summary'' then Some (JArr hp) else None)"
  by (simp add: result_object_def)

lemma result_object_stageProgression:
  "get_prop (result_object mid md a td stages hp fb cs sp) ''stageProgression'' = Some (JArr sp)"
  by (simp add: result_object_def)

lemma assemble_cases:
  "assemble w mid md a td =
     (case parse_stages w (stage_data td) of
        DOther \<Rightarrow> Inl (TypeError ''stages.map is not a function'')
      | DNull \<Rightarrow> Inl (TypeError ''Cannot read properties of null (reading 'map')'')
      | DUndefined \<Rightarrow> Inl (TypeError ''Cannot read properties of undefined (reading 'map')'')
      | DArray entries \<Rightarrow>
          (case formatAllStages w entries of Inl e \<Rightarrow> Inl e | Inr hp \<Rightarrow>
          (case finalBoard w (index (objects entries) (int (length (objects entries)) - 1)) of
             Inl e \<Rightarrow> Inl e | Inr fb \<Rightarrow>
           (case calculateCarryStats w (objects entries) of Inl e \<Rightarrow> Inl e | Inr cs \<Rightarrow>
           (case stageProgression w md (objects entries) of Inl e \<Rightarrow> Inl e | Inr sp \<Rightarrow>
              Inr \<lparr>content = [result_object mid md a td (objects entries) hp fb cs sp],
                   isError = False\<rparr>)))))"
proof (cases "parse_stages w (stage_data td)")
  case (DArray entries)
  then show ?thesis
    by (cases "formatAllStages w entries") (simp_all add: assemble_def Let_def)
qed (simp_all add: assemble_def)

lemma assemble_mode:
  assumes "md \<noteq> ''complete''"
  shows "(\<exists>e. assemble w mid md a td = Inl e \<and> assemble w mid ''summary'' a td = Inl e) \<or>
         (\<exists>stages hp fb cs sp.
            assemble w mid md a td =
              Inr \<lparr>content = [result_object mid md a td stages hp fb cs sp], isError = False\<rparr> \<and>
            assemble w mid ''summary'' a td =
              Inr \<lparr>content = [result_object mid ''summary'' a td stages hp fb cs sp],
                   isError = False\<rparr>)"
  unfolding assemble_cases stageProgression_not_complete [OF assms]
  by (simp split: decoded.splits sum.splits) (intro allI impI conjI exI; rule refl)

lemma handle_Some:
  "handleTftMatchTracker w (Some ps) =
     Inr (try_catch w (matchId ps) (case mode ps of None \<Rightarrow> ''summary'' | Some m \<Rightarrow> m))"
  by (simp add: handleTftMatchTracker_def)

lemma handle_mode_absent:
  "handleTftMatchTracker w (Some \<lparr>matchId = mid, mode = None\<rparr>) =
   handleTftMatchTracker w (Some \<lparr>matchId = mid, mode = Some ''summary''\<rparr>)"
  by (simp add: handleTftMatchTracker_def)

lemma isError_no_tracker_data: "isError no_tracker_data"
  by (simp add: no_tracker_data_def)

lemma isError_no_tracker_for_match: "isError (no_tracker_for_match w mid ms)"
  by (simp add: no_tracker_for_match_def)

lemma try_block_cases:
  "(\<exists>a td. tracker_of w mid = Some (a, td) \<and>
      (\<forall>md. try_block w (Some mid) md = assemble w mid md a td)) \<or>
   (\<exists>r. isError r \<and> (\<forall>md. try_block w (Some mid) md = Inr r)) \<or>
   (\<exists>e. \<forall>md. try_block w (Some mid) md = Inl e)"
proof (cases "fetchMetaTFTProfile w")
  case (Inl e)
  then show ?thesis by (simp add: try_block_def)
next
  case (Inr profile)
  show ?thesis
  proof (cases "app_matches profile")
    case None
    with Inr have "\<forall>md. try_block w (Some mid) md = Inr no_tracker_data"
      by (simp add: try_block_def)
    then show ?thesis using isError_no_tracker_data by blast
  next
    case (Some ms)
    show ?thesis
    proof (cases "find (\<lambda>m. match_id_ow m = matchNumber mid) ms")
      case None
      with Inr Some have
        "\<forall>md. try_block w (Some mid) md =
           Inr (if ms = [] then no_tracker_data else no_tracker_for_match w mid ms)"
        by (simp add: try_block_def)
      moreover have "isError (if ms = [] then no_tracker_data else no_tracker_for_match w mid ms)"
        by (simp add: isError_no_tracker_data isError_no_tracker_for_match)
      ultimately show ?thesis by blast
    next
      case found: (Some a)
      then have ne: "ms \<noteq> []" by auto
      show ?thesis
      proof (cases "fetchTrackerData w (uuid a)")
        case (Inl e)
        with Inr Some found ne show ?thesis by (simp add: try_block_def)
      next
        case td: (Inr td)
        with Inr Some found ne have "tracker_of w mid = Some (a, td)"
          and "\<forall>md. try_block w (Some mid) md = assemble w mid md a td"
          by (simp_all add: try_block_def tracker_of_def)
        then show ?thesis by blast
      qed
    qed
  qed
qed

lemma try_catch_mode_present:
  assumes md: "md \<noteq> ''complete''"
  shows "try_catch w (Some mid) md = try_catch w (Some mid) ''summary'' \<and>
           isError (try_catch w (Some mid) ''summary'') \<or>
         \<not> isError (try_catch w (Some mid) md) \<and> \<not> isError (try_catch w (Some mid) ''summary'') \<and>
         same_but_mode md (try_catch w (Some mid) md) (try_catch w (Some mid) ''summary'')"
  using try_block_cases [of w mid]
proof (elim disjE exE conjE)
  fix a td
  assume t: "\<forall>m. try_block w (Some mid) m = assemble w mid m a td"
  from assemble_mode [OF md, of w mid a td] show ?thesis
    by (auto simp: try_catch_def t same_but_mode_def result_object_mode_echo
        result_object_roundProgression result_object_mode [of _ _ md _ _ _ _ _ _ _ "''summary''"])
next
  fix r assume "isError r" "\<forall>m. try_block w (Some mid) m = Inr r"
  then show ?thesis by (simp add: try_catch_def)
next
  fix e assume "\<forall>m. try_block w (Some mid) m = Inl e"
  then show ?thesis by (simp add: try_catch_def)
qed

lemma try_catch_mode:
  assumes md: "md \<noteq> ''complete''"
  shows "try_catch w m md = try_catch w m ''summary'' \<and> isError (try_catch w m ''summary'') \<or>
         \<not> isError (try_catch w m md) \<and> \<not> isError (try_catch w m ''summary'') \<and>
         same_but_mode md (try_catch w m md) (try_catch w m ''summary'')"
proof (cases m)
  case None
  then show ?thesis by (simp add: try_catch_def try_block_def)
next
  case (Some mid)
  show ?thesis
    unfolding Some by (rule try_catch_mode_present [OF md])
qed

text \<open>
  Claim C1, amended. An absent mode gives the very result of mode \<^verbatim>\<open>summary\<close>. Any
  other mode except \<^verbatim>\<open>complete\<close> fails exactly when \<^verbatim>\<open>summary\<close> fails, with the same
  error result, and otherwise yields the same key-stage \<^verbatim>\<open>stageProgression\<close> and the
  same value under every other key, except that \<^verbatim>\<open>mode\<close> echoes the value given and
  the compact \<^verbatim>\<open>roundProgression\<close> is left out. This holds for every arguments object,
  whether it holds a match id or not.
\<close>

theorem mode_default:
  "handleTftMatchTracker w (Some \<lparr>matchId = mid, mode = None\<rparr>) =
     handleTftMatchTracker w (Some \<lparr>matchId = mid, mode = Some ''summary''\<rparr>) \<and>
   (md \<noteq> ''complete'' \<longrightarrow>
      (\<exists>r r'. handleTftMatchTracker w (Some \<lparr>matchId = mid, mode = Some md\<rparr>) = Inr r \<and>
         handleTftMatchTracker w (Some \<lparr>matchId = mid, mode = Some ''summary''\<rparr>) = Inr r' \<and>
         isError r = isError r' \<and>
         (if isError r' then r = r' else same_but_mode md r r')))"
proof (intro conjI impI)
  show "handleTftMatchTracker w (Some \<lparr>matchId = mid, mode = None\<rparr>) =
     handleTftMatchTracker w (Some \<lparr>matchId = mid, mode = Some ''summary''\<rparr>)"
    by (rule handle_mode_absent)
next
  assume md: "md \<noteq> ''complete''"
  have "isError (try_catch w mid md) = isError (try_catch w mid ''summary'') \<and>
        (if isError (try_catch w mid ''summary'') then try_catch w mid md = try_catch w mid ''summary''
         else same_but_mode md (try_catch w mid md) (try_catch w mid ''summary''))"
    using try_catch_mode [OF md, of w mid] by auto
  then show "\<exists>r r'. handleTftMatchTracker w (Some \<lparr>matchId = mid, mode = Some md\<rparr>) = Inr r \<and>
         handleTftMatchTracker w (Some \<lparr>matchId = mid, mode = Some ''summary''\<rparr>) = Inr r' \<and>
         isError r = isError r' \<and>
         (if isError r' then r = r' else same_but_mode md r r')"
    by (intro exI [of _ "try_catch w mid md"] exI [of _ "try_catch w mid ''summary''"])
       (simp add: handle_Some)
qed

theorem mode_default_witness:
  "''fast'' \<noteq> ''complete'' \<and>
   (\<exists>r r'. handleTftMatchTracker (example_world (Some (StageText ''[]'')))
        (Some \<lparr>matchId = Some ''EUW1_42'', mode = Some ''fast''\<rparr>) = Inr r \<and>
      handleTftMatchTracker (example_world (Some (StageText ''[]'')))
        (Some \<lparr>matchId = Some ''EUW1_42'', mode = Some ''summary''\<rparr>) = Inr r' \<and>
      \<not> isError r' \<and> same_but_mode ''fast'' r r')"
proof -
  have p: "parse_stages (example_world (Some (StageText ''[]'')))
             (stage_data (example_data (Some (StageText ''[]'')))) = DArray []"
    by (simp add: example_data_def parse_stages_def example_world_def example_parse_def)
  from assemble_empty [OF p, of "''EUW1_42''" "''summary''"
      "\<lparr>uuid = ''u1'', match_id_ow = ''42'', created_timestamp = 0\<rparr>"]
  obtain obj where
    "assemble (example_world (Some (StageText ''[]''))) ''EUW1_42'' ''summary''
       \<lparr>uuid = ''u1'', match_id_ow = ''42'', created_timestamp = 0\<rparr>
       (example_data (Some (StageText ''[]''))) = Inr \<lparr>content = [obj], isError = False\<rparr>"
    by (elim exE conjE)
  then have s: "handleTftMatchTracker (example_world (Some (StageText ''[]'')))
             (Some \<lparr>matchId = Some ''EUW1_42'', mode = Some ''summary''\<rparr>) = Inr r' \<Longrightarrow>
           \<not> isError r'" for r'
    by (auto simp: handle_tracker_of [OF example_tracker_of])
  have f: "''fast'' \<noteq> ''complete''" by simp
  from mode_default [of "example_world (Some (StageText ''[]''))" "Some ''EUW1_42''" "''fast''"] f
  obtain r r' where
    r: "handleTftMatchTracker (example_world (Some (StageText ''[]'')))
          (Some \<lparr>matchId = Some ''EUW1_42'', mode = Some ''fast''\<rparr>) = Inr r"
       "handleTftMatchTracker (example_world (Some (StageText ''[]'')))
          (Some \<lparr>matchId = Some ''EUW1_42'', mode = Some ''summary''\<rparr>) = Inr r'"
       "isError r = isError r'"
       "if isError r' then r = r' else same_but_mode ''fast'' r r'"
    by (elim conjE exE impE) simp_all
  from s [OF r(2)] r(4) have "\<not> isError r'" "same_but_mode ''fast'' r r'" by simp_all
  with r(1,2) f show ?thesis
    by (intro conjI exI [of _ r] exI [of _ r']) simp_all
qed

text \<open>
  Claim C1 as stated fails: with the unknown mode \<^verbatim>\<open>fast\<close> the result differs from that
  of mode \<^verbatim>\<open>summary\<close>.
\<close>

theorem mode_unknown_differs:
  "handleTftMatchTracker (example_world (Some (StageText ''[]'')))
     (Some \<lparr>matchId = Some ''EUW1_42'', mode = Some ''fast''\<rparr>) \<noteq>
   handleTftMatchTracker (example_world (Some (StageText ''[]'')))
     (Some \<lparr>matchId = Some ''EUW1_42'', mode = Some ''summary''\<rparr>)"
  by code_simp

section \<open>The compact round summaries\<close>

lemma summary_stage_keys [simp]:
  "map_of (summary_stage st) ''income'' = None" "map_of (summary_stage st) ''rerolls'' = None"
  "map_of (summary_stage st) ''hp'' = None" "map_of (summary_stage st) ''gold'' = None"
  "map_of (summary_stage st) ''level'' = None" "map_of (summary_stage st) ''boardSize'' = None"
  by (simp_all add: summary_stage_def split: option.splits)

lemma summary_me_keys [simp]:
  "map_of (summary_me st) ''income'' = None" "map_of (summary_me st) ''rerolls'' = None"
  "map_of (summary_me st) ''boardSize'' = None"
  by (simp_all add: summary_me_def split: option.splits)

lemma summary_boardSize_keys [simp]:
  "map_of (summary_boardSize st) ''income'' = None" "map_of (summary_boardSize st) ''rerolls'' = None"
  by (simp_all add: summary_boardSize_def split: option.splits)

lemma summary_economy_income:
  "map_of (summary_economy st) ''income'' = map_option (\<lambda>g. JNum (Num g)) (gold_earned st)"
  by (simp add: summary_economy_def split: option.splits)

lemma summary_economy_rerolls:
  "map_of (summary_economy st) ''rerolls'' =
     (case rerolls st of None \<Rightarrow> None | Some r \<Rightarrow> if 0 < r then Some (JNum (Num r)) else None)"
  by (simp add: summary_economy_def split: option.splits)

lemma round_summary_income:
  assumes "round_summary w (i, Some st) = Inr v"
  shows "get_prop v ''income'' = map_option (\<lambda>g. JNum (Num g)) (gold_earned st)"
proof -
  from round_summary_Inr [OF assms] obtain p where
    p: "summary_outcome w st = Inr p" and
    v: "v = JObj ([(''round'', JNum (Num (int i + 1)))] @ summary_stage st @ summary_me st @
                  summary_boardSize st @ summary_economy st @ p)"
    by auto
  have "map_of p ''income'' = None"
    by (rule absent_key [OF summary_outcome_keys [OF p]]) simp
  then show ?thesis
    unfolding v by (simp add: map_add_def summary_economy_income split: option.splits)
qed

lemma round_summary_rerolls:
  assumes "round_summary w (i, Some st) = Inr v"
  shows "get_prop v ''rerolls'' =
     (case rerolls st of None \<Rightarrow> None | Some r \<Rightarrow> if 0 < r then Some (JNum (Num r)) else None)"
proof -
  from round_summary_Inr [OF assms] obtain p where
    p: "summary_outcome w st = Inr p" and
    v: "v = JObj ([(''round'', JNum (Num (int i + 1)))] @ summary_stage st @ summary_me st @
                  summary_boardSize st @ summary_economy st @ p)"
    by auto
  have "map_of p ''rerolls'' = None"
    by (rule absent_key [OF summary_outcome_keys [OF p]]) simp
  then show ?thesis
    unfolding v by (simp add: map_add_def summary_economy_rerolls split: option.splits)
qed

text \<open>
  Claim C5, amended. \<open>formatAllStages\<close> returns its summaries whenever the stages are
  objects whose round outcomes are objects. In every compact round summary it returns,
  the income is present exactly when the stage has \<^verbatim>\<open>gold_earned\<close>, whatever its value,
  zero included; the rerolls are present exactly when the stage has \<^verbatim>\<open>rerolls\<close> and they
  are positive.
\<close>

theorem compact_economy_fields:
  "(list_all (\<lambda>st. None \<notin> set (outcome_entries st)) stages \<longrightarrow>
      (\<exists>rs. formatAllStages w (map Some stages) = Inr rs)) \<and>
   (formatAllStages w entries = Inr rs \<and> i < length entries \<longrightarrow>
      length rs = length entries \<and>
      (\<exists>st. entries ! i = Some st \<and>
         get_prop (rs ! i) ''income'' =
           (case gold_earned st of None \<Rightarrow> None | Some g \<Rightarrow> Some (JNum (Num g))) \<and>
         get_prop (rs ! i) ''rerolls'' =
           (case rerolls st of
              None \<Rightarrow> None
            | Some r \<Rightarrow> if 0 < r then Some (JNum (Num r)) else None)))"
proof (intro conjI impI)
  assume "list_all (\<lambda>st. None \<notin> set (outcome_entries st)) stages"
  then show "\<exists>rs. formatAllStages w (map Some stages) = Inr rs"
    by (rule formatAllStages_ok)
next
  assume a: "formatAllStages w entries = Inr rs \<and> i < length entries"
  from a [THEN conjunct1] show "length rs = length entries"
    by (rule formatAllStages_Inr(1))
  from a have r: "round_summary w (i, entries ! i) = Inr (rs ! i)"
    by (simp add: formatAllStages_Inr(2))
  from round_summary_Inr [OF r] obtain st where st: "entries ! i = Some st"
    by auto
  with r have "round_summary w (i, Some st) = Inr (rs ! i)" by simp
  from round_summary_income [OF this] round_summary_rerolls [OF this] st
  show "\<exists>st. entries ! i = Some st \<and>
         get_prop (rs ! i) ''income'' =
           (case gold_earned st of None \<Rightarrow> None | Some g \<Rightarrow> Some (JNum (Num g))) \<and>
         get_prop (rs ! i) ''rerolls'' =
           (case rerolls st of
              None \<Rightarrow> None
            | Some r \<Rightarrow> if 0 < r then Some (JNum (Num r)) else None)"
    by (simp split: option.splits)
qed

theorem compact_economy_fields_witness:
  "list_all (\<lambda>st. None \<notin> set (outcome_entries st))
     [no_stage\<lparr>gold_earned := Some 3, rerolls := Some 0\<rparr>] \<and>
   (\<exists>rs. formatAllStages (example_world None)
           [Some (no_stage\<lparr>gold_earned := Some 3, rerolls := Some 0\<rparr>)] = Inr rs \<and>
         (0::nat) < length [Some (no_stage\<lparr>gold_earned := Some 3, rerolls := Some 0\<rparr>)] \<and>
         get_prop (rs ! 0) ''income'' = Some (JNum (Num 3)) \<and>
         get_prop (rs ! 0) ''rerolls'' = None)"
proof -
  let ?st = "no_stage\<lparr>gold_earned := Some 3, rerolls := Some 0\<rparr>"
  have o: "list_all (\<lambda>st. None \<notin> set (outcome_entries st)) [?st]"
    by (simp add: outcome_entries_def no_stage_def)
  from compact_economy_fields [of "[?st]" "example_world None", THEN conjunct1] o
  obtain rs where rs: "formatAllStages (example_world None) [Some ?st] = Inr rs"
    by auto
  from compact_economy_fields [of _ "example_world None" "[Some ?st]" rs 0, THEN conjunct2] rs
  have "get_prop (rs ! 0) ''income'' = Some (JNum (Num 3)) \<and> get_prop (rs ! 0) ''rerolls'' = None"
    by (simp add: no_stage_def)
  with o rs show ?thesis by simp
qed

text \<open>
  Claim C5 as stated fails: an income of zero is not omitted from the round summary.
\<close>

theorem income_zero_kept:
  "formatAllStages (example_world None) [Some (no_stage\<lparr>gold_earned := Some 0\<rparr>)] =
     Inr [JObj [(''round'', JNum (Num 1)), (''income'', JNum (Num 0))]]"
  by code_simp

section \<open>Stages with missing parts\<close>

lemma board_unit_ok: "piece_name u \<noteq> None \<Longrightarrow> \<exists>v. board_unit w u = Inr v"
  using getChampionName_ok [of "piece_name u" w] by (auto simp: board_unit_def)

lemma bench_unit_ok: "piece_name u \<noteq> None \<Longrightarrow> \<exists>v. bench_unit w u = Inr v"
  using getChampionName_ok [of "piece_name u" w] by (auto simp: bench_unit_def)

lemma damage_unit_ok: "unit_name u \<noteq> None \<Longrightarrow> \<exists>v. damage_unit w u = Inr v"
  using getChampionName_ok [of "unit_name u" w] by (auto simp: damage_unit_def)

lemma board_pieces_ok:
  assumes "None \<notin> set es" "list_all (\<lambda>u. piece_name u \<noteq> None) (objects es)"
  shows "\<exists>ys. map_throwing (board_piece w) es = Inr ys"
proof (rule map_throwing_ok)
  show "list_all (\<lambda>x. \<exists>y. board_piece w x = Inr y) es"
    by (rule list_all_weaken [OF objects_all [OF assms]])
       (auto simp: board_piece_def board_unit_ok)
qed

lemma bench_pieces_ok:
  assumes "None \<notin> set es" "list_all (\<lambda>u. piece_name u \<noteq> None) (objects es)"
  shows "\<exists>ys. map_throwing (bench_piece w) es = Inr ys"
proof (rule map_throwing_ok)
  show "list_all (\<lambda>x. \<exists>y. bench_piece w x = Inr y) es"
    by (rule list_all_weaken [OF objects_all [OF assms]])
       (auto simp: bench_piece_def bench_unit_ok)
qed

lemma shop_pieces_ok:
  assumes "None \<notin> set es" "list_all (\<lambda>s. shop_name s \<noteq> None) (objects es)"
  shows "\<exists>ys. map_throwing (shop_piece w) es = Inr ys"
proof (rule map_throwing_ok)
  show "list_all (\<lambda>x. \<exists>y. shop_piece w x = Inr y) es"
    by (rule list_all_weaken [OF objects_all [OF assms]])
       (auto simp: shop_piece_def getChampionName_ok)
qed

lemma read_damage_objects: "None \<notin> set es \<Longrightarrow> map_throwing read_damage es = Inr (objects es)"
  by (induction es rule: objects.induct) (simp_all add: read_damage_def)

lemma player_entries_ok:
  "None \<notin> snd ` set es \<Longrightarrow> \<exists>ps. map_throwing player_entry es = Inr ps"
proof (rule map_throwing_ok, unfold list_all_iff, rule ballI)
  fix x assume "None \<notin> snd ` set es" "x \<in> set es"
  then obtain name d where "x = (name, Some d)"
    by (cases x; cases "snd x") force+
  then show "\<exists>y. player_entry x = Inr y"
    by (simp add: player_entry_def)
qed

lemma stage_board_Inr:
  "stage_board w st = Inr bp \<Longrightarrow> fst ` set bp \<subseteq> {''board''} \<and> (board st = None \<longrightarrow> bp = [])"
  by (auto simp: stage_board_def split: option.splits if_splits sum.splits)

lemma stage_bench_Inr:
  "stage_bench w st = Inr bp \<Longrightarrow> fst ` set bp \<subseteq> {''bench''} \<and> (bench st = None \<longrightarrow> bp = [])"
  by (auto simp: stage_bench_def split: option.splits if_splits sum.splits)

lemma stage_unitDamage_Inr: "stage_unitDamage w st = Inr dp \<Longrightarrow> fst ` set dp \<subseteq> {''unitDamage''}"
  by (auto simp: stage_unitDamage_def Let_def split: option.splits if_splits sum.splits)

lemma stage_allPlayers_Inr: "stage_allPlayers st = Inr pp \<Longrightarrow> fst ` set pp \<subseteq> {''allPlayers''}"
  by (auto simp: stage_allPlayers_def split: option.splits sum.splits)

lemma stage_shop_Inr: "stage_shop w st = Inr sp \<Longrightarrow> fst ` set sp \<subseteq> {''shop''}"
  by (auto simp: stage_shop_def split: option.splits if_splits sum.splits)

lemma stage_board_ok:
  assumes "None \<notin> set (board_entries st)"
    "list_all (\<lambda>u. piece_name u \<noteq> None) (objects (board_entries st))"
  shows "\<exists>bp. stage_board w st = Inr bp"
  using board_pieces_ok [OF assms, of w]
  by (auto simp: stage_board_def board_entries_def split: option.splits)

lemma stage_bench_ok:
  assumes "None \<notin> set (bench_entries st)"
    "list_all (\<lambda>u. piece_name u \<noteq> None) (objects (bench_entries st))"
  shows "\<exists>bp. stage_bench w st = Inr bp"
  using bench_pieces_ok [OF assms, of w]
  by (auto simp: stage_bench_def bench_entries_def split: option.splits)

lemma js_insert_set: "set (js_insert cmp x xs) = insert x (set xs)"
  by (induction xs) auto

lemma js_sort_set: "set (js_sort cmp xs) = set xs"
  unfolding js_sort_def by (induction xs) (simp_all add: js_insert_set)

lemma stage_unitDamage_ok:
  assumes "None \<notin> set (unit_entries st)"
    "list_all (\<lambda>u. unit_name u \<noteq> None) (filter has_damage (stage_units st))"
  shows "\<exists>dp. stage_unitDamage w st = Inr dp"
proof -
  let ?us = "js_sort (\<lambda>a b. minus_num (damage_or_0 b) (damage_or_0 a))
               (filter has_damage (objects (unit_entries st)))"
  have "list_all (\<lambda>u. unit_name u \<noteq> None) ?us"
    using assms(2) by (simp add: list_all_iff js_sort_set stage_units_def)
  then have "\<exists>ys. map_throwing (damage_unit w) ?us = Inr ys"
    by (intro map_throwing_ok) (rule list_all_weaken, assumption, rule damage_unit_ok)
  then show ?thesis
    using read_damage_objects [OF assms(1)]
    by (auto simp: stage_unitDamage_def unit_entries_def Let_def split: option.splits)
qed

lemma stage_allPlayers_ok:
  assumes "None \<notin> set (roster_entries st)"
  shows "\<exists>pp. stage_allPlayers st = Inr pp"
proof (cases "roster st")
  case None
  then show ?thesis by (simp add: stage_allPlayers_def)
next
  case r: (Some r)
  show ?thesis
  proof (cases "player_status r")
    case None
    with r show ?thesis by (simp add: stage_allPlayers_def)
  next
    case (Some es)
    with r assms have "None \<notin> snd ` set es"
      by (simp add: roster_entries_def)
    from player_entries_ok [OF this] r Some show ?thesis
      by (auto simp: stage_allPlayers_def)
  qed
qed

lemma stage_shop_ok:
  assumes "None \<notin> set (last_shop_entries st)"
    "list_all (\<lambda>s. shop_name s \<noteq> None) (objects (last_shop_entries st))"
  shows "\<exists>sp. stage_shop w st = Inr sp"
  using shop_pieces_ok [OF assms, of w]
  by (auto simp: stage_shop_def last_shop_entries_def split: option.splits)

lemma stage_round_keys: "fst ` set (stage_round st) \<subseteq> {''stage'', ''roundType'', ''roundName''}"
  by (auto simp: stage_round_def split: option.splits)

lemma stage_opponent_keys: "fst ` set (stage_opponent st) \<subseteq> {''opponent''}"
  by (auto simp: stage_opponent_def split: option.splits)

lemma stage_player_keys: "fst ` set (stage_player st) \<subseteq> {''player''}"
  by (auto simp: stage_player_def split: option.splits)

lemma stage_economy_keys: "fst ` set (stage_economy st) \<subseteq> {''goldEarned'', ''rerolls''}"
  by (auto simp: stage_economy_def split: option.splits)

lemma stage_metrics_keys: "fst ` set (stage_metrics st) \<subseteq> {''metrics''}"
  by (auto simp: stage_metrics_def split: option.splits)

lemma formatStageData_Inr:
  assumes "index stages i = Some st" "formatStageData w stages i = Inr obj"
  shows "(\<exists>fields. obj = JObj fields) \<and>
         get_prop obj ''stageNumber'' = Some (JNum (Num (i + 1))) \<and>
         (board st = None \<longrightarrow> get_prop obj ''board'' = None) \<and>
         (bench st = None \<longrightarrow> get_prop obj ''bench'' = None) \<and>
         get_prop obj ''player'' = map_of (stage_player st) ''player''"
proof -
  from assms obtain bp bn dp pp sp where
    p: "stage_board w st = Inr bp" "stage_bench w st = Inr bn"
      "stage_unitDamage w st = Inr dp" "stage_allPlayers st = Inr pp" "stage_shop w st = Inr sp"
    by (auto simp: formatStageData_def split: sum.splits)
  note q = stage_board_Inr [OF p(1)] stage_bench_Inr [OF p(2)] stage_unitDamage_Inr [OF p(3)]
    stage_allPlayers_Inr [OF p(4)] stage_shop_Inr [OF p(5)]
  note k = absent_key [OF stage_round_keys] absent_key [OF stage_opponent_keys]
    absent_key [OF stage_player_keys] absent_key [OF stage_economy_keys]
    absent_key [OF stage_metrics_keys]
    absent_key [OF q(1) [THEN conjunct1]] absent_key [OF q(2) [THEN conjunct1]]
    absent_key [OF q(3)] absent_key [OF q(4)] absent_key [OF q(5)]
  let ?fields = "[(''stageNumber'', JNum (Num (i + 1)))] @
                        stage_round st @ stage_opponent st @ stage_player st @
                        stage_economy st @ bp @ bn @ dp @ pp @ sp @ stage_metrics st"
  have obj: "obj = JObj ?fields"
    using assms p by (simp add: formatStageData_def)
  have b: "board st = None \<Longrightarrow> map_of ?fields ''board'' = None"
    using q(1) by (simp add: map_add_def k)
  have c: "bench st = None \<Longrightarrow> map_of ?fields ''bench'' = None"
    using q(2) by (simp add: map_add_def k)
  have d: "map_of ?fields ''player'' = map_of (stage_player st) ''player''"
    by (simp add: map_add_def k split: option.splits)
  have n: "map_of ?fields ''stageNumber'' = Some (JNum (Num (i + 1)))"
    by (simp add: map_add_def k)
  show ?thesis
    unfolding obj using b c d n by simp
qed

lemma formatStageData_names:
  assumes "index stages i = Some st" "entries_are_objects st" "names_present st"
  shows "\<exists>obj. formatStageData w stages i = Inr obj"
proof -
  from assms(2) have e: "None \<notin> set (board_entries st)" "None \<notin> set (bench_entries st)"
    "None \<notin> set (unit_entries st)" "None \<notin> set (last_shop_entries st)"
    "None \<notin> set (roster_entries st)"
    by (simp_all add: entries_are_objects_def)
  from assms(3) have n: "list_all (\<lambda>u. piece_name u \<noteq> None) (objects (board_entries st))"
    "list_all (\<lambda>u. piece_name u \<noteq> None) (objects (bench_entries st))"
    "list_all (\<lambda>u. unit_name u \<noteq> None) (filter has_damage (stage_units st))"
    "list_all (\<lambda>s. shop_name s \<noteq> None) (objects (last_shop_entries st))"
    by (simp_all add: names_present_def)
  from stage_board_ok [OF e(1) n(1), of w] stage_bench_ok [OF e(2) n(2), of w]
    stage_unitDamage_ok [OF e(3) n(3), of w] stage_allPlayers_ok [OF e(5)]
    stage_shop_ok [OF e(4) n(4), of w] assms(1)
  show ?thesis
    by (auto simp: formatStageData_def)
qed

lemma summary_parts_keys:
  "map_of (summary_economy st) ''hp'' = None" "map_of (summary_economy st) ''gold'' = None"
  "map_of (summary_economy st) ''level'' = None" "map_of (summary_economy st) ''boardSize'' = None"
  "map_of (summary_boardSize st) ''hp'' = None" "map_of (summary_boardSize st) ''gold'' = None"
  "map_of (summary_boardSize st) ''level'' = None"
  by (simp_all add: summary_economy_def summary_boardSize_def split: option.splits)

lemma round_summary_props:
  assumes "round_summary w (n, Some st) = Inr v"
  shows "get_prop v ''round'' = Some (JNum (Num (int n + 1)))"
    and "k \<in> {''hp'', ''gold'', ''level''} \<Longrightarrow> get_prop v k = map_of (summary_me st) k"
    and "get_prop v ''boardSize'' = map_of (summary_boardSize st) ''boardSize''"
proof -
  from round_summary_Inr [OF assms] obtain p where
    p: "summary_outcome w st = Inr p" and
    v: "v = JObj ([(''round'', JNum (Num (int n + 1)))] @ summary_stage st @ summary_me st @
                  summary_boardSize st @ summary_economy st @ p)"
    by auto
  note o = absent_key [OF summary_outcome_keys [OF p]]
  show "get_prop v ''round'' = Some (JNum (Num (int n + 1)))"
    unfolding v by simp
  show "get_prop v k = map_of (summary_me st) k" if "k \<in> {''hp'', ''gold'', ''level''}"
    using that unfolding v by (auto simp: map_add_def summary_parts_keys o split: option.splits)
  show "get_prop v ''boardSize'' = map_of (summary_boardSize st) ''boardSize''"
    unfolding v by (auto simp: map_add_def summary_parts_keys o split: option.splits)
qed

lemma formatAllStages_at:
  assumes "formatAllStages w (map Some stages) = Inr rs" "index stages i = Some st"
  shows "round_summary w (nat i, Some st) = Inr (rs ! nat i)"
  using formatAllStages_Inr(2) [OF assms(1), of "nat i"] index_Some [OF assms(2)]
  by simp

text \<open>
  Claim C8, amended. Let every entry of the records of the stages be an object, and let
  the pieces, damaging units and shop pieces of the stage at hand carry their names.
  Then \<open>formatStageData\<close> returns a snapshot of the stage, an object that holds the
  stage number, and \<open>formatAllStages\<close> returns the summaries of the stages, that of the
  stage an object that holds the round number. A missing board, bench or player block is
  left out of the snapshot and of the summary: there is no \<^verbatim>\<open>board\<close> and
  \<^verbatim>\<open>boardSize\<close>, no \<^verbatim>\<open>bench\<close>, no \<^verbatim>\<open>player\<close>, \<^verbatim>\<open>hp\<close>, \<^verbatim>\<open>gold\<close> and \<^verbatim>\<open>level\<close> for it,
  rather than an empty collection or a zero.
\<close>

theorem missing_parts_omitted:
  assumes "index stages i = Some st"
    and "list_all entries_are_objects stages"
    and "names_present st"
  shows "\<exists>fields rs.
           formatStageData w stages i = Inr (JObj fields) \<and>
           get_prop (JObj fields) ''stageNumber'' = Some (JNum (Num (i + 1))) \<and>
           formatAllStages w (map Some stages) = Inr rs \<and>
           length rs = length stages \<and>
           get_prop (rs ! nat i) ''round'' = Some (JNum (Num (i + 1))) \<and>
           (board st = None \<longrightarrow>
              get_prop (JObj fields) ''board'' = None \<and>
              get_prop (rs ! nat i) ''boardSize'' = None) \<and>
           (bench st = None \<longrightarrow> get_prop (JObj fields) ''bench'' = None) \<and>
           (me st = None \<longrightarrow>
              get_prop (JObj fields) ''player'' = None \<and>
              get_prop (rs ! nat i) ''hp'' = None \<and>
              get_prop (rs ! nat i) ''gold'' = None \<and>
              get_prop (rs ! nat i) ''level'' = None)"
proof -
  from assms(1,2) have e: "entries_are_objects st"
    by (auto simp: list_all_iff dest: index_in_set)
  from formatStageData_names [OF assms(1) e assms(3), of w] obtain obj
    where obj: "formatStageData w stages i = Inr obj" by (elim exE)
  note f = formatStageData_Inr [OF assms(1) obj]
  from f obtain fields where fields: "obj = JObj fields" by (elim conjE exE)
  have "list_all (\<lambda>st. None \<notin> set (outcome_entries st)) stages"
    by (rule list_all_weaken [OF assms(2)]) (simp add: entries_are_objects_def)
  from formatAllStages_ok [OF this, of w] obtain rs
    where rs: "formatAllStages w (map Some stages) = Inr rs" by (elim exE)
  note r = round_summary_props [OF formatAllStages_at [OF rs assms(1)]]
  from index_Some [OF assms(1)] have i: "0 \<le> i" by simp
  have m: "me st = None \<Longrightarrow> map_of (stage_player st) ''player'' = None \<and> summary_me st = []"
    by (simp add: stage_player_def summary_me_def)
  have b: "board st = None \<Longrightarrow> summary_boardSize st = []"
    by (simp add: summary_boardSize_def)
  have l: "length rs = length stages"
    using formatAllStages_Inr(1) [OF rs] by simp
  show ?thesis
    using obj rs f m b l i unfolding fields
    by (intro exI [of _ fields] exI [of _ rs]) (simp add: r)
qed

theorem missing_parts_omitted_witness:
  "index [partial_stage] 0 = Some partial_stage \<and>
   list_all entries_are_objects [partial_stage] \<and> names_present partial_stage \<and>
   board partial_stage = None \<and> bench partial_stage = None \<and> me partial_stage = None \<and>
   (\<exists>fields rs.
      formatStageData (example_world None) [partial_stage] 0 = Inr (JObj fields) \<and>
      get_prop (JObj fields) ''stageNumber'' = Some (JNum (Num 1)) \<and>
      formatAllStages (example_world None) [Some partial_stage] = Inr rs \<and>
      get_prop (rs ! 0) ''round'' = Some (JNum (Num 1)) \<and>
      get_prop (JObj fields) ''board'' = None \<and> get_prop (JObj fields) ''bench'' = None \<and>
      get_prop (JObj fields) ''player'' = None \<and> get_prop (rs ! 0) ''boardSize'' = None \<and>
      get_prop (rs ! 0) ''hp'' = None)"
proof -
  have i: "index [partial_stage] 0 = Some partial_stage"
    by (simp add: index_def)
  have e: "list_all entries_are_objects [partial_stage]"
    by (simp add: entries_are_objects_def partial_stage_def no_stage_def board_entries_def
        bench_entries_def unit_entries_def last_shop_entries_def roster_entries_def
        outcome_entries_def)
  have n: "names_present partial_stage"
    by (simp add: names_present_def partial_stage_def no_stage_def board_entries_def
        bench_entries_def unit_entries_def stage_units_def last_shop_entries_def has_damage_def)
  have b: "board partial_stage = None" "bench partial_stage = None" "me partial_stage = None"
    by (simp_all add: partial_stage_def no_stage_def)
  from missing_parts_omitted [OF i e n, of "example_world None"] b
  obtain fields rs where
    "formatStageData (example_world None) [partial_stage] 0 = Inr (JObj fields)"
    "get_prop (JObj fields) ''stageNumber'' = Some (JNum (Num 1))"
    "formatAllStages (example_world None) [Some partial_stage] = Inr rs"
    "get_prop (rs ! 0) ''round'' = Some (JNum (Num 1))"
    "get_prop (JObj fields) ''board'' = None" "get_prop (JObj fields) ''bench'' = None"
    "get_prop (JObj fields) ''player'' = None" "get_prop (rs ! 0) ''boardSize'' = None"
    "get_prop (rs ! 0) ''hp'' = None"
    by (elim exE conjE) simp
  then have "\<exists>fields rs.
      formatStageData (example_world None) [partial_stage] 0 = Inr (JObj fields) \<and>
      get_prop (JObj fields) ''stageNumber'' = Some (JNum (Num 1)) \<and>
      formatAllStages (example_world None) [Some partial_stage] = Inr rs \<and>
      get_prop (rs ! 0) ''round'' = Some (JNum (Num 1)) \<and>
      get_prop (JObj fields) ''board'' = None \<and> get_prop (JObj fields) ''bench'' = None \<and>
      get_prop (JObj fields) ''player'' = None \<and> get_prop (rs ! 0) ''boardSize'' = None \<and>
      get_prop (rs ! 0) ''hp'' = None"
    by (intro exI [of _ fields] exI [of _ rs]) simp
  with i e n b show ?thesis by simp
qed

text \<open>
  Claim C8 as stated fails. The snapshot of a stage without board, bench and player
  block holds the stage number and nothing else, and its round summary the round number
  and nothing else: no empty collection, no zero. And such a stage makes the
  normalisation throw: \<open>formatStageData\<close> when a damage record of it lacks its name or
  an entry of its roster is \<^verbatim>\<open>null\<close>, \<open>formatAllStages\<close> when the round outcome of the
  player is \<^verbatim>\<open>null\<close> or the stage itself is.
\<close>

theorem missing_parts_not_defaulted:
  "formatStageData (example_world None) [no_stage] 0 =
     Inr (JObj [(''stageNumber'', JNum (Num 1))]) \<and>
   formatAllStages (example_world None) [Some no_stage] =
     Inr [JObj [(''round'', JNum (Num 1))]] \<and>
   board nameless_damage_stage = None \<and> bench nameless_damage_stage = None \<and>
   me nameless_damage_stage = None \<and>
   formatStageData (example_world None) [nameless_damage_stage] 0 =
     Inl (TypeError ''Cannot read properties of undefined (reading 'toLowerCase')'') \<and>
   board null_roster_stage = None \<and> bench null_roster_stage = None \<and>
   me null_roster_stage = None \<and>
   formatStageData (example_world None) [null_roster_stage] 0 =
     Inl (TypeError ''Cannot read properties of null (reading 'tag_line')'') \<and>
   board null_outcome_stage = None \<and> bench null_outcome_stage = None \<and>
   me null_outcome_stage = None \<and>
   formatAllStages (example_world None) [Some null_outcome_stage] =
     Inl (TypeError ''Cannot read properties of null (reading 'outcome')'') \<and>
   formatAllStages (example_world None) [None] =
     Inl (TypeError ''Cannot read properties of null (reading 'match_info')'')"
  by code_simp

section \<open>Numeric strings\<close>

lemma parseInt_absent: "parseInt None = NaN"
  by code_simp

lemma parseInt_empty: "parseInt (Some []) = NaN"
  by code_simp

lemma or_else_0: "or_else n 0 = (if n = NaN then Num 0 else n)"
  by (cases n) (simp_all add: or_else_def)

lemma or_else_1: "or_else n 1 = (if n = NaN \<or> n = Num 0 then Num 1 else n)"
  by (cases n) (simp_all add: or_else_def)

lemma board_unit_stars:
  "board_unit w u = Inr v \<Longrightarrow> get_prop v ''stars'' = Some (JNum (or_else (parseInt (piece_level u)) 1))"
  by (auto simp: board_unit_def split: sum.splits)

lemma bench_unit_stars:
  "bench_unit w u = Inr v \<Longrightarrow> get_prop v ''stars'' = Some (JNum (or_else (parseInt (piece_level u)) 1))"
  by (auto simp: bench_unit_def split: sum.splits)

lemma str_or_default: "x \<in> {None, Some []} \<Longrightarrow> str_or x d = d"
  by (auto simp: str_or_def)

lemma summary_object_props:
  "get_prop (summary_object stages) ''startingHealth'' =
     Some (JNum (parseInt_text (str_or (health_of (index stages 0)) ''100'')))"
  "get_prop (summary_object stages) ''finalHealth'' =
     Some (JNum (parseInt_text (str_or (health_of (index stages (int (length stages) - 1))) ''0'')))"
  "get_prop (summary_object stages) ''finalGold'' =
     Some (JNum (parseInt_text (str_or (gold_of (index stages (int (length stages) - 1))) ''0'')))"
  by (simp_all add: summary_object_def Let_def)

text \<open>
  Claim C2, amended. \<open>parseInt\<close> never raises; it yields \<open>NaN\<close> for an absent or
  unparsable string. In the snapshot and in the round summary the health and the gold
  of the player are the parsed number, and 0 when the string is absent or unparsable; the
  round summaries are returned whenever the round outcomes of the stages are objects. The
  star level of a board or bench piece is the parsed level, and 1 when the level is absent,
  unparsable or zero. In the assembled summary the starting health is 100 when the first
  stage has no health string or an empty one, and the final health and the final gold are
  0 when the last stage has no such string or an empty one.
\<close>

theorem numeric_string_defaults:
  "parseInt None = NaN \<and> parseInt (Some []) = NaN \<and>
   (index stages i = Some st \<and> me st = Some m \<longrightarrow>
      (\<forall>obj. formatStageData w stages i = Inr obj \<longrightarrow>
         get_prop obj ''player'' =
           Some (JObj [(''health'', JNum (if parseInt (health m) = NaN then Num 0 else parseInt (health m))),
                       (''gold'', JNum (if parseInt (gold m) = NaN then Num 0 else parseInt (gold m))),
                       (''level'', JNum (xp_level_or_0 m))])) \<and>
      (\<forall>rs. formatAllStages w (map Some stages) = Inr rs \<longrightarrow>
         get_prop (rs ! nat i) ''hp'' =
           Some (JNum (if parseInt (health m) = NaN then Num 0 else parseInt (health m))) \<and>
         get_prop (rs ! nat i) ''gold'' =
           Some (JNum (if parseInt (gold m) = NaN then Num 0 else parseInt (gold m))))) \<and>
   (list_all (\<lambda>s. None \<notin> set (outcome_entries s)) stages \<longrightarrow>
      (\<exists>rs. formatAllStages w (map Some stages) = Inr rs)) \<and>
   (board_unit w u = Inr v \<or> bench_unit w u = Inr v \<longrightarrow>
      get_prop v ''stars'' =
        Some (JNum (if parseInt (piece_level u) = NaN \<or> parseInt (piece_level u) = Num 0
                    then Num 1 else parseInt (piece_level u)))) \<and>
   (health_of (index stages 0) \<in> {None, Some []} \<longrightarrow>
      get_prop (summary_object stages) ''startingHealth'' = Some (JNum (Num 100))) \<and>
   (health_of (index stages (int (length stages) - 1)) \<in> {None, Some []} \<longrightarrow>
      get_prop (summary_object stages) ''finalHealth'' = Some (JNum (Num 0))) \<and>
   (gold_of (index stages (int (length stages) - 1)) \<in> {None, Some []} \<longrightarrow>
      get_prop (summary_object stages) ''finalGold'' = Some (JNum (Num 0)))"
proof (intro conjI impI allI)
  show "parseInt None = NaN" by (rule parseInt_absent)
  show "parseInt (Some []) = NaN" by (rule parseInt_empty)
next
  fix obj
  assume a: "index stages i = Some st \<and> me st = Some m" and o: "formatStageData w stages i = Inr obj"
  from formatStageData_Inr [OF a [THEN conjunct1] o] a
  show "get_prop obj ''player'' =
           Some (JObj [(''health'', JNum (if parseInt (health m) = NaN then Num 0 else parseInt (health m))),
                       (''gold'', JNum (if parseInt (gold m) = NaN then Num 0 else parseInt (gold m))),
                       (''level'', JNum (xp_level_or_0 m))])"
    by (simp add: stage_player_def or_else_0)
next
  fix rs
  assume a: "index stages i = Some st \<and> me st = Some m"
    and rs: "formatAllStages w (map Some stages) = Inr rs"
  note r = round_summary_props(2) [OF formatAllStages_at [OF rs a [THEN conjunct1]]]
  from a show "get_prop (rs ! nat i) ''hp'' =
        Some (JNum (if parseInt (health m) = NaN then Num 0 else parseInt (health m)))"
    by (simp add: r summary_me_def or_else_0)
  from a show "get_prop (rs ! nat i) ''gold'' =
        Some (JNum (if parseInt (gold m) = NaN then Num 0 else parseInt (gold m)))"
    by (simp add: r summary_me_def or_else_0)
next
  assume "list_all (\<lambda>s. None \<notin> set (outcome_entries s)) stages"
  then show "\<exists>rs. formatAllStages w (map Some stages) = Inr rs"
    by (rule formatAllStages_ok)
next
  assume "board_unit w u = Inr v \<or> bench_unit w u = Inr v"
  then show "get_prop v ''stars'' =
        Some (JNum (if parseInt (piece_level u) = NaN \<or> parseInt (piece_level u) = Num 0
                    then Num 1 else parseInt (piece_level u)))"
    using board_unit_stars [of w u v] bench_unit_stars [of w u v] by (auto simp: or_else_1)
next
  assume "health_of (index stages 0) \<in> {None, Some []}"
  then show "get_prop (summary_object stages) ''startingHealth'' = Some (JNum (Num 100))"
    by (simp add: summary_object_props str_or_default parseInt_100)
next
  assume "health_of (index stages (int (length stages) - 1)) \<in> {None, Some []}"
  then show "get_prop (summary_object stages) ''finalHealth'' = Some (JNum (Num 0))"
    by (simp add: summary_object_props str_or_default parseInt_0)
next
  assume "gold_of (index stages (int (length stages) - 1)) \<in> {None, Some []}"
  then show "get_prop (summary_object stages) ''finalGold'' = Some (JNum (Num 0))"
    by (simp add: summary_object_props str_or_default parseInt_0)
qed

theorem numeric_string_defaults_witness:
  "index [blank_player_stage] 0 = Some blank_player_stage \<and>
   me blank_player_stage = Some blank_player \<and>
   list_all (\<lambda>s. None \<notin> set (outcome_entries s)) [blank_player_stage] \<and>
   board_unit (example_world None) unlevelled_piece =
     Inr (JObj [(''champion'', JStr ''Jinx''), (''stars'', JNum (Num 1)), (''items'', JArr [])]) \<and>
   health_of (index [blank_player_stage] 0) \<in> {None, Some []} \<and>
   health_of (index [blank_player_stage] (int (length [blank_player_stage]) - 1)) \<in> {None, Some []} \<and>
   gold_of (index [blank_player_stage] (int (length [blank_player_stage]) - 1)) \<in> {None, Some []} \<and>
   (\<exists>rs. formatAllStages (example_world None) (map Some [blank_player_stage]) = Inr rs \<and>
         get_prop (rs ! nat 0) ''hp'' = Some (JNum (Num 0))) \<and>
   get_prop (summary_object [blank_player_stage]) ''startingHealth'' = Some (JNum (Num 100)) \<and>
   get_prop (summary_object [blank_player_stage]) ''finalHealth'' = Some (JNum (Num 0)) \<and>
   get_prop (summary_object [blank_player_stage]) ''finalGold'' = Some (JNum (Num 0))"
proof -
  have i: "index [blank_player_stage] 0 = Some blank_player_stage"
    by (simp add: index_def)
  have m: "me blank_player_stage = Some blank_player"
    by (simp add: blank_player_stage_def)
  have u: "board_unit (example_world None) unlevelled_piece =
     Inr (JObj [(''champion'', JStr ''Jinx''), (''stars'', JNum (Num 1)), (''items'', JArr [])])"
    by code_simp
  have h: "health_of (Some blank_player_stage) = None" "gold_of (Some blank_player_stage) = None"
    by (simp_all add: health_of_def gold_of_def blank_player_stage_def blank_player_def)
  have p: "parseInt (health blank_player) = NaN"
    by (simp add: blank_player_def parseInt_absent)
  have e: "list_all (\<lambda>s. None \<notin> set (outcome_entries s)) [blank_player_stage]"
    by (simp add: outcome_entries_def blank_player_stage_def no_stage_def)
  have f: "formatAllStages (example_world None) (map Some [blank_player_stage]) =
             Inr [JObj [(''round'', JNum (Num 1)), (''hp'', JNum (Num 0)),
                        (''gold'', JNum (Num 0)), (''level'', JNum (Num 0))]]"
    by code_simp
  show ?thesis
    using numeric_string_defaults
      [of "[blank_player_stage]" 0 blank_player_stage blank_player "example_world None"
          unlevelled_piece
          "JObj [(''champion'', JStr ''Jinx''), (''stars'', JNum (Num 1)), (''items'', JArr [])]"]
      i m u h p f e
    by simp
qed

text \<open>
  Claim C2 as stated fails: a piece without a level gets the star level 1, not 0; a
  stage without a health string gives the starting health 100, not 0; and a health
  string that is no number gives the final health \<open>NaN\<close>.
\<close>

theorem numeric_defaults_not_zero:
  "board_unit (example_world None) unlevelled_piece =
     Inr (JObj [(''champion'', JStr ''Jinx''), (''stars'', JNum (Num 1)), (''items'', JArr [])]) \<and>
   get_prop (summary_object [no_stage]) ''startingHealth'' = Some (JNum (Num 100)) \<and>
   get_prop (summary_object [abc_health_stage]) ''finalHealth'' = Some (JNum NaN)"
  by code_simp


section \<open>Determinism of the core\<close>

lemma resolver_fields:
  assumes "same_resolver w1 w2"
  shows "championsCache w1 = championsCache w2" "itemsCache w1 = itemsCache w2"
    "gameName w1 = gameName w2"
  using assms by (simp_all add: same_resolver_def)

lemma getChampionName_resolver:
  assumes "same_resolver w1 w2" shows "getChampionName w1 = getChampionName w2"
  by (rule ext) (unfold getChampionName_def resolver_fields [OF assms], rule refl)

lemma getItemName_resolver:
  assumes "same_resolver w1 w2" shows "getItemName w1 = getItemName w2"
  by (rule ext) (unfold getItemName_def resolver_fields [OF assms], rule refl)

lemma board_unit_resolver:
  assumes "same_resolver w1 w2" shows "board_unit w1 = board_unit w2"
  by (rule ext)
     (unfold board_unit_def getChampionName_resolver [OF assms] getItemName_resolver [OF assms],
      rule refl)

lemma bench_unit_resolver:
  assumes "same_resolver w1 w2" shows "bench_unit w1 = bench_unit w2"
  by (rule ext) (unfold bench_unit_def getChampionName_resolver [OF assms], rule refl)

lemma damage_unit_resolver:
  assumes "same_resolver w1 w2" shows "damage_unit w1 = damage_unit w2"
  by (rule ext) (unfold damage_unit_def getChampionName_resolver [OF assms], rule refl)

lemma board_piece_resolver:
  assumes "same_resolver w1 w2" shows "board_piece w1 = board_piece w2"
  by (rule ext) (unfold board_piece_def board_unit_resolver [OF assms], rule refl)

lemma bench_piece_resolver:
  assumes "same_resolver w1 w2" shows "bench_piece w1 = bench_piece w2"
  by (rule ext) (unfold bench_piece_def bench_unit_resolver [OF assms], rule refl)

lemma shop_piece_resolver:
  assumes "same_resolver w1 w2" shows "shop_piece w1 = shop_piece w2"
  by (rule ext) (unfold shop_piece_def getChampionName_resolver [OF assms], rule refl)

lemma formatStageData_resolver:
  assumes "same_resolver w1 w2" shows "formatStageData w1 = formatStageData w2"
  by (intro ext)
     (unfold formatStageData_def stage_board_def stage_bench_def stage_unitDamage_def
        stage_shop_def board_piece_resolver [OF assms] bench_piece_resolver [OF assms]
        damage_unit_resolver [OF assms] shop_piece_resolver [OF assms],
      rule refl)

lemma formatAllStages_resolver:
  assumes "same_resolver w1 w2" shows "formatAllStages w1 = formatAllStages w2"
  by (intro ext)
     (unfold formatAllStages_def round_summary_def summary_outcome_def
        resolver_fields [OF assms], rule refl)

lemma add_unit_resolver:
  assumes "same_resolver w1 w2" shows "add_unit w1 = add_unit w2"
  by (intro ext) (unfold add_unit_def getChampionName_resolver [OF assms], rule refl)

lemma add_entry_resolver:
  assumes "same_resolver w1 w2" shows "add_entry w1 = add_entry w2"
  by (intro ext) (unfold add_entry_def add_unit_resolver [OF assms], rule refl)

lemma calculateCarryStats_resolver:
  assumes "same_resolver w1 w2" shows "calculateCarryStats w1 = calculateCarryStats w2"
  by (intro ext)
     (unfold calculateCarryStats_def add_stage_def add_entry_resolver [OF assms], rule refl)

lemma finalBoard_resolver:
  assumes "same_resolver w1 w2" shows "finalBoard w1 = finalBoard w2"
  by (intro ext) (unfold finalBoard_def board_piece_resolver [OF assms], rule refl)

lemma stageProgression_resolver:
  assumes "same_resolver w1 w2" shows "stageProgression w1 = stageProgression w2"
  by (intro ext) (unfold stageProgression_def formatStageData_resolver [OF assms], rule refl)

lemma assemble_resolver:
  assumes "same_resolver w1 w2"
    and "parse_stages w1 (stage_data td1) = parse_stages w2 (stage_data td2)"
    and "uuid a1 = uuid a2"
    and "server td1 = server td2" "summoner_name td1 = summoner_name td2" "portal td1 = portal td2"
      "summoner_tier td1 = summoner_tier td2" "tft_set_core_name td1 = tft_set_core_name td2"
  shows "assemble w1 mid md a1 td1 = assemble w2 mid md a2 td2"
  unfolding assemble_cases assms(2) finalBoard_resolver [OF assms(1)]
    calculateCarryStats_resolver [OF assms(1)] stageProgression_resolver [OF assms(1)]
    formatAllStages_resolver [OF assms(1)] result_object_def assms(3-8) ..

text \<open>
  Claim C9. The result of the handler is determined by the request parameters, the
  decoded tracker data of the match (the payload, the identifier it is stored under and
  what \<^verbatim>\<open>JSON.parse\<close> makes of its stage text) and the resolver state. Two runs that
  agree on these return the same result, whatever else differs between their worlds:
  the timestamps and the other matches of the profile, or the locale's rendering of
  dates. The text handed to the caller is \<^verbatim>\<open>JSON.stringify\<close> of this result.
\<close>

theorem deterministic_core:
  assumes "same_resolver w1 w2"
    and "tracker_of w1 mid = Some (a1, td)" "tracker_of w2 mid = Some (a2, td)"
    and "uuid a1 = uuid a2"
    and "JSON_parse w1 (stage_data_text (stage_data td)) =
         JSON_parse w2 (stage_data_text (stage_data td))"
  shows "handleTftMatchTracker w1 (Some \<lparr>matchId = Some mid, mode = md\<rparr>) =
         handleTftMatchTracker w2 (Some \<lparr>matchId = Some mid, mode = md\<rparr>)"
proof -
  have "parse_stages w1 (stage_data td) = parse_stages w2 (stage_data td)"
    by (simp add: parse_stages_def assms(5))
  then have "assemble w1 mid m a1 td = assemble w2 mid m a2 td" for m
    using assms(1,4) by (intro assemble_resolver) simp_all
  then show ?thesis
    by (simp add: handle_tracker_of [OF assms(2)] handle_tracker_of [OF assms(3)])
qed

lemma example_elsewhere_tracker_of:
  "tracker_of (example_world_elsewhere sd) ''EUW1_42'' =
     Some (\<lparr>uuid = ''u1'', match_id_ow = ''42'', created_timestamp = 86400000\<rparr>, example_data sd)"
  by (simp add: tracker_of_def example_world_elsewhere_def example_world_def matchNumber_def
      is_upper_def is_digit_def)

theorem deterministic_core_witness:
  "same_resolver (example_world (Some (StageText ''[{}]'')))
     (example_world_elsewhere (Some (StageText ''[{}]''))) \<and>
   tracker_of (example_world (Some (StageText ''[{}]''))) ''EUW1_42'' \<noteq> None \<and>
   toLocaleString (example_world (Some (StageText ''[{}]''))) 0 \<noteq>
     toLocaleString (example_world_elsewhere (Some (StageText ''[{}]''))) 0 \<and>
   handleTftMatchTracker (example_world (Some (StageText ''[{}]'')))
     (Some \<lparr>matchId = Some ''EUW1_42'', mode = None\<rparr>) =
   handleTftMatchTracker (example_world_elsewhere (Some (StageText ''[{}]'')))
     (Some \<lparr>matchId = Some ''EUW1_42'', mode = None\<rparr>)"
proof -
  let ?sd = "Some (StageText ''[{}]'')"
  have s: "same_resolver (example_world ?sd) (example_world_elsewhere ?sd)"
    by (simp add: same_resolver_def example_world_elsewhere_def)
  have p: "JSON_parse (example_world ?sd) (stage_data_text (stage_data (example_data ?sd))) =
           JSON_parse (example_world_elsewhere ?sd) (stage_data_text (stage_data (example_data ?sd)))"
    by (simp add: example_world_elsewhere_def)
  have l: "toLocaleString (example_world ?sd) 0 \<noteq> toLocaleString (example_world_elsewhere ?sd) 0"
    by (simp add: example_world_elsewhere_def example_world_def)
  show ?thesis
    using deterministic_core [OF s example_tracker_of example_elsewhere_tracker_of _ p, of None]
      s l example_tracker_of [of ?sd]
    by simp
qed


section \<open>Decoding the stage data\<close>

text \<open>
  Claim C6. Let \<^verbatim>\<open>JSON.parse\<close> decode the text \<open>s\<close> to the array \<open>xs\<close> of stages, and
  let it reject the text that the array itself converts to (the elements' texts, that of
  an object being \<^verbatim>\<open>[object Object]\<close>, joined by commas, which is no JSON). Then an
  envelope that presents its stage data as the text \<open>s\<close> and the same envelope presenting
  the array \<open>xs\<close> decode to the same stages \<open>xs\<close>, the array being taken as it is, and
  the handler returns the same result for both.
\<close>

theorem decoder_equivalence:
  assumes "JSON_parse w s = Inr (DArray xs)"
    and "JSON_parse w (stage_data_text (Some (StageArray xs))) = Inl e"
  shows "parse_stages w (Some (StageText s)) = DArray xs \<and>
         parse_stages w (Some (StageArray xs)) = DArray xs \<and>
         handleTftMatchTracker
           (w\<lparr>fetchTrackerData := \<lambda>u. Inr (td\<lparr>stage_data := Some (StageText s)\<rparr>)\<rparr>) ps =
         handleTftMatchTracker
           (w\<lparr>fetchTrackerData := \<lambda>u. Inr (td\<lparr>stage_data := Some (StageArray xs)\<rparr>)\<rparr>) ps"
proof -
  let ?w1 = "w\<lparr>fetchTrackerData := \<lambda>u. Inr (td\<lparr>stage_data := Some (StageText s)\<rparr>)\<rparr>"
  let ?w2 = "w\<lparr>fetchTrackerData := \<lambda>u. Inr (td\<lparr>stage_data := Some (StageArray xs)\<rparr>)\<rparr>"
  have p1: "parse_stages w (Some (StageText s)) = DArray xs"
    using assms(1) by (simp add: parse_stages_def)
  have p2: "parse_stages w (Some (StageArray xs)) = DArray xs"
    using assms(2) by (simp add: parse_stages_def)
  have w: "parse_stages ?w1 = parse_stages w" "parse_stages ?w2 = parse_stages w"
    by (simp_all add: fun_eq_iff parse_stages_def)
  have r: "same_resolver ?w1 ?w2"
    by (simp add: same_resolver_def)
  have a: "assemble ?w1 mid md a (td\<lparr>stage_data := Some (StageText s)\<rparr>) =
           assemble ?w2 mid md a (td\<lparr>stage_data := Some (StageArray xs)\<rparr>)" for mid md a
    by (rule assemble_resolver [OF r]) (simp_all add: w p1 p2)
  have n: "no_tracker_for_match ?w1 mid ms = no_tracker_for_match ?w2 mid ms" for mid ms
    by (simp add: no_tracker_for_match_def)
  have "try_block ?w1 m md = try_block ?w2 m md" for m md
    by (simp add: try_block_def a n split: sum.splits option.splits)
  then have "handleTftMatchTracker ?w1 ps = handleTftMatchTracker ?w2 ps"
    by (simp add: handleTftMatchTracker_def try_catch_def split: option.splits)
  with p1 p2 show ?thesis by simp
qed

theorem decoder_equivalence_witness:
  "JSON_parse (example_world None) ''[{}]'' = Inr (DArray [Some no_stage]) \<and>
   JSON_parse (example_world None) (stage_data_text (Some (StageArray [Some no_stage]))) =
     Inl (SyntaxError ''Unexpected token'') \<and>
   parse_stages (example_world None) (Some (StageArray [Some no_stage])) = DArray [Some no_stage] \<and>
   handleTftMatchTracker
     ((example_world None)
        \<lparr>fetchTrackerData :=
           \<lambda>u. Inr ((example_data None)\<lparr>stage_data := Some (StageText ''[{}]'')\<rparr>)\<rparr>)
     (Some \<lparr>matchId = Some ''EUW1_42'', mode = None\<rparr>) =
   handleTftMatchTracker
     ((example_world None)
        \<lparr>fetchTrackerData :=
           \<lambda>u. Inr ((example_data None)\<lparr>stage_data := Some (StageArray [Some no_stage])\<rparr>)\<rparr>)
     (Some \<lparr>matchId = Some ''EUW1_42'', mode = None\<rparr>)"
proof -
  have p: "JSON_parse (example_world None) ''[{}]'' = Inr (DArray [Some no_stage])"
    by (simp add: example_world_def example_parse_def)
  have q: "JSON_parse (example_world None) (stage_data_text (Some (StageArray [Some no_stage]))) =
     Inl (SyntaxError ''Unexpected token'')"
    by (simp add: example_world_def example_parse_def)
  show ?thesis
    using decoder_equivalence
      [OF p q, of "example_data None" "Some \<lparr>matchId = Some ''EUW1_42'', mode = None\<rparr>"] p q
    by simp
qed


section \<open>Failures of the handler\<close>

lemma add_stage_ok:
  assumes "entries_are_objects st" "names_present st"
  shows "\<exists>d'. add_stage w st d = Inr d'"
proof -
  from assms(1) have e: "None \<notin> set (unit_entries st)"
    by (simp add: entries_are_objects_def)
  have "list_all (\<lambda>u. has_damage u \<longrightarrow> unit_name u \<noteq> None) (stage_units st)"
    using assms(2) by (simp add: names_present_def list_all_iff)
  then have "list_all (\<lambda>u. \<forall>d. \<exists>d'. add_unit w u d = Inr d') (stage_units st)"
    by (rule list_all_weaken) (simp add: add_unit_ok)
  then have "\<exists>d'. for_each (add_unit w) (stage_units st) d = Inr d'"
    by (rule for_each_ok)
  then show ?thesis
    by (simp add: add_stage_units [OF e])
qed

lemma calculateCarryStats_ok:
  assumes "list_all entries_are_objects stages" "list_all names_present stages"
  shows "\<exists>cs. calculateCarryStats w stages = Inr cs"
proof -
  have "list_all (\<lambda>st. \<forall>d. \<exists>d'. add_stage w st d = Inr d') stages"
    using assms by (auto simp: list_all_iff add_stage_ok)
  then have "\<exists>d'. for_each (add_stage w) stages [] = Inr d'"
    by (rule for_each_ok)
  then show ?thesis
    by (auto simp: calculateCarryStats_def)
qed

lemma finalBoard_ok:
  assumes "list_all entries_are_objects stages" "list_all names_present stages"
  shows "\<exists>fb. finalBoard w (index stages i) = Inr fb"
proof (cases "index stages i")
  case None
  then show ?thesis by (simp add: finalBoard_def)
next
  case (Some st)
  with assms have "entries_are_objects st" "names_present st"
    by (auto simp: list_all_iff dest: index_in_set)
  then have "None \<notin> set (board_entries st)"
    "list_all (\<lambda>u. piece_name u \<noteq> None) (objects (board_entries st))"
    by (simp_all add: entries_are_objects_def names_present_def)
  from board_pieces_ok [OF this, of w] Some show ?thesis
    by (auto simp: finalBoard_def board_entries_def split: option.splits)
qed

lemma formatStageData_all_ok:
  assumes "list_all entries_are_objects stages" "list_all names_present stages"
  shows "\<exists>v. formatStageData w stages i = Inr v"
proof (cases "index stages i")
  case None
  then show ?thesis by (simp add: formatStageData_def)
next
  case (Some st)
  with assms have "entries_are_objects st" "names_present st"
    by (auto simp: list_all_iff dest: index_in_set)
  with Some show ?thesis by (rule formatStageData_names)
qed

lemma stageProgression_ok:
  assumes "list_all entries_are_objects stages" "list_all names_present stages"
  shows "\<exists>sp. stageProgression w md stages = Inr sp"
  unfolding stageProgression_def
  by (auto intro!: map_throwing_ok simp: list_all_iff formatStageData_all_ok [OF assms])

lemma assemble_ok:
  assumes "parse_stages w (stage_data td) = DArray (map Some stages)"
    "list_all entries_are_objects stages" "list_all names_present stages"
  shows "\<exists>r. assemble w mid md a td = Inr r \<and> \<not> isError r"
proof -
  have "list_all (\<lambda>st. None \<notin> set (outcome_entries st)) stages"
    by (rule list_all_weaken [OF assms(2)]) (simp add: entries_are_objects_def)
  from formatAllStages_ok [OF this, of w] obtain hp
    where hp: "formatAllStages w (map Some stages) = Inr hp" by (elim exE)
  from finalBoard_ok [OF assms(2,3), of w "int (length stages) - 1"]
    calculateCarryStats_ok [OF assms(2,3), of w] stageProgression_ok [OF assms(2,3), of w md]
  show ?thesis
    by (auto simp: assemble_cases assms(1) hp objects_map_Some)
qed

lemma assemble_shape: "assemble w mid md a td = Inr r \<Longrightarrow> well_shaped r \<and> \<not> isError r"
  by (auto simp: assemble_cases well_shaped_def result_object_def split: decoded.splits sum.splits)

lemma no_tracker_shapes:
  "well_shaped no_tracker_data" "well_shaped (no_tracker_for_match w mid ms)"
  by (simp_all add: well_shaped_def no_tracker_data_def no_tracker_for_match_def)

lemma try_block_shape: "try_block w m md = Inr r \<Longrightarrow> well_shaped r"
  by (auto simp: try_block_def no_tracker_shapes assemble_shape split: sum.splits option.splits if_splits)

lemma try_catch_shape: "well_shaped (try_catch w m md)"
proof (cases "try_block w m md")
  case (Inl e)
  then show ?thesis by (simp add: try_catch_def well_shaped_def)
next
  case (Inr r)
  then show ?thesis by (simp add: try_catch_def try_block_shape)
qed

lemma try_catch_no_matchId: "isError (try_catch w None md)"
  by (simp add: try_catch_def try_block_def)

lemma try_catch_no_tracker:
  assumes "tracker_of w mid = None"
  shows "isError (try_catch w (Some mid) md)"
  using try_block_cases [of w mid] assms
  by (auto simp: try_catch_def)

lemma try_catch_tracker_of:
  "tracker_of w mid = Some (a, td) \<Longrightarrow>
   try_catch w (Some mid) md =
     (case assemble w mid md a td of
        Inr r \<Rightarrow> r
      | Inl err \<Rightarrow> \<lparr>content = [JObj [(''error'', JStr (message err))]], isError = True\<rparr>)"
  by (simp add: try_catch_def try_block_tracker_of)

lemma parse_stages_no_array:
  assumes "(\<exists>v. JSON_parse w (stage_data_text sd) = Inr v \<and> (\<forall>xs. v \<noteq> DArray xs)) \<or>
           (\<exists>e. JSON_parse w (stage_data_text sd) = Inl e) \<and> (\<forall>xs. sd \<noteq> Some (StageArray xs))"
  shows "\<forall>xs. parse_stages w sd \<noteq> DArray xs"
  using assms by (auto simp: parse_stages_def split: option.splits stage_data.splits)

lemma parse_stages_array:
  assumes "JSON_parse w (stage_data_text sd) = Inr (DArray xs) \<or>
           (\<exists>e. JSON_parse w (stage_data_text sd) = Inl e) \<and> sd = Some (StageArray xs)"
  shows "parse_stages w sd = DArray xs"
  using assms by (auto simp: parse_stages_def)

lemma try_catch_not_array:
  assumes "tracker_of w mid = Some (a, td)" "\<forall>xs. parse_stages w (stage_data td) \<noteq> DArray xs"
  shows "isError (try_catch w (Some mid) md)"
  using assms(2)
  by (cases "parse_stages w (stage_data td)")
     (simp_all add: try_catch_tracker_of [OF assms(1)] assemble_cases)

lemma try_catch_objects:
  assumes "tracker_of w mid = Some (a, td)"
    "parse_stages w (stage_data td) = DArray (map Some stages)"
    "list_all entries_are_objects stages" "list_all names_present stages"
  shows "\<not> isError (try_catch w (Some mid) md)"
  using assemble_ok [OF assms(2-4), of mid md a]
  by (auto simp: try_catch_tracker_of [OF assms(1)])

text \<open>
  Claim C7, amended. Called with an arguments object, the handler never throws: it
  returns one structured object, flagged as an error exactly when it carries an
  \<^verbatim>\<open>error\<close> property. It returns an error when the match id is absent, when a fetch
  fails or the profile does not list the match, and when the stage data is no array:
  the decoder yields a value that is no array, or the decoder rejects the text and the
  raw value is no array. When the fetches succeed and the stage data is an array of
  stage objects, as decoded or as it is when the decoder rejects its text, then absent
  sub-objects and unparsable numbers never interrupt the handler: it returns a success
  whenever the entries of the records of the stages are objects and the pieces, damaging
  units and shop pieces carry their names.
\<close>

theorem failure_surface:
  "(\<exists>r. handleTftMatchTracker w (Some \<lparr>matchId = None, mode = md\<rparr>) = Inr r \<and>
        well_shaped r \<and> isError r) \<and>
   (\<exists>r. handleTftMatchTracker w (Some \<lparr>matchId = Some mid, mode = md\<rparr>) = Inr r \<and>
        well_shaped r \<and>
        (tracker_of w mid = None \<longrightarrow> isError r) \<and>
        (tracker_of w mid = Some (a, td) \<and>
         ((\<exists>v. JSON_parse w (stage_data_text (stage_data td)) = Inr v \<and>
               (\<forall>xs. v \<noteq> DArray xs)) \<or>
          (\<exists>e. JSON_parse w (stage_data_text (stage_data td)) = Inl e) \<and>
          (\<forall>xs. stage_data td \<noteq> Some (StageArray xs))) \<longrightarrow>
           isError r) \<and>
        (tracker_of w mid = Some (a, td) \<and>
         (JSON_parse w (stage_data_text (stage_data td)) = Inr (DArray (map Some stages)) \<or>
          (\<exists>e. JSON_parse w (stage_data_text (stage_data td)) = Inl e) \<and>
          stage_data td = Some (StageArray (map Some stages))) \<and>
         list_all entries_are_objects stages \<and> list_all names_present stages \<longrightarrow>
           \<not> isError r))"
proof (intro conjI)
  let ?md = "case md of None \<Rightarrow> ''summary'' | Some m \<Rightarrow> m"
  show "\<exists>r. handleTftMatchTracker w (Some \<lparr>matchId = None, mode = md\<rparr>) = Inr r \<and>
        well_shaped r \<and> isError r"
    by (intro exI [of _ "try_catch w None ?md"])
       (simp add: handle_Some try_catch_shape try_catch_no_matchId)
  let ?r = "try_catch w (Some mid) ?md"
  have 1: "tracker_of w mid = None \<longrightarrow> isError ?r"
    by (simp add: try_catch_no_tracker)
  have 2: "tracker_of w mid = Some (a, td) \<and>
         ((\<exists>v. JSON_parse w (stage_data_text (stage_data td)) = Inr v \<and>
               (\<forall>xs. v \<noteq> DArray xs)) \<or>
          (\<exists>e. JSON_parse w (stage_data_text (stage_data td)) = Inl e) \<and>
          (\<forall>xs. stage_data td \<noteq> Some (StageArray xs))) \<longrightarrow>
           isError ?r"
    using try_catch_not_array [of w mid a td ?md] parse_stages_no_array [of w "stage_data td"]
    by (intro impI) (elim conjE, simp)
  have 3: "tracker_of w mid = Some (a, td) \<and>
         (JSON_parse w (stage_data_text (stage_data td)) = Inr (DArray (map Some stages)) \<or>
          (\<exists>e. JSON_parse w (stage_data_text (stage_data td)) = Inl e) \<and>
          stage_data td = Some (StageArray (map Some stages))) \<and>
         list_all entries_are_objects stages \<and> list_all names_present stages \<longrightarrow>
           \<not> isError ?r"
    using try_catch_objects [of w mid a td stages ?md]
      parse_stages_array [of w "stage_data td" "map Some stages"]
    by (intro impI) (elim conjE, simp)
  show "\<exists>r. handleTftMatchTracker w (Some \<lparr>matchId = Some mid, mode = md\<rparr>) = Inr r \<and>
        well_shaped r \<and>
        (tracker_of w mid = None \<longrightarrow> isError r) \<and>
        (tracker_of w mid = Some (a, td) \<and>
         ((\<exists>v. JSON_parse w (stage_data_text (stage_data td)) = Inr v \<and>
               (\<forall>xs. v \<noteq> DArray xs)) \<or>
          (\<exists>e. JSON_parse w (stage_data_text (stage_data td)) = Inl e) \<and>
          (\<forall>xs. stage_data td \<noteq> Some (StageArray xs))) \<longrightarrow>
           isError r) \<and>
        (tracker_of w mid = Some (a, td) \<and>
         (JSON_parse w (stage_data_text (stage_data td)) = Inr (DArray (map Some stages)) \<or>
          (\<exists>e. JSON_parse w (stage_data_text (stage_data td)) = Inl e) \<and>
          stage_data td = Some (StageArray (map Some stages))) \<and>
         list_all entries_are_objects stages \<and> list_all names_present stages \<longrightarrow>
           \<not> isError r)"
    by (rule exI [of _ ?r], intro conjI)
       (simp add: handle_Some, rule try_catch_shape, rule 1, rule 2, rule 3)
qed

theorem failure_surface_witness:
  "tracker_of (example_world (Some (StageArray [Some full_stage]))) ''EUW1_42'' =
     Some (\<lparr>uuid = ''u1'', match_id_ow = ''42'', created_timestamp = 0\<rparr>,
           example_data (Some (StageArray [Some full_stage]))) \<and>
   JSON_parse (example_world (Some (StageArray [Some full_stage])))
     (stage_data_text (stage_data (example_data (Some (StageArray [Some full_stage]))))) =
     Inl (SyntaxError ''Unexpected token'') \<and>
   stage_data (example_data (Some (StageArray [Some full_stage]))) =
     Some (StageArray (map Some [full_stage])) \<and>
   list_all entries_are_objects [full_stage] \<and> list_all names_present [full_stage] \<and>
   board_entries full_stage \<noteq> [] \<and> bench_entries full_stage \<noteq> [] \<and>
   filter has_damage (stage_units full_stage) \<noteq> [] \<and> last_shop_entries full_stage \<noteq> [] \<and>
   (\<exists>r. handleTftMatchTracker (example_world (Some (StageArray [Some full_stage])))
          (Some \<lparr>matchId = Some ''EUW1_42'', mode = None\<rparr>) = Inr r \<and>
        well_shaped r \<and> \<not> isError r) \<and>
   tracker_of (example_world None) ''EUW1_99'' = None \<and>
   (\<exists>r. handleTftMatchTracker (example_world None)
          (Some \<lparr>matchId = Some ''EUW1_99'', mode = None\<rparr>) = Inr r \<and> isError r) \<and>
   tracker_of (example_world (Some (StageText ''abc''))) ''EUW1_42'' =
     Some (\<lparr>uuid = ''u1'', match_id_ow = ''42'', created_timestamp = 0\<rparr>,
           example_data (Some (StageText ''abc''))) \<and>
   JSON_parse (example_world (Some (StageText ''abc'')))
     (stage_data_text (stage_data (example_data (Some (StageText ''abc''))))) =
     Inl (SyntaxError ''Unexpected token'') \<and>
   stage_data (example_data (Some (StageText ''abc''))) = Some (StageText ''abc'') \<and>
   (\<exists>r. handleTftMatchTracker (example_world (Some (StageText ''abc'')))
          (Some \<lparr>matchId = Some ''EUW1_42'', mode = None\<rparr>) = Inr r \<and> isError r)"
proof -
  let ?sd = "Some (StageArray [Some full_stage])"
  let ?ab = "Some (StageText ''abc'')"
  let ?a = "\<lparr>uuid = ''u1'', match_id_ow = ''42'', created_timestamp = 0\<rparr>"
  have p: "JSON_parse (example_world ?sd) (stage_data_text (stage_data (example_data ?sd))) =
             Inl (SyntaxError ''Unexpected token'')"
    by (simp add: example_data_def example_world_def example_parse_def)
  have s: "stage_data (example_data ?sd) = Some (StageArray (map Some [full_stage]))"
    by (simp add: example_data_def)
  have e: "list_all entries_are_objects [full_stage]"
    by (simp add: entries_are_objects_def full_stage_def partial_stage_def no_stage_def
        board_entries_def bench_entries_def unit_entries_def last_shop_entries_def
        roster_entries_def outcome_entries_def)
  have n: "list_all names_present [full_stage]"
    by (simp add: names_present_def full_stage_def partial_stage_def no_stage_def
        board_entries_def bench_entries_def unit_entries_def stage_units_def
        last_shop_entries_def has_damage_def)
  have f: "board_entries full_stage \<noteq> []" "bench_entries full_stage \<noteq> []"
    "filter has_damage (stage_units full_stage) \<noteq> []" "last_shop_entries full_stage \<noteq> []"
    by (simp_all add: full_stage_def partial_stage_def no_stage_def board_entries_def
        bench_entries_def unit_entries_def stage_units_def last_shop_entries_def has_damage_def)
  have t: "tracker_of (example_world None) ''EUW1_99'' = None"
    by (simp add: tracker_of_def example_world_def matchNumber_def is_upper_def is_digit_def)
  have q: "JSON_parse (example_world ?ab) (stage_data_text (stage_data (example_data ?ab))) =
             Inl (SyntaxError ''Unexpected token'')"
    by (simp add: example_data_def example_world_def example_parse_def)
  have u: "stage_data (example_data ?ab) = Some (StageText ''abc'')"
    by (simp add: example_data_def)
  have 1: "\<exists>r. handleTftMatchTracker (example_world ?sd)
          (Some \<lparr>matchId = Some ''EUW1_42'', mode = None\<rparr>) = Inr r \<and>
        well_shaped r \<and> \<not> isError r"
    using failure_surface [of "example_world ?sd" None "''EUW1_42''" ?a "example_data ?sd"
        "[full_stage]", THEN conjunct2] example_tracker_of [of ?sd] p s e n
    by (elim exE conjE) (rule exI, simp)
  have 2: "\<exists>r. handleTftMatchTracker (example_world None)
          (Some \<lparr>matchId = Some ''EUW1_99'', mode = None\<rparr>) = Inr r \<and> isError r"
    using failure_surface [of "example_world None" None "''EUW1_99''" ?a "example_data None" "[]",
        THEN conjunct2] t
    by (elim exE conjE) (rule exI, simp)
  have 3: "\<exists>r. handleTftMatchTracker (example_world ?ab)
          (Some \<lparr>matchId = Some ''EUW1_42'', mode = None\<rparr>) = Inr r \<and> isError r"
    using failure_surface [of "example_world ?ab" None "''EUW1_42''" ?a "example_data ?ab" "[]",
        THEN conjunct2] example_tracker_of [of ?ab] q u
    by (elim exE conjE) (rule exI, simp)
  show ?thesis
    using 1 2 3 example_tracker_of [of ?sd] example_tracker_of [of ?ab] p s e n f t q u
    by simp
qed

text \<open>
  Claim C7 as stated fails. The envelope and its stage array decode, and still the
  handler aborts with an error: because a board piece of the stage lacks its name,
  because an element of the stage array is \<^verbatim>\<open>null\<close>, or because an entry of the roster
  is \<^verbatim>\<open>null\<close>. And called without an arguments object the handler throws.
\<close>

theorem missing_name_aborts:
  "parse_stages (example_world (Some (StageArray [Some nameless_piece_stage])))
     (Some (StageArray [Some nameless_piece_stage])) = DArray [Some nameless_piece_stage] \<and>
   handleTftMatchTracker (example_world (Some (StageArray [Some nameless_piece_stage])))
     (Some \<lparr>matchId = Some ''EUW1_42'', mode = None\<rparr>) =
   Inr \<lparr>content =
      [JObj [(''error'', JStr ''Cannot read properties of undefined (reading 'toLowerCase')'')]],
    isError = True\<rparr> \<and>
   handleTftMatchTracker (example_world (Some (StageArray [None])))
     (Some \<lparr>matchId = Some ''EUW1_42'', mode = None\<rparr>) =
   Inr \<lparr>content =
      [JObj [(''error'', JStr ''Cannot read properties of null (reading 'match_info')'')]],
    isError = True\<rparr> \<and>
   names_present null_roster_stage \<and>
   handleTftMatchTracker (example_world (Some (StageArray [Some null_roster_stage])))
     (Some \<lparr>matchId = Some ''EUW1_42'', mode = None\<rparr>) =
   Inr \<lparr>content =
      [JObj [(''error'', JStr ''Cannot read properties of null (reading 'tag_line')'')]],
    isError = True\<rparr> \<and>
   handleTftMatchTracker (example_world (Some (StageText ''[]''))) None =
   Inl (TypeError ''Cannot destructure property 'matchId' of 'params' as it is undefined.'')"
  by code_simp

section \<open>The carry ranking\<close>

lemma for_each_append:
  "for_each f (xs @ ys) s = (case for_each f xs s of Inl e \<Rightarrow> Inl e | Inr s' \<Rightarrow> for_each f ys s')"
  by (induction xs arbitrary: s) (auto split: sum.splits)

lemma for_each_stages:
  "list_all (\<lambda>st. None \<notin> set (unit_entries st)) stages \<Longrightarrow>
   for_each (add_stage w) stages d = for_each (add_unit w) (concat (map stage_units stages)) d"
  by (induction stages arbitrary: d) (auto simp: for_each_append add_stage_units split: sum.splits)

lemma add_unit_no_damage: "\<not> has_damage u \<Longrightarrow> add_unit w u d = Inr d"
  by (auto simp: add_unit_def has_damage_def split: option.splits)

lemma for_each_filter:
  "for_each (add_unit w) us d = for_each (add_unit w) (filter has_damage us) d"
  by (induction us arbitrary: d) (auto simp: add_unit_no_damage split: sum.splits)

lemma for_each_records:
  assumes "list_all (\<lambda>st. None \<notin> set (unit_entries st)) stages"
  shows "for_each (add_stage w) stages d = for_each (add_unit w) (damage_records stages) d"
  unfolding damage_records_def for_each_stages [OF assms] by (rule for_each_filter)

lemma own_insert_plain: "\<not> is_array_index k \<Longrightarrow> own_insert k v kvs = kvs @ [(k, v)]"
  by (simp add: own_insert_def)

lemma add_unit_tally:
  assumes "has_damage u" "add_unit w u d = Inr d'" "plain_name (resolved w u)"
  shows "d' = tally w u d"
proof -
  from assms(1) obtain dm where dm: "damage u = Some dm" "dm \<noteq> 0" "0 < dm"
    by (auto simp: has_damage_def split: option.splits)
  from assms(2) dm obtain n where n: "getChampionName w (unit_name u) = Inr n"
    by (auto simp: add_unit_def split: sum.splits)
  then have r: "resolved w u = n" by (simp add: resolved_def)
  from assms(3) r have p: "\<not> is_array_index n" "n \<notin> set object_prototype_keys"
    by (simp_all add: plain_name_def)
  have dv: "damage_of u = dm"
    using dm by (simp add: damage_of_def)
  from assms(2) show ?thesis
    using dm n p
    by (auto simp: add_unit_def tally_def r dv own_insert_plain)
qed

lemma for_each_tally:
  assumes "for_each (add_unit w) us d = Inr d'" "list_all has_damage us"
    "list_all (\<lambda>u. plain_name (resolved w u)) us"
  shows "d' = fold (tally w) us d"
  using assms
proof (induction us arbitrary: d)
  case Nil
  then show ?case by simp
next
  case (Cons u us)
  from Cons.prems(1) obtain d1 where d1: "add_unit w u d = Inr d1" "for_each (add_unit w) us d1 = Inr d'"
    by (auto split: sum.splits)
  from Cons.prems have "d1 = tally w u d"
    using d1(1) by (intro add_unit_tally) simp_all
  with Cons.IH [OF d1(2)] Cons.prems show ?case by simp
qed

lemma tally_keys:
  "map fst (tally w u d) =
     (if resolved w u \<in> set (map fst d) then map fst d else map fst d @ [resolved w u])"
proof -
  have "map fst (map (\<lambda>e. if fst e = n then (fst e, g (snd e)) else e) xs) = map fst xs" for n g
    and xs :: "(string \<times> DamageStats) list"
    by (induction xs) auto
  then show ?thesis
    by (auto simp: tally_def map_of_eq_None_iff)
qed

lemma first_seen_set: "set (first_seen xs) = set xs"
  by (induction xs) auto

lemma first_seen_distinct: "distinct (first_seen xs)"
  by (induction xs) (auto simp: first_seen_set)

lemma fold_tally_keys:
  "map fst (fold (tally w) us d) =
     map fst d @ filter (\<lambda>n. n \<notin> set (map fst d)) (first_seen (map (resolved w) us))"
proof (induction us arbitrary: d)
  case Nil
  then show ?case by simp
next
  case (Cons u us)
  show ?case
  proof (cases "resolved w u \<in> set (map fst d)")
    case True
    then have "filter (\<lambda>n. n \<notin> set (map fst d)) (filter (\<lambda>y. y \<noteq> resolved w u) xs) =
               filter (\<lambda>n. n \<notin> set (map fst d)) xs" for xs
      by (induction xs) auto
    with True show ?thesis
      by (simp add: Cons.IH tally_keys)
  next
    case False
    have "filter (\<lambda>n. n \<noteq> resolved w u \<and> n \<notin> set (map fst d)) xs =
          filter (\<lambda>n. n \<notin> set (map fst d)) (filter (\<lambda>y. y \<noteq> resolved w u) xs)" for xs
      by (induction xs) auto
    with False show ?thesis
      by (simp add: Cons.IH tally_keys)
  qed
qed

lemma map_of_bumped:
  "map_of (map (\<lambda>e. if fst e = n then (fst e, g (snd e)) else e) xs) k =
     (if k = n then map_option g (map_of xs k) else map_of xs k)"
  by (induction xs) auto

lemma tally_lookup:
  "map_of (tally w u d) n =
     (if n = resolved w u
      then Some (bump (damage_of u) (to_number (unit_level u))
                   (case map_of d n of None \<Rightarrow> \<lparr>total = 0, count = 0, maxStars = Num 0\<rparr> | Some s \<Rightarrow> s))
      else map_of d n)"
  by (auto simp: tally_def map_of_bumped map_add_def split: option.splits)

lemma fold_tally_lookup:
  "map_of (fold (tally w) us d) n =
     (if records_of w n us = [] then map_of d n
      else Some (stat_fold (records_of w n us)
                   (case map_of d n of None \<Rightarrow> \<lparr>total = 0, count = 0, maxStars = Num 0\<rparr> | Some s \<Rightarrow> s)))"
proof (induction us arbitrary: d)
  case Nil
  then show ?case by (simp add: records_of_def)
next
  case (Cons u us)
  show ?case
    by (simp add: Cons.IH tally_lookup records_of_def stat_fold_def)
qed

lemma stat_fold_fields:
  "total (stat_fold recs s) = total s + sum_list (map damage_of recs)"
  "count (stat_fold recs s) = count s + int (length recs)"
  "maxStars (stat_fold recs s) = fold (\<lambda>u m. Math_max m (to_number (unit_level u))) recs (maxStars s)"
  unfolding stat_fold_def by (induction recs arbitrary: s; simp add: bump_def)+

lemma js_insert_insort:
  "js_insert (\<lambda>a b. Num (totalDamage b - totalDamage a)) x xs =
     insort_key (\<lambda>c. - totalDamage c) x xs"
  by (induction xs) auto

lemma js_sort_sort_key:
  "js_sort (\<lambda>a b. Num (totalDamage b - totalDamage a)) xs = sort_key (\<lambda>c. - totalDamage c) xs"
  unfolding js_sort_def sort_key_def
  by (induction xs) (simp_all add: js_insert_insort)

lemma carry_entry_fields:
  "champion (carry_entry e) = fst e" "totalDamage (carry_entry e) = total (snd e)"
  "roundsPlayed (carry_entry e) = count (snd e)" "carry_maxStars (carry_entry e) = maxStars (snd e)"
  "avgDamage (carry_entry e) = Math_round_div (total (snd e)) (count (snd e))"
  by (simp_all add: carry_entry_def)

lemma carry_ranking:
  assumes "calculateCarryStats w stages = Inr ranking"
    and "list_all (\<lambda>u. plain_name (resolved w u)) (damage_records stages)"
    and objs: "list_all (\<lambda>st. None \<notin> set (unit_entries st)) stages"
  shows "\<exists>d. ranking = sort_key (\<lambda>c. - totalDamage c) (map carry_entry d) \<and>
             map fst d = first_seen (map (resolved w) (damage_records stages)) \<and>
             (\<forall>e \<in> set d. snd e = stat_fold (records_of w (fst e) (damage_records stages))
                                     \<lparr>total = 0, count = 0, maxStars = Num 0\<rparr>)"
proof -
  let ?us = "damage_records stages"
  from assms(1) obtain d where d: "for_each (add_stage w) stages [] = Inr d"
    and r: "ranking = js_sort (\<lambda>a b. Num (totalDamage b - totalDamage a)) (map carry_entry d)"
    by (auto simp: calculateCarryStats_def split: sum.splits)
  have h: "list_all has_damage ?us"
    by (simp add: damage_records_def list_all_iff)
  from d have "for_each (add_unit w) ?us [] = Inr d"
    by (simp add: for_each_records [OF objs])
  from for_each_tally [OF this h assms(2)] have f: "d = fold (tally w) ?us []" .
  have k: "map fst d = first_seen (map (resolved w) ?us)"
    unfolding f by (simp add: fold_tally_keys)
  have v: "snd e = stat_fold (records_of w (fst e) ?us) \<lparr>total = 0, count = 0, maxStars = Num 0\<rparr>"
    if mem: "e \<in> set d" for e
  proof -
    have dist: "distinct (map fst d)"
      unfolding k by (rule first_seen_distinct)
    have "map_of d (fst e) = Some (snd e)"
      by (rule map_of_is_SomeI [OF dist]) (simp add: mem)
    moreover have "fst e \<in> set (map (resolved w) ?us)"
      using mem k first_seen_set [of "map (resolved w) ?us"] by (metis image_eqI list.set_map)
    then have "records_of w (fst e) ?us \<noteq> []"
      by (auto simp: records_of_def filter_empty_conv)
    ultimately show ?thesis
      unfolding f by (simp add: fold_tally_lookup)
  qed
  from r k v show ?thesis
    by (auto simp: js_sort_sort_key)
qed

lemma no_damage_no_error: "\<not> has_damage u \<longrightarrow> add_unit w u d = Inr d"
  by (simp add: add_unit_no_damage)

lemma example_ranking:
  "calculateCarryStats (example_world None) [hit ''A'' 100, hit ''B'' 50, hit ''A'' 50] =
     Inr [\<lparr>champion = ''A'', totalDamage = 150, avgDamage = 75, roundsPlayed = 2,
            carry_maxStars = Num 2\<rparr>,
          \<lparr>champion = ''B'', totalDamage = 50, avgDamage = 50, roundsPlayed = 1,
            carry_maxStars = Num 2\<rparr>]"
  by code_simp

lemma carry_ranking_properties:
  assumes "calculateCarryStats w stages = Inr ranking"
    and "list_all (\<lambda>u. plain_name (resolved w u)) (damage_records stages)"
    and "list_all (\<lambda>st. None \<notin> set (unit_entries st)) stages"
  shows "set (map champion ranking) = set (map (resolved w) (damage_records stages)) \<and>
    distinct (map champion ranking) \<and>
    (\<forall>c \<in> set ranking.
        totalDamage c = total_of w (champion c) (damage_records stages) \<and>
        roundsPlayed c = count_of w (champion c) (damage_records stages) \<and>
        carry_maxStars c = stars_of w (champion c) (damage_records stages) \<and>
        avgDamage c = Math_round_div (totalDamage c) (roundsPlayed c)) \<and>
    sorted_wrt (\<lambda>a b. totalDamage b \<le> totalDamage a) ranking \<and>
    (\<forall>t. map champion (filter (\<lambda>c. totalDamage c = t) ranking) =
         filter (\<lambda>n. total_of w n (damage_records stages) = t)
           (first_seen (map (resolved w) (damage_records stages))))"
proof -
  let ?us = "damage_records stages"
  let ?zero = "\<lparr>total = 0, count = 0, maxStars = Num 0\<rparr>"
  from carry_ranking [OF assms] obtain d where
    r: "ranking = sort_key (\<lambda>c. - totalDamage c) (map carry_entry d)" and
    k: "map fst d = first_seen (map (resolved w) ?us)" and
    v: "\<forall>e \<in> set d. snd e = stat_fold (records_of w (fst e) ?us) ?zero"
    by (elim exE conjE)
  have ch: "map champion (map carry_entry d) = map fst d"
    by (simp add: carry_entry_fields comp_def)
  have tot: "totalDamage (carry_entry e) = total_of w (fst e) ?us" if "e \<in> set d" for e
    using v that by (simp add: carry_entry_fields stat_fold_fields total_of_def)
  have names: "set (map champion ranking) = set (map (resolved w) ?us)"
  proof -
    have "set (map champion ranking) = set (map champion (map carry_entry d))"
      unfolding r by (simp add: image_image)
    also have "\<dots> = set (map (resolved w) ?us)"
      unfolding ch k by (rule first_seen_set)
    finally show ?thesis .
  qed
  have dist: "distinct (map champion ranking)"
  proof -
    have "distinct (map champion (map carry_entry d))"
      unfolding ch k by (rule first_seen_distinct)
    then have "distinct (map carry_entry d) \<and> inj_on champion (set (map carry_entry d))"
      by (rule iffD1 [OF distinct_map])
    then have "distinct ranking \<and> inj_on champion (set ranking)"
      unfolding r by (simp del: set_map)
    then show ?thesis
      by (rule iffD2 [OF distinct_map])
  qed
  have fields: "totalDamage c = total_of w (champion c) ?us \<and>
        roundsPlayed c = count_of w (champion c) ?us \<and>
        carry_maxStars c = stars_of w (champion c) ?us \<and>
        avgDamage c = Math_round_div (totalDamage c) (roundsPlayed c)" if "c \<in> set ranking" for c
  proof -
    from that obtain e where e: "e \<in> set d" "c = carry_entry e"
      unfolding r by auto
    with v have "snd e = stat_fold (records_of w (fst e) ?us) ?zero" by simp
    then show ?thesis
      by (simp add: e(2) carry_entry_fields stat_fold_fields total_of_def count_of_def stars_of_def)
  qed
  have sorted: "sorted_wrt (\<lambda>a b. totalDamage b \<le> totalDamage a) ranking"
  proof -
    have "sorted (map (\<lambda>c. - totalDamage c) ranking)"
      unfolding r by (rule sorted_sort_key)
    then show ?thesis by (simp add: sorted_map)
  qed
  have stable: "map champion (filter (\<lambda>c. totalDamage c = t) ranking) =
         filter (\<lambda>n. total_of w n ?us = t) (first_seen (map (resolved w) ?us))" for t
  proof -
    have "filter (\<lambda>c. totalDamage c = t) ranking = filter (\<lambda>c. - totalDamage c = - t) ranking"
      by simp
    also have "\<dots> = filter (\<lambda>c. - totalDamage c = - t) (map carry_entry d)"
      unfolding r by (rule sort_key_stable)
    also have "\<dots> = map carry_entry (filter (\<lambda>e. totalDamage (carry_entry e) = t) d)"
      by (simp add: filter_map comp_def)
    also have "filter (\<lambda>e. totalDamage (carry_entry e) = t) d =
               filter (\<lambda>e. total_of w (fst e) ?us = t) d"
      by (rule filter_cong) (simp_all add: tot)
    finally have "map champion (filter (\<lambda>c. totalDamage c = t) ranking) =
                  map fst (filter (\<lambda>e. total_of w (fst e) ?us = t) d)"
      by (simp add: carry_entry_fields comp_def)
    also have "\<dots> = filter (\<lambda>n. total_of w n ?us = t) (map fst d)"
      by (simp add: filter_map comp_def)
    finally show ?thesis unfolding k .
  qed
  show ?thesis
    using names dist fields sorted stable
    by (intro conjI allI ballI) simp_all
qed

lemma calculateCarryStats_named:
  assumes "list_all (\<lambda>u. unit_name u \<noteq> None) (damage_records stages)"
    and objs: "list_all (\<lambda>st. None \<notin> set (unit_entries st)) stages"
  shows "\<exists>ranking. calculateCarryStats w stages = Inr ranking"
proof -
  have "list_all (\<lambda>u. \<forall>d. \<exists>d'. add_unit w u d = Inr d') (damage_records stages)"
    by (rule list_all_weaken [OF assms(1)]) (simp add: add_unit_ok)
  then have "\<exists>d'. for_each (add_unit w) (damage_records stages) [] = Inr d'"
    by (rule for_each_ok)
  then show ?thesis
    by (auto simp: calculateCarryStats_def for_each_records [OF objs])
qed

text \<open>
  Claim C4, amended. Let every entry of the damage units of the stages be an object, let
  the records with positive damage carry their names, and let the names they resolve to
  be ordinary names. Then \<open>calculateCarryStats\<close> returns a
  ranking with one entry per such name; the entry holds the sum of the damage of the
  name's records, their number and their highest star level, and its average is
  \<^verbatim>\<open>Math.round\<close> of total by count. The ranking is sorted by total damage, highest
  first, and entries with the same total follow the order in which their names were first
  seen. Records without positive damage add nothing and raise nothing. The records
  A:100, B:50, A:50 rank as A with total 150 and average 75, then B with total 50 and
  average 50.
\<close>

theorem carry_statistics:
  assumes "list_all (\<lambda>st. None \<notin> set (unit_entries st)) stages"
    and "list_all (\<lambda>u. unit_name u \<noteq> None) (damage_records stages)"
    and "list_all (\<lambda>u. plain_name (resolved w u)) (damage_records stages)"
  shows "(\<exists>ranking. calculateCarryStats w stages = Inr ranking \<and>
      set (map champion ranking) = set (map (resolved w) (damage_records stages)) \<and>
      distinct (map champion ranking) \<and>
      (\<forall>c \<in> set ranking.
          totalDamage c = total_of w (champion c) (damage_records stages) \<and>
          roundsPlayed c = count_of w (champion c) (damage_records stages) \<and>
          carry_maxStars c = stars_of w (champion c) (damage_records stages) \<and>
          avgDamage c = Math_round_div (totalDamage c) (roundsPlayed c)) \<and>
      sorted_wrt (\<lambda>a b. totalDamage b \<le> totalDamage a) ranking \<and>
      (\<forall>t. map champion (filter (\<lambda>c. totalDamage c = t) ranking) =
           filter (\<lambda>n. total_of w n (damage_records stages) = t)
             (first_seen (map (resolved w) (damage_records stages))))) \<and>
    (\<forall>u d. \<not> has_damage u \<longrightarrow> add_unit w u d = Inr d) \<and>
    calculateCarryStats (example_world None) [hit ''A'' 100, hit ''B'' 50, hit ''A'' 50] =
     Inr [\<lparr>champion = ''A'', totalDamage = 150, avgDamage = 75, roundsPlayed = 2,
            carry_maxStars = Num 2\<rparr>,
          \<lparr>champion = ''B'', totalDamage = 50, avgDamage = 50, roundsPlayed = 1,
            carry_maxStars = Num 2\<rparr>]"
proof -
  from calculateCarryStats_named [OF assms(2,1), of w] obtain ranking
    where r: "calculateCarryStats w stages = Inr ranking" by (elim exE)
  from carry_ranking_properties [OF r assms(3,1)] r
  have "\<exists>ranking. calculateCarryStats w stages = Inr ranking \<and>
      set (map champion ranking) = set (map (resolved w) (damage_records stages)) \<and>
      distinct (map champion ranking) \<and>
      (\<forall>c \<in> set ranking.
          totalDamage c = total_of w (champion c) (damage_records stages) \<and>
          roundsPlayed c = count_of w (champion c) (damage_records stages) \<and>
          carry_maxStars c = stars_of w (champion c) (damage_records stages) \<and>
          avgDamage c = Math_round_div (totalDamage c) (roundsPlayed c)) \<and>
      sorted_wrt (\<lambda>a b. totalDamage b \<le> totalDamage a) ranking \<and>
      (\<forall>t. map champion (filter (\<lambda>c. totalDamage c = t) ranking) =
           filter (\<lambda>n. total_of w n (damage_records stages) = t)
             (first_seen (map (resolved w) (damage_records stages))))"
    by (intro exI [of _ ranking] conjI) simp_all
  then show ?thesis
    using no_damage_no_error example_ranking by simp
qed

theorem carry_statistics_witness:
  "list_all (\<lambda>st. None \<notin> set (unit_entries st)) [hit ''A'' 100, hit ''B'' 50, hit ''A'' 50] \<and>
   list_all (\<lambda>u. unit_name u \<noteq> None)
     (damage_records [hit ''A'' 100, hit ''B'' 50, hit ''A'' 50]) \<and>
   list_all (\<lambda>u. plain_name (resolved (example_world None) u))
     (damage_records [hit ''A'' 100, hit ''B'' 50, hit ''A'' 50]) \<and>
   total_of (example_world None) ''A'' (damage_records [hit ''A'' 100, hit ''B'' 50, hit ''A'' 50]) =
     150 \<and>
   count_of (example_world None) ''A'' (damage_records [hit ''A'' 100, hit ''B'' 50, hit ''A'' 50]) =
     2"
proof -
  have p: "list_all (\<lambda>u. plain_name (resolved (example_world None) u))
     (damage_records [hit ''A'' 100, hit ''B'' 50, hit ''A'' 50])"
    by code_simp
  have n: "list_all (\<lambda>u. unit_name u \<noteq> None)
     (damage_records [hit ''A'' 100, hit ''B'' 50, hit ''A'' 50])"
    by code_simp
  have o: "list_all (\<lambda>st. None \<notin> set (unit_entries st))
             [hit ''A'' 100, hit ''B'' 50, hit ''A'' 50]"
    by (simp add: unit_entries_def hit_def no_stage_def)
  show ?thesis
    using carry_statistics [OF o n p] example_ranking o n p
    by simp
qed

text \<open>
  Claim C4 as stated fails. The average is rounded: the records A:1 and A:2 give the
  total 3, the count 2 and the average 2, and 2 times 2 is not 3. A name that is an
  array index is enumerated before the other names, whenever it was first seen: of B:50
  and 7:50, the later 7 ranks first. A name that objects inherit gets no entry at all.
  And an entry of the damage units that is \<^verbatim>\<open>null\<close>, which is no record with positive
  damage, makes \<open>calculateCarryStats\<close> throw.
\<close>

theorem average_is_rounded:
  "calculateCarryStats (example_world None) [hit ''A'' 1, hit ''A'' 2] =
     Inr [\<lparr>champion = ''A'', totalDamage = 3, avgDamage = 2, roundsPlayed = 2,
            carry_maxStars = Num 2\<rparr>] \<and>
   (2::int) * 2 \<noteq> 3 \<and>
   calculateCarryStats (example_world None) [hit ''B'' 50, hit ''7'' 50] =
     Inr [\<lparr>champion = ''7'', totalDamage = 50, avgDamage = 50, roundsPlayed = 1,
            carry_maxStars = Num 2\<rparr>,
          \<lparr>champion = ''B'', totalDamage = 50, avgDamage = 50, roundsPlayed = 1,
            carry_maxStars = Num 2\<rparr>] \<and>
   calculateCarryStats (example_world None) [hit ''constructor'' 50] = Inr [] \<and>
   damage_records [null_unit_stage] = [] \<and>
   calculateCarryStats (example_world None) [null_unit_stage] =
     Inl (TypeError ''Cannot read properties of null (reading 'damage')'')"
  by code_simp


end
